theory Spec2Isabelle
  imports Main "HOL-Library.Word" "HOL-Library.Monad_Syntax"
begin

unbundle bit_operations_syntax

section \<open>Packet framing (af_unix_pkt_hdr_t)\<close>

text \<open>
  The header that precedes every packet sent to a peer.  The fields are the ones of
  the class \<^verbatim>\<open>af_unix_pkt_hdr_t\<close>: a 16-bit total length, two 8-bit fields and two
  16-bit lengths, which makes \<^verbatim>\<open>sizeof (af_unix_pkt_hdr_t)\<close> eight bytes.
\<close>

type_synonym uint8_t = "8 word"
type_synonym uint16_t = "16 word"
type_synonym uint32_t = "32 word"
type_synonym size_t = "64 word"

record af_unix_pkt_hdr_t =
  pckt_len :: uint16_t
  shut_info :: uint8_t
  name_len :: uint8_t
  cmsg_len :: uint16_t
  data_len :: uint16_t

definition sizeof_af_unix_pkt_hdr_t :: size_t where
  "sizeof_af_unix_pkt_hdr_t = 8"

text \<open>
  \<^verbatim>\<open>init\<close> assigns the four arguments and then computes \<^verbatim>\<open>pckt_len\<close> from the
  fields just stored.  The sum is formed in \<^verbatim>\<open>size_t\<close> and narrowed to 16 bits by the
  assignment.
\<close>

definition init :: "af_unix_pkt_hdr_t \<Rightarrow> uint8_t \<Rightarrow> uint8_t \<Rightarrow> uint16_t \<Rightarrow> uint16_t
    \<Rightarrow> af_unix_pkt_hdr_t" where
  "init this s n c d =
     (let this = this\<lparr>shut_info := s\<rparr>;
          this = this\<lparr>name_len := n\<rparr>;
          this = this\<lparr>cmsg_len := c\<rparr>;
          this = this\<lparr>data_len := d\<rparr>
      in this\<lparr>pckt_len :=
           ucast (sizeof_af_unix_pkt_hdr_t + ucast (name_len this)
                  + ucast (cmsg_len this) + ucast (data_len this))\<rparr>)"

definition AF_UNIX_PKT_OFFSETOF_NAME :: "af_unix_pkt_hdr_t \<Rightarrow> size_t" where
  "AF_UNIX_PKT_OFFSETOF_NAME phdr = sizeof_af_unix_pkt_hdr_t"

definition AF_UNIX_PKT_OFFSETOF_CMSG :: "af_unix_pkt_hdr_t \<Rightarrow> size_t" where
  "AF_UNIX_PKT_OFFSETOF_CMSG phdr = sizeof_af_unix_pkt_hdr_t + ucast (name_len phdr)"

definition AF_UNIX_PKT_OFFSETOF_DATA :: "af_unix_pkt_hdr_t \<Rightarrow> size_t" where
  "AF_UNIX_PKT_OFFSETOF_DATA phdr =
     sizeof_af_unix_pkt_hdr_t + ucast (name_len phdr) + ucast (cmsg_len phdr)"

section \<open>Platform values\<close>

text \<open>
  Error numbers are plain \<^verbatim>\<open>int\<close>s in the code (zero means no error, and the exit code
  of the waiter thread is stored into \<^verbatim>\<open>errno\<close>), so they are integers here.  The values
  are those of newlib's \<^verbatim>\<open>sys/errno.h\<close>.
\<close>

definition ENOENT :: int where "ENOENT = 2"
definition EINTR :: int where "EINTR = 4"
definition EIO :: int where "EIO = 5"
definition EAGAIN :: int where "EAGAIN = 11"
definition EFAULT :: int where "EFAULT = 14"
definition EINVAL :: int where "EINVAL = 22"
definition EDOM :: int where "EDOM = 33"
definition EPROTO :: int where "EPROTO = 71"
definition EOPNOTSUPP :: int where "EOPNOTSUPP = 95"
definition ENOBUFS :: int where "ENOBUFS = 105"
definition EAFNOSUPPORT :: int where "EAFNOSUPPORT = 106"
definition ENOPROTOOPT :: int where "ENOPROTOOPT = 109"
definition EADDRINUSE :: int where "EADDRINUSE = 112"
definition ECONNABORTED :: int where "ECONNABORTED = 113"
definition ETIMEDOUT :: int where "ETIMEDOUT = 116"
definition EINPROGRESS :: int where "EINPROGRESS = 119"
definition EALREADY :: int where "EALREADY = 120"
definition EDESTADDRREQ :: int where "EDESTADDRREQ = 121"
definition EPROTONOSUPPORT :: int where "EPROTONOSUPPORT = 123"
definition EADDRNOTAVAIL :: int where "EADDRNOTAVAIL = 125"
definition EISCONN :: int where "EISCONN = 127"
definition ENOTCONN :: int where "ENOTCONN = 128"

definition AF_UNIX :: uint16_t where "AF_UNIX = 1"
definition SOCK_STREAM :: int where "SOCK_STREAM = 1"
definition SOCK_DGRAM :: int where "SOCK_DGRAM = 2"
definition SOCK_NONBLOCK :: int where "SOCK_NONBLOCK = 0x01000000"
definition SOCK_CLOEXEC :: int where "SOCK_CLOEXEC = 0x02000000"

text \<open>
  An \<^verbatim>\<open>NTSTATUS\<close> is a signed 32-bit value; \<^verbatim>\<open>NT_SUCCESS\<close> holds of the
  non-negative ones, among them \<^verbatim>\<open>STATUS_PENDING\<close>.  The values are the kernel's.
\<close>

type_synonym NTSTATUS = "32 word"

definition NT_SUCCESS :: "NTSTATUS \<Rightarrow> bool" where
  "NT_SUCCESS status \<longleftrightarrow> 0 \<le> sint status"

definition STATUS_SUCCESS :: NTSTATUS where "STATUS_SUCCESS = 0"
definition STATUS_PENDING :: NTSTATUS where "STATUS_PENDING = 0x103"
definition STATUS_OBJECT_NAME_EXISTS :: NTSTATUS where "STATUS_OBJECT_NAME_EXISTS = 0x40000000"
definition STATUS_INVALID_DEVICE_REQUEST :: NTSTATUS where
  "STATUS_INVALID_DEVICE_REQUEST = 0xC0000010"
definition STATUS_OBJECT_NAME_NOT_FOUND :: NTSTATUS where
  "STATUS_OBJECT_NAME_NOT_FOUND = 0xC0000034"
definition STATUS_OBJECT_NAME_COLLISION :: NTSTATUS where
  "STATUS_OBJECT_NAME_COLLISION = 0xC0000035"
definition STATUS_THREAD_IS_TERMINATING :: NTSTATUS where
  "STATUS_THREAD_IS_TERMINATING = 0xC000004B"
definition STATUS_INSUFFICIENT_RESOURCES :: NTSTATUS where
  "STATUS_INSUFFICIENT_RESOURCES = 0xC000009A"
definition STATUS_INSTANCE_NOT_AVAILABLE :: NTSTATUS where
  "STATUS_INSTANCE_NOT_AVAILABLE = 0xC00000AB"
definition STATUS_PIPE_NOT_AVAILABLE :: NTSTATUS where "STATUS_PIPE_NOT_AVAILABLE = 0xC00000AC"
definition STATUS_PIPE_BUSY :: NTSTATUS where "STATUS_PIPE_BUSY = 0xC00000AE"
definition STATUS_PIPE_CONNECTED :: NTSTATUS where "STATUS_PIPE_CONNECTED = 0xC00000B2"
definition STATUS_PIPE_LISTENING :: NTSTATUS where "STATUS_PIPE_LISTENING = 0xC00000B3"
definition STATUS_IO_TIMEOUT :: NTSTATUS where "STATUS_IO_TIMEOUT = 0xC00000B5"

definition STATUS_PIPE_NO_INSTANCE_AVAILABLE :: "NTSTATUS \<Rightarrow> bool" where
  "STATUS_PIPE_NO_INSTANCE_AVAILABLE s \<longleftrightarrow>
     s = STATUS_INSTANCE_NOT_AVAILABLE \<or> s = STATUS_PIPE_NOT_AVAILABLE \<or> s = STATUS_PIPE_BUSY"

text \<open>Default timeout of connect: 20 seconds, in units of 100 ns, relative.\<close>

definition NS100PERSEC :: int where "NS100PERSEC = 10000000"
definition AF_UNIX_CONNECT_TIMEOUT :: int where "AF_UNIX_CONNECT_TIMEOUT = - 20 * NS100PERSEC"

text \<open>A handle is pointer-sized; \<^verbatim>\<open>NULL\<close> is 0 and \<^verbatim>\<open>INVALID_HANDLE_VALUE\<close> is -1.\<close>

type_synonym HANDLE = "64 word"

definition INVALID_HANDLE_VALUE :: HANDLE where "INVALID_HANDLE_VALUE = - 1"

text \<open>What a wait on a handle reports (\<^verbatim>\<open>cygwait\<close>, \<^verbatim>\<open>WaitForMultipleObjects\<close>).\<close>

datatype waitret = WAIT_OBJECT_0 | WAIT_OBJECT_1 | WAIT_TIMEOUT | WAIT_SIGNALED | WAIT_CANCELED
  | WAIT_FAILED

section \<open>Memory\<close>

text \<open>
  A byte of memory is either a value or indeterminate (\<open>None\<close>): storage that was
  allocated and never written.  Copying indeterminate bytes is harmless; a computation that
  depends on one has no result.
\<close>

type_synonym mbyte = "uint8_t option"

definition memcpy :: "mbyte list \<Rightarrow> mbyte list \<Rightarrow> nat \<Rightarrow> mbyte list" where
  "memcpy dst src n = take n (src @ replicate n None) @ drop n dst"

definition poke :: "mbyte list \<Rightarrow> nat \<Rightarrow> mbyte list \<Rightarrow> mbyte list" where
  "poke m off bs = take off m @ bs @ drop (off + length bs) m"

definition rd_u8 :: "mbyte list \<Rightarrow> nat \<Rightarrow> uint8_t option" where
  "rd_u8 m i = (if i < length m then m ! i else None)"

definition rd_u16 :: "mbyte list \<Rightarrow> nat \<Rightarrow> uint16_t option" where
  "rd_u16 m i = do {
     b0 \<leftarrow> rd_u8 m i;
     b1 \<leftarrow> rd_u8 m (i + 1);
     Some (of_nat (unat b0 + 256 * unat b1))
   }"

definition rd_i32 :: "mbyte list \<Rightarrow> nat \<Rightarrow> int option" where
  "rd_i32 m i = do {
     b0 \<leftarrow> rd_u8 m i;
     b1 \<leftarrow> rd_u8 m (i + 1);
     b2 \<leftarrow> rd_u8 m (i + 2);
     b3 \<leftarrow> rd_u8 m (i + 3);
     let v = int (unat b0) + 256 * int (unat b1) + 65536 * int (unat b2)
             + 16777216 * int (unat b3);
     Some (if v < 2147483648 then v else v - 4294967296)
   }"

definition le16 :: "uint16_t \<Rightarrow> mbyte list" where
  "le16 w = [Some (of_nat (unat w mod 256)), Some (of_nat (unat w div 256))]"

definition le32 :: "int \<Rightarrow> mbyte list" where
  "le32 v = (let u = nat (v mod 4294967296) in
     [Some (of_nat (u mod 256)), Some (of_nat (u div 256 mod 256)),
      Some (of_nat (u div 65536 mod 256)), Some (of_nat (u div 16777216))])"

section \<open>Socket addresses (sun_name_t)\<close>

text \<open>
  A \<^verbatim>\<open>sun_name_t\<close> holds a length \<^verbatim>\<open>un_len\<close> and a union of a
  \<^verbatim>\<open>struct sockaddr_un\<close> (\<^verbatim>\<open>un\<close>: the 16-bit family, little-endian, then 108 path
  bytes) with \<^verbatim>\<open>_nul\<close>, one byte longer.  The field \<open>un\<close> below is that union, 111
  bytes; \<^verbatim>\<open>sizeof (struct sockaddr_un)\<close> is 110 and \<^verbatim>\<open>sizeof (sa_family_t)\<close> is 2.
\<close>

record sun_name_t =
  un_len :: int
  un :: "mbyte list"

definition sizeof_sockaddr_un :: nat where "sizeof_sockaddr_un = 110"
definition sizeof_sa_family_t :: nat where "sizeof_sa_family_t = 2"

definition sun_family :: "sun_name_t \<Rightarrow> uint16_t option" where
  "sun_family sun = rd_u16 (un sun) 0"

definition sun_path_at :: "sun_name_t \<Rightarrow> nat \<Rightarrow> uint8_t option" where
  "sun_path_at sun i = rd_u8 (un sun) (sizeof_sa_family_t + i)"

definition raw_sun :: "mbyte list" where
  "raw_sun = replicate (sizeof_sockaddr_un + 1) None"

text \<open>\<^verbatim>\<open>sun_name_t::sun_name_t ()\<close>\<close>

definition sun_name_default :: sun_name_t where
  "sun_name_default =
     \<lparr>un_len = int sizeof_sa_family_t,
      un = poke (poke raw_sun 0 (le16 AF_UNIX)) sizeof_sockaddr_un [Some 0]\<rparr>"

text \<open>
  \<^verbatim>\<open>sun_name_t::sun_name_t (const struct sockaddr *name, socklen_t namelen)\<close>.  The name
  is the memory at the pointer, \<open>None\<close> for a null pointer.
\<close>

definition sun_name_from :: "mbyte list option \<Rightarrow> int \<Rightarrow> sun_name_t" where
  "sun_name_from name namelen =
     (let namelen = (if namelen < 0 then 0 else namelen);
          len = (if namelen < int sizeof_sockaddr_un then namelen else int sizeof_sockaddr_un);
          u = (case name of None \<Rightarrow> raw_sun | Some bytes \<Rightarrow> memcpy raw_sun bytes (nat len))
      in \<lparr>un_len = len, un = poke u sizeof_sockaddr_un [Some 0]\<rparr>)"

text \<open>
  The class declaration of \<^verbatim>\<open>sun_name_t\<close> is not part of the sources, so the order of
  its two members is a parameter: the offsets of \<^verbatim>\<open>un_len\<close> and of the union, and
  the size of the object.  \<open>len_first\<close> puts the length in front, \<open>un_first\<close> the
  union.
\<close>

record sun_layout =
  off_un_len :: nat
  off_un :: nat
  sizeof_sun_name_t :: nat

definition len_first :: sun_layout where
  "len_first = \<lparr>off_un_len = 0, off_un = 4, sizeof_sun_name_t = 116\<rparr>"

definition un_first :: sun_layout where
  "un_first = \<lparr>off_un_len = 112, off_un = 0, sizeof_sun_name_t = 116\<rparr>"

definition sun_image :: "sun_layout \<Rightarrow> sun_name_t \<Rightarrow> mbyte list" where
  "sun_image L sun =
     poke (poke (replicate (sizeof_sun_name_t L) None) (off_un L) (un sun))
          (off_un_len L) (le32 (un_len sun))"

section \<open>Process state, locks and the socket object\<close>

text \<open>
  What the kernel is asked to do with a pipe handle, in the order of the requests.
\<close>

datatype kevent =
    Set_pipe_mode HANDLE bool
  | Write_file HANDLE af_unix_pkt_hdr_t "mbyte list"
  | Pipe_disconnect HANDLE
  | Close_handle HANDLE

text \<open>
  The part of the process an operation works on besides the socket itself: the heap cells
  that hold \<^verbatim>\<open>sun_name_t\<close> objects (by address; \<open>None\<close> is a cell that is not
  allocated), the calling thread's \<^verbatim>\<open>errno\<close>, the requests made to the kernel so far,
  and \<^verbatim>\<open>geterrno_from_nt_status\<close>, the table from kernel status to error number,
  which the sources use and do not contain.
\<close>

record proc =
  heap :: "nat \<Rightarrow> sun_name_t option"
  errno :: int
  klog :: "kevent list"
  geterrno_from_nt_status :: "NTSTATUS \<Rightarrow> int"

definition set_errno :: "int \<Rightarrow> proc \<Rightarrow> proc" where
  "set_errno e p = p\<lparr>errno := e\<rparr>"

definition seterrno_from_nt_status :: "NTSTATUS \<Rightarrow> proc \<Rightarrow> proc" where
  "seterrno_from_nt_status status p = set_errno (geterrno_from_nt_status p status) p"

definition kernel :: "kevent \<Rightarrow> proc \<Rightarrow> proc" where
  "kernel ev p = p\<lparr>klog := klog p @ [ev]\<rparr>"

text \<open>
  \<^verbatim>\<open>new sun_name_t (name, len)\<close> at the address the allocator hands out, and
  \<^verbatim>\<open>delete\<close>.  An allocator never hands out a cell that is in use, and a cell can be
  freed once.
\<close>

definition new_sun_name :: "nat \<Rightarrow> sun_name_t \<Rightarrow> proc \<Rightarrow> proc option" where
  "new_sun_name a sun p =
     (if heap p a = None then Some (p\<lparr>heap := (heap p)(a \<mapsto> sun)\<rparr>) else None)"

definition delete_sun_name :: "nat \<Rightarrow> proc \<Rightarrow> proc option" where
  "delete_sun_name a p =
     (if heap p a = None then None else Some (p\<lparr>heap := (heap p)(a := None)\<rparr>))"

text \<open>
  A slim reader/writer lock.  The operations are modelled as run by one thread, so an
  acquisition that would have to wait never returns.
\<close>

datatype srwlock = Unlocked | Shared nat | Exclusive

definition AcquireSRWLockExclusive :: "srwlock \<Rightarrow> srwlock option" where
  "AcquireSRWLockExclusive l = (if l = Unlocked then Some Exclusive else None)"

definition ReleaseSRWLockExclusive :: "srwlock \<Rightarrow> srwlock option" where
  "ReleaseSRWLockExclusive l = (if l = Exclusive then Some Unlocked else None)"

definition AcquireSRWLockShared :: "srwlock \<Rightarrow> srwlock option" where
  "AcquireSRWLockShared l =
     (case l of Unlocked \<Rightarrow> Some (Shared 1) | Shared n \<Rightarrow> Some (Shared (Suc n))
      | Exclusive \<Rightarrow> None)"

definition ReleaseSRWLockShared :: "srwlock \<Rightarrow> srwlock option" where
  "ReleaseSRWLockShared l =
     (case l of Shared n \<Rightarrow> Some (if n \<le> 1 then Unlocked else Shared (n - 1)) | _ \<Rightarrow> None)"

datatype bind_state = unbound | bind_pending | bound

datatype conn_state = unconnected | connect_pending | connected | connect_failed | listener

record ucred =
  pid :: "32 word"
  uid :: "32 word"
  gid :: "32 word"

text \<open>
  The fields of \<^verbatim>\<open>fhandler_socket_unix\<close> that the operations below read or write.
  Pointers to \<^verbatim>\<open>sun_name_t\<close> are heap addresses, \<open>None\<close> for \<^verbatim>\<open>NULL\<close>.
  \<open>pipe_name\<close> is the native path kept in \<^verbatim>\<open>pc\<close>.  \<open>connect_trace\<close> is not a field
  of the class: it records every value assigned to \<^verbatim>\<open>connect_state\<close>, oldest first.
\<close>

record fhandler_socket_unix =
  addr_family :: int
  socket_type :: int
  is_nonblocking :: bool
  close_on_exec :: bool
  io_handle :: HANDLE
  backing_file_handle :: HANDLE
  pipe_name :: string
  unique_id :: "64 word"
  ino :: "64 word"
  sun_path :: "nat option"
  peer_sun_path :: "nat option"
  peer_cred :: ucred
  rmem :: int
  wmem :: int
  rcvtimeo :: "32 word"
  sndtimeo :: "32 word"
  saw_reuseaddr :: int
  so_error :: "32 word"
  binding_state :: bind_state
  connect_state :: conn_state
  bind_lock :: srwlock
  conn_lock :: srwlock
  io_lock :: srwlock
  connect_wait_thr :: HANDLE
  cwt_termination_evt :: HANDLE
  cwt_param :: bool
  connect_trace :: "conn_state list"

definition set_connect_state :: "conn_state \<Rightarrow> fhandler_socket_unix \<Rightarrow> fhandler_socket_unix"
  where
  "set_connect_state v s = s\<lparr>connect_state := v, connect_trace := connect_trace s @ [v]\<rparr>"

definition set_cred :: "fhandler_socket_unix \<Rightarrow> fhandler_socket_unix" where
  "set_cred s = s\<lparr>peer_cred := \<lparr>pid = 0, uid = - 1, gid = - 1\<rparr>\<rparr>"

text \<open>
  The object as the constructor leaves it: the storage of a handler is zeroed when it is
  allocated, and the constructor sets the credentials.
\<close>

definition zeroed :: fhandler_socket_unix where
  "zeroed = \<lparr>addr_family = 0, socket_type = 0, is_nonblocking = False, close_on_exec = False,
     io_handle = 0, backing_file_handle = 0, pipe_name = [], unique_id = 0, ino = 0,
     sun_path = None, peer_sun_path = None, peer_cred = \<lparr>pid = 0, uid = 0, gid = 0\<rparr>,
     rmem = 0, wmem = 0, rcvtimeo = 0, sndtimeo = 0, saw_reuseaddr = 0, so_error = 0,
     binding_state = unbound, connect_state = unconnected,
     bind_lock = Unlocked, conn_lock = Unlocked, io_lock = Unlocked,
     connect_wait_thr = 0, cwt_termination_evt = 0, cwt_param = False, connect_trace = []\<rparr>"

definition constructed :: fhandler_socket_unix where
  "constructed = set_cred zeroed"

text \<open>
  \<^verbatim>\<open>socket\<close>.  \<open>new_id\<close> is the number \<^verbatim>\<open>set_unique_id\<close> draws for this socket.
\<close>

definition socket :: "int \<Rightarrow> int \<Rightarrow> int \<Rightarrow> int \<Rightarrow> 64 word \<Rightarrow> fhandler_socket_unix \<Rightarrow> proc
    \<Rightarrow> int \<times> fhandler_socket_unix \<times> proc" where
  "socket af type protocol flags new_id s p =
     (if type \<noteq> SOCK_STREAM \<and> type \<noteq> SOCK_DGRAM then (- 1, s, set_errno EINVAL p)
      else if protocol \<noteq> 0 then (- 1, s, set_errno EPROTONOSUPPORT p)
      else
        let s = s\<lparr>rmem := 262144\<rparr>;
            s = s\<lparr>wmem := 262144\<rparr>;
            s = s\<lparr>addr_family := af\<rparr>;
            s = s\<lparr>socket_type := type\<rparr>;
            s = (if flags AND SOCK_NONBLOCK \<noteq> 0 then s\<lparr>is_nonblocking := True\<rparr> else s);
            s = (if flags AND SOCK_CLOEXEC \<noteq> 0 then s\<lparr>close_on_exec := True\<rparr> else s);
            s = s\<lparr>io_handle := 0\<rparr>;
            s = s\<lparr>unique_id := new_id\<rparr>;
            s = s\<lparr>ino := unique_id s\<rparr>
        in (0, s, p))"

section \<open>Names of the socket and of its peer\<close>

text \<open>
  \<^verbatim>\<open>set_sun_path (un, unlen)\<close> and \<^verbatim>\<open>set_peer_sun_path (un, unlen)\<close>.  Both test
  \<^verbatim>\<open>peer_sun_path\<close> and delete the object it points to; neither clears the pointer it
  tested.  The assignment of \<^verbatim>\<open>NULL\<close> for a null \<^verbatim>\<open>un\<close> is overwritten by the
  assignment of the new object that follows it.  \<open>a\<close> is the address of the new object,
  \<open>unp\<close> the memory at \<^verbatim>\<open>un\<close>.
\<close>

definition set_sun_path :: "nat \<Rightarrow> mbyte list option \<Rightarrow> int \<Rightarrow> fhandler_socket_unix \<Rightarrow> proc
    \<Rightarrow> (fhandler_socket_unix \<times> proc) option" where
  "set_sun_path a unp unlen s p = do {
     p \<leftarrow> (case peer_sun_path s of Some q \<Rightarrow> delete_sun_name q p | None \<Rightarrow> Some p);
     let s = (if unp = None then s\<lparr>sun_path := None\<rparr> else s);
     p \<leftarrow> new_sun_name a (sun_name_from unp unlen) p;
     Some (s\<lparr>sun_path := Some a\<rparr>, p)
   }"

definition set_peer_sun_path :: "nat \<Rightarrow> mbyte list option \<Rightarrow> int \<Rightarrow> fhandler_socket_unix
    \<Rightarrow> proc \<Rightarrow> (fhandler_socket_unix \<times> proc) option" where
  "set_peer_sun_path a unp unlen s p = do {
     p \<leftarrow> (case peer_sun_path s of Some q \<Rightarrow> delete_sun_name q p | None \<Rightarrow> Some p);
     let s = (if unp = None then s\<lparr>peer_sun_path := None\<rparr> else s);
     p \<leftarrow> new_sun_name a (sun_name_from unp unlen) p;
     Some (s\<lparr>peer_sun_path := Some a\<rparr>, p)
   }"

text \<open>
  Modelled from the spec: the one-argument overloads \<^verbatim>\<open>set_sun_path (sun_name_t *)\<close>
  and \<^verbatim>\<open>set_peer_sun_path (sun_name_t *)\<close> are defined in the class declaration, which
  is missing.  The bound name is ``set by bind'' and the peer name ``set by connect/accept'',
  both from a \<^verbatim>\<open>sun_name_t\<close>: the overload passes the object's \<^verbatim>\<open>un\<close> and
  \<^verbatim>\<open>un_len\<close> on, and a null pointer as a null name of length 0.
\<close>

definition set_sun_path_snt :: "nat \<Rightarrow> sun_name_t option \<Rightarrow> fhandler_socket_unix \<Rightarrow> proc
    \<Rightarrow> (fhandler_socket_unix \<times> proc) option" where
  "set_sun_path_snt a snt s p =
     (case snt of Some sun \<Rightarrow> set_sun_path a (Some (un sun)) (un_len sun) s p
      | None \<Rightarrow> set_sun_path a None 0 s p)"

definition set_peer_sun_path_snt :: "nat \<Rightarrow> sun_name_t option \<Rightarrow> fhandler_socket_unix \<Rightarrow> proc
    \<Rightarrow> (fhandler_socket_unix \<times> proc) option" where
  "set_peer_sun_path_snt a snt s p =
     (case snt of Some sun \<Rightarrow> set_peer_sun_path a (Some (un sun)) (un_len sun) s p
      | None \<Rightarrow> set_peer_sun_path a None 0 s p)"

text \<open>
  \<^verbatim>\<open>getsockname\<close> and \<^verbatim>\<open>getpeername\<close>.  The local \<^verbatim>\<open>sun\<close> is default-constructed;
  the stored name is copied to the address of the whole object, not of its member
  \<^verbatim>\<open>un\<close>, and the same address is the source of the copy to the caller.  The local is
  therefore kept as its bytes under the layout \<open>L\<close>.  \<open>name\<close> is the caller's buffer
  and \<open>namelen\<close> the value of \<^verbatim>\<open>*namelen\<close>; the result is the return value, the
  buffer and \<^verbatim>\<open>*namelen\<close> afterwards.  A length that is negative, or that reaches past
  the local object, has no result.
\<close>

definition copy_name_out :: "sun_layout \<Rightarrow> nat option \<Rightarrow> mbyte list \<Rightarrow> int \<Rightarrow> proc
    \<Rightarrow> (int \<times> mbyte list \<times> int) option" where
  "copy_name_out L ptr name namelen p = do {
     let sun = sun_image L sun_name_default;
     sun \<leftarrow> (case ptr of
               Some q \<Rightarrow> (case heap p q of
                            Some stored \<Rightarrow>
                              if 0 \<le> un_len stored
                              then Some (memcpy sun (un stored) (nat (un_len stored)))
                              else None
                          | None \<Rightarrow> None)
             | None \<Rightarrow> Some (poke sun (off_un_len L) (le32 0)));
     len \<leftarrow> rd_i32 sun (off_un_len L);
     let n = min namelen len;
     if n < 0 \<or> sizeof_sun_name_t L < nat n then None
     else Some (0, memcpy name sun (nat n), len)
   }"

definition getsockname :: "sun_layout \<Rightarrow> mbyte list \<Rightarrow> int \<Rightarrow> fhandler_socket_unix \<Rightarrow> proc
    \<Rightarrow> (int \<times> mbyte list \<times> int) option" where
  "getsockname L name namelen s p = copy_name_out L (sun_path s) name namelen p"

definition getpeername :: "sun_layout \<Rightarrow> mbyte list \<Rightarrow> int \<Rightarrow> fhandler_socket_unix \<Rightarrow> proc
    \<Rightarrow> (int \<times> mbyte list \<times> int) option" where
  "getpeername L name namelen s p = copy_name_out L (peer_sun_path s) name namelen p"

section \<open>Pipe transport\<close>

text \<open>
  Every call into the kernel is answered by the environment.  An operation takes the
  answers to the calls it makes as an argument and is a function of them; a loop takes a
  list with one answer for each round, and has no result when the list ends before the
  loop does.  In general \<open>None\<close> stands for a call that does not return a value: it
  waits for a lock its own thread holds, spins, ends the thread, outlives the answers
  given, or depends on freed or indeterminate memory.

  \<^verbatim>\<open>create_event\<close>: the answer is the status of \<^verbatim>\<open>NtCreateEvent\<close> and the value it
  leaves in \<^verbatim>\<open>evt\<close>.
\<close>

definition create_event :: "NTSTATUS \<times> HANDLE \<Rightarrow> proc \<Rightarrow> HANDLE \<times> proc" where
  "create_event ans p =
     (let (status, evt) = ans
      in (evt, if \<not> NT_SUCCESS status then seterrno_from_nt_status status p else p))"

definition get_type_char :: "fhandler_socket_unix \<Rightarrow> char" where
  "get_type_char s =
     (if socket_type s = SOCK_STREAM then CHR ''s''
      else if socket_type s = SOCK_DGRAM then CHR ''d'' else CHR ''?'')"

definition hexdigit :: "nat \<Rightarrow> char" where
  "hexdigit n = ''0123456789ABCDEF'' ! (n mod 16)"

fun hexdigits :: "nat \<Rightarrow> nat \<Rightarrow> string" where
  "hexdigits 0 v = []"
| "hexdigits (Suc k) v = hexdigits k (v div 16) @ [hexdigit v]"

text \<open>
  Modelled from the spec: \<^verbatim>\<open>__small_swprintf\<close> is missing.  ``Pipe basename:
  cygwin-<installation_key>-unix-<s|d>-<unique_id>, 47 characters; the installation key and
  unique id are 16 hex digits each.''  \<open>key\<close> is the installation key.
\<close>

definition gen_pipe_name :: "string \<Rightarrow> fhandler_socket_unix \<Rightarrow> fhandler_socket_unix" where
  "gen_pipe_name key s =
     s\<lparr>pipe_name := ''cygwin-'' @ key @ ''-unix-'' @ [get_type_char s] @ ''-''
                     @ hexdigits 16 (unat (ino s))\<rparr>"

text \<open>This also sets the pipe to message mode unconditionally.\<close>

definition set_pipe_non_blocking :: "bool \<Rightarrow> fhandler_socket_unix \<Rightarrow> proc \<Rightarrow> proc" where
  "set_pipe_non_blocking nonblocking s p =
     (if io_handle s \<noteq> 0 then kernel (Set_pipe_mode (io_handle s) nonblocking) p else p)"

definition blank_hdr :: af_unix_pkt_hdr_t where
  "blank_hdr = \<lparr>pckt_len = 0, shut_info = 0, name_len = 0, cmsg_len = 0, data_len = 0\<rparr>"

text \<open>
  \<^verbatim>\<open>send_my_name\<close>; \<open>wr\<close> is the status of \<^verbatim>\<open>NtWriteFile\<close>.  The packet is the
  header followed by the \<^verbatim>\<open>un_len\<close> bytes of the local name.
\<close>

definition send_my_name :: "NTSTATUS \<Rightarrow> fhandler_socket_unix \<Rightarrow> proc
    \<Rightarrow> (int \<times> fhandler_socket_unix \<times> proc) option" where
  "send_my_name wr s p = do {
     l \<leftarrow> AcquireSRWLockShared (bind_lock s);
     let s = s\<lparr>bind_lock := l\<rparr>;
     (nlen, name) \<leftarrow>
        (case sun_path s of
           None \<Rightarrow> Some (0, [])
         | Some q \<Rightarrow> (case heap p q of
                        None \<Rightarrow> None
                      | Some sun \<Rightarrow> if un_len sun < 0 then None
                                    else Some (un_len sun, take (nat (un_len sun)) (un sun))));
     l \<leftarrow> ReleaseSRWLockShared (bind_lock s);
     let s = s\<lparr>bind_lock := l\<rparr>;
     let packet = init blank_hdr 0 (word_of_int nlen) 0 0;
     l \<leftarrow> AcquireSRWLockExclusive (io_lock s);
     let s = s\<lparr>io_lock := l\<rparr>;
     let p = set_pipe_non_blocking True s p;
     let p = kernel (Write_file (io_handle s) packet name) p;
     let p = set_pipe_non_blocking (is_nonblocking s) s p;
     l \<leftarrow> ReleaseSRWLockExclusive (io_lock s);
     let s = s\<lparr>io_lock := l\<rparr>;
     Some (if \<not> NT_SUCCESS wr then - 1 else 0, s, p)
   }"

text \<open>
  \<^verbatim>\<open>recv_peer_name\<close>.  The answers: the event, the status of \<^verbatim>\<open>NtReadFile\<close>, what
  \<^verbatim>\<open>cygwait\<close> reports and \<^verbatim>\<open>io.Status\<close> if the read was pending, and the bytes of
  the packet buffer when the function looks at it.  \<open>a\<close> is the address of the peer name
  it may allocate.

  The function declares \<^verbatim>\<open>int ret = 0\<close>; the block that handles a pending read declares
  a \<^verbatim>\<open>DWORD ret\<close> of its own, which receives the result of the wait and then the error
  code of the \<^verbatim>\<open>switch\<close>, and ends with the block (\<open>block_ret\<close>).
\<close>

record recv_env =
  rp_event :: "NTSTATUS \<times> HANDLE"
  rp_read :: NTSTATUS
  rp_wait :: waitret
  rp_io_status :: NTSTATUS
  rp_packet :: "mbyte list"

definition recv_peer_name :: "recv_env \<Rightarrow> nat \<Rightarrow> fhandler_socket_unix \<Rightarrow> proc
    \<Rightarrow> (int \<times> fhandler_socket_unix \<times> proc) option" where
  "recv_peer_name e a s p =
     (let ret = 0;
          (evt, p) = create_event (rp_event e) p
      in if evt = 0 then Some (ENOBUFS, s, p)
         else
           let packet = rp_packet e;
               p = set_pipe_non_blocking False s p;
               status = rp_read e;
               (status, block_ret) =
                  (if status = STATUS_PENDING
                   then (case rp_wait e of
                           WAIT_OBJECT_0 \<Rightarrow> (rp_io_status e, 0)
                         | WAIT_TIMEOUT \<Rightarrow> (status, ECONNABORTED)
                         | WAIT_SIGNALED \<Rightarrow> (status, EINTR)
                         | _ \<Rightarrow> (status, EPROTO))
                   else (status, 0));
               ret = (if \<not> NT_SUCCESS status \<and> ret = 0
                      then geterrno_from_nt_status p status else ret)
           in do {
                (s, p) \<leftarrow>
                   (if ret = 0
                    then (case rd_u8 packet 3 of
                            None \<Rightarrow> None
                          | Some nl \<Rightarrow>
                              if 0 < nl
                              then set_peer_sun_path a
                                     (Some (drop (unat (AF_UNIX_PKT_OFFSETOF_NAME blank_hdr))
                                              packet))
                                     (uint nl) s p
                              else Some (s, p))
                    else Some (s, p));
                let p = set_pipe_non_blocking (is_nonblocking s) s p;
                Some (ret, s, p)
              })"

text \<open>
  \<^verbatim>\<open>create_pipe\<close> and \<^verbatim>\<open>create_pipe_instance\<close> differ in what they ask of
  \<^verbatim>\<open>NtCreateNamedPipeFile\<close> (create, or open an existing pipe) and agree in what they
  do with its answer: the status of \<^verbatim>\<open>npfs_handle\<close>, the status of the creation and
  the value left in \<^verbatim>\<open>ph\<close>.
\<close>

record pipe_ans =
  pa_npfs :: NTSTATUS
  pa_status :: NTSTATUS
  pa_handle :: HANDLE

definition create_pipe :: "pipe_ans \<Rightarrow> fhandler_socket_unix \<Rightarrow> proc \<Rightarrow> HANDLE \<times> proc" where
  "create_pipe e s p =
     (if \<not> NT_SUCCESS (pa_npfs e) then (0, seterrno_from_nt_status (pa_npfs e) p)
      else (pa_handle e,
            if \<not> NT_SUCCESS (pa_status e) then seterrno_from_nt_status (pa_status e) p
            else p))"

definition create_pipe_instance :: "pipe_ans \<Rightarrow> fhandler_socket_unix \<Rightarrow> proc
    \<Rightarrow> HANDLE \<times> proc" where
  "create_pipe_instance e s p =
     (if \<not> NT_SUCCESS (pa_npfs e) then (0, seterrno_from_nt_status (pa_npfs e) p)
      else (pa_handle e,
            if \<not> NT_SUCCESS (pa_status e) then seterrno_from_nt_status (pa_status e) p
            else p))"

text \<open>
  \<^verbatim>\<open>open_pipe\<close>: the answers are the status of \<^verbatim>\<open>npfs_handle\<close>, the status of
  \<^verbatim>\<open>NtOpenFile\<close> with the handle it gives, and the status of the write in
  \<^verbatim>\<open>send_my_name\<close>.
\<close>

record open_ans =
  oa_npfs :: NTSTATUS
  oa_status :: NTSTATUS
  oa_handle :: HANDLE
  oa_write :: NTSTATUS

definition open_pipe :: "open_ans \<Rightarrow> fhandler_socket_unix \<Rightarrow> proc
    \<Rightarrow> (NTSTATUS \<times> fhandler_socket_unix \<times> proc) option" where
  "open_pipe e s p =
     (if \<not> NT_SUCCESS (oa_npfs e) then Some (oa_npfs e, s, p)
      else if NT_SUCCESS (oa_status e)
      then do {
        let s = s\<lparr>io_handle := oa_handle e\<rparr>;
        (_, s, p) \<leftarrow> send_my_name (oa_write e) s p;
        Some (oa_status e, s, p)
      }
      else Some (oa_status e, s, p))"

text \<open>
  \<^verbatim>\<open>listen_pipe\<close>: the event (asked for in blocking mode only), the status of the
  listen request, and the result of the wait with \<^verbatim>\<open>io.Status\<close> if it was pending.
  A cancelled wait ends the thread.
\<close>

record listen_ans =
  la_event :: "NTSTATUS \<times> HANDLE"
  la_status :: NTSTATUS
  la_wait :: waitret
  la_io_status :: NTSTATUS

definition listen_pipe :: "listen_ans \<Rightarrow> fhandler_socket_unix \<Rightarrow> proc \<Rightarrow> (int \<times> proc) option"
  where
  "listen_pipe e s p =
     (let (evt, p) = (if \<not> is_nonblocking s then create_event (la_event e) p else (0, p))
      in if \<not> is_nonblocking s \<and> evt = 0 then Some (- 1, p)
         else
           let status = la_status e;
               waitret = (if status = STATUS_PENDING then la_wait e else WAIT_OBJECT_0);
               status = (if status = STATUS_PENDING \<and> waitret = WAIT_OBJECT_0
                         then la_io_status e else status);
               p = (if evt \<noteq> 0 then kernel (Close_handle evt) p else p)
           in if waitret = WAIT_CANCELED then None
              else
                let p = (if waitret = WAIT_SIGNALED then set_errno EINTR p
                         else if status = STATUS_PIPE_LISTENING then set_errno EAGAIN p
                         else if status \<noteq> STATUS_PIPE_CONNECTED
                         then seterrno_from_nt_status status p
                         else p)
                in Some (if status = STATUS_PIPE_CONNECTED then 0 else - 1, p))"

text \<open>\<^verbatim>\<open>disconnect_pipe\<close>: the status of the request, the wait and \<^verbatim>\<open>io.Status\<close>.\<close>

record disc_ans =
  da_status :: NTSTATUS
  da_wait :: waitret
  da_io_status :: NTSTATUS

definition disconnect_pipe :: "disc_ans \<Rightarrow> HANDLE \<Rightarrow> proc \<Rightarrow> int \<times> proc" where
  "disconnect_pipe e ph p =
     (let p = kernel (Pipe_disconnect ph) p;
          status = da_status e;
          status = (if status = STATUS_PENDING \<and> da_wait e = WAIT_OBJECT_0
                    then da_io_status e else status)
      in if \<not> NT_SUCCESS status then (- 1, seterrno_from_nt_status status p) else (0, p))"

section \<open>Rendezvous waiter\<close>

text \<open>Division of C: the quotient is truncated towards zero.\<close>

definition c_div :: "int \<Rightarrow> int \<Rightarrow> int" where
  "c_div a b = sgn a * sgn b * (\<bar>a\<bar> div \<bar>b\<bar>)"

text \<open>
  One round of the loop of \<^verbatim>\<open>wait_pipe_thread\<close>: the status of the wait request, the
  result of waiting for the two events and \<^verbatim>\<open>io.Status\<close> if the request was pending,
  the answers to \<^verbatim>\<open>open_pipe\<close>, and the clock when the timeout is recomputed.
\<close>

record round =
  ro_status :: NTSTATUS
  ro_wait :: waitret
  ro_io_status :: NTSTATUS
  ro_open :: open_ans
  ro_now :: int

fun wait_loop :: "int \<Rightarrow> round list \<Rightarrow> int \<Rightarrow> int \<Rightarrow> fhandler_socket_unix \<Rightarrow> proc
    \<Rightarrow> (int \<times> fhandler_socket_unix \<times> proc) option" where
  "wait_loop stamp [] timeout error s p = None"
| "wait_loop stamp (r # rs) timeout error s p =
     (let status = ro_status r;
          status = (if status = STATUS_PENDING
                    then (case ro_wait r of WAIT_OBJECT_0 \<Rightarrow> ro_io_status r
                          | _ \<Rightarrow> STATUS_THREAD_IS_TERMINATING)
                    else status)
      in do {
        (status, timeout, error, s, p) \<leftarrow>
          (if status = STATUS_SUCCESS
           then do {
             (status, s, p) \<leftarrow> open_pipe (ro_open r) s p;
             if STATUS_PIPE_NO_INSTANCE_AVAILABLE status
             then let timeout = timeout - c_div (stamp - ro_now r) 100
                  in if 0 \<le> timeout then Some (STATUS_IO_TIMEOUT, timeout, ETIMEDOUT, s, p)
                     else Some (status, timeout, error, s, p)
             else if \<not> NT_SUCCESS status
             then Some (status, timeout, geterrno_from_nt_status p status, s, p)
             else Some (status, timeout, error, s, p)
           }
           else if status = STATUS_OBJECT_NAME_NOT_FOUND
           then Some (status, timeout, EADDRNOTAVAIL, s, p)
           else if status = STATUS_IO_TIMEOUT then Some (status, timeout, ETIMEDOUT, s, p)
           else if status = STATUS_INSUFFICIENT_RESOURCES
           then Some (status, timeout, ENOBUFS, s, p)
           else if status = STATUS_THREAD_IS_TERMINATING
           then Some (status, timeout, EINTR, s, p)
           else Some (status, timeout, EIO, s, p));
        if STATUS_PIPE_NO_INSTANCE_AVAILABLE status then wait_loop stamp rs timeout error s p
        else Some (error, s, p)
      })"

text \<open>
  \<^verbatim>\<open>wait_pipe_thread\<close>: the status of \<^verbatim>\<open>npfs_handle\<close>, the event, the clock at
  entry and the rounds.  It returns the error, which is the exit code of the thread.
  \<open>wait_pipe_thread_body\<close> is the code up to the label \<^verbatim>\<open>out\<close>, which yields the
  error, and \<open>wait_pipe_thread_out\<close> the code at the label.
\<close>

record thread_env =
  te_npfs :: NTSTATUS
  te_event :: "NTSTATUS \<times> HANDLE"
  te_stamp :: int
  te_rounds :: "round list"

definition wait_pipe_thread_body :: "thread_env \<Rightarrow> fhandler_socket_unix \<Rightarrow> proc
    \<Rightarrow> (int \<times> fhandler_socket_unix \<times> proc) option" where
  "wait_pipe_thread_body e s p =
     (if \<not> NT_SUCCESS (te_npfs e) then Some (geterrno_from_nt_status p (te_npfs e), s, p)
      else let (evt, p) = create_event (te_event e) p
           in if evt = 0 then Some (0, s, p)
              else wait_loop (te_stamp e) (te_rounds e) AF_UNIX_CONNECT_TIMEOUT 0 s p)"

definition wait_pipe_thread_out :: "int \<Rightarrow> fhandler_socket_unix \<Rightarrow> proc
    \<Rightarrow> (int \<times> fhandler_socket_unix \<times> proc) option" where
  "wait_pipe_thread_out error s p = do {
     let s = s\<lparr>cwt_param := False\<rparr>;
     l \<leftarrow> AcquireSRWLockExclusive (conn_lock s);
     let s = s\<lparr>conn_lock := l\<rparr>;
     let s = s\<lparr>so_error := word_of_int error\<rparr>;
     let s = set_connect_state (if error \<noteq> 0 then connect_failed else connected) s;
     l \<leftarrow> ReleaseSRWLockExclusive (conn_lock s);
     let s = s\<lparr>conn_lock := l\<rparr>;
     Some (error, s, p)
   }"

definition wait_pipe_thread :: "thread_env \<Rightarrow> fhandler_socket_unix \<Rightarrow> proc
    \<Rightarrow> (int \<times> fhandler_socket_unix \<times> proc) option" where
  "wait_pipe_thread e s p = do {
     (error, s, p) \<leftarrow> wait_pipe_thread_body e s p;
     wait_pipe_thread_out error s p
   }"

text \<open>
  \<^verbatim>\<open>CreateThread\<close> starts the waiter, which runs \<^verbatim>\<open>wait_pipe_thread\<close> beside its
  caller.  A caller that does not wait for the thread finds, when it returns, what the
  thread has done by then: nothing yet, the code up to the label \<^verbatim>\<open>out\<close>, or all of
  it (the code up to the label and the code at the label, which runs under
  \<^verbatim>\<open>conn_lock\<close>, are one step each).  How far the thread has got is an answer of the
  environment; a thread whose run has no result has not got that far.  \<^verbatim>\<open>errno\<close> is
  kept per thread, so what the waiter stores in its own does not reach the caller.
\<close>

datatype progress = Thread_started | Thread_at_out | Thread_ended

definition waiter_so_far :: "progress \<Rightarrow> thread_env \<Rightarrow> fhandler_socket_unix \<Rightarrow> proc
    \<Rightarrow> fhandler_socket_unix \<times> proc" where
  "waiter_so_far g e s p =
     (case (case g of
              Thread_started \<Rightarrow> None
            | Thread_at_out \<Rightarrow> wait_pipe_thread_body e s p
            | Thread_ended \<Rightarrow> wait_pipe_thread e s p) of
        None \<Rightarrow> (s, p)
      | Some (error, s1, p1) \<Rightarrow> (s1, p1\<lparr>errno := errno p\<rparr>))"

text \<open>
  \<^verbatim>\<open>wait_pipe\<close>: the termination event, the handle of the new thread (null if it could
  not be created, with the error number \<^verbatim>\<open>__seterrno\<close> then stores), the answers the
  thread gets, for a non-blocking socket how far the thread has got when the caller
  returns, and for a blocking socket the result of waiting for the thread.  A blocking
  caller waits until the thread has ended, so the thread is run to its end there; what is
  left of the thread of a non-blocking caller is a later step of its own.
\<close>

record wait_env =
  we_event :: "NTSTATUS \<times> HANDLE"
  we_thread :: HANDLE
  we_lasterr :: int
  we_progress :: progress
  we_wait :: waitret
  we_run :: thread_env

definition wait_pipe :: "wait_env \<Rightarrow> fhandler_socket_unix \<Rightarrow> proc
    \<Rightarrow> (int \<times> fhandler_socket_unix \<times> proc) option" where
  "wait_pipe e s p =
     (let ret = - 1;
          (evt, p) = create_event (we_event e) p;
          s = s\<lparr>cwt_termination_evt := evt\<rparr>
      in if evt = 0 then Some (- 1, s, p)
         else do {
           let s = s\<lparr>cwt_param := True\<rparr>;
           let s = s\<lparr>connect_wait_thr := we_thread e\<rparr>;
           (ret, s, p) \<leftarrow>
              (if connect_wait_thr s = 0 then Some (ret, s, set_errno (we_lasterr e) p)
               else if is_nonblocking s
               then let (s, p) = waiter_so_far (we_progress e) (we_run e) s p
                    in Some (ret, s, set_errno EINPROGRESS p)
               else do {
                 (err, s, p1) \<leftarrow> wait_pipe_thread (we_run e) s p;
                 let p = p1\<lparr>errno := errno p\<rparr>;
                 let waitret = (if we_wait e = WAIT_OBJECT_0 then we_wait e else WAIT_SIGNALED);
                 let p = (if connect_wait_thr s \<noteq> 0
                          then kernel (Close_handle (connect_wait_thr s)) p else p);
                 let s = s\<lparr>connect_wait_thr := 0\<rparr>;
                 let s = s\<lparr>cwt_param := False\<rparr>;
                 (case waitret of
                    WAIT_CANCELED \<Rightarrow> None
                  | WAIT_SIGNALED \<Rightarrow> Some (ret, s, set_errno EINTR p)
                  | _ \<Rightarrow>
                      let s = s\<lparr>so_error := word_of_int err\<rparr>
                      in if err \<noteq> 0 then Some (ret, s, set_errno err p) else Some (0, s, p))
               });
           let p = (if cwt_termination_evt s \<noteq> 0
                    then kernel (Close_handle (cwt_termination_evt s)) p else p);
           let s = s\<lparr>cwt_termination_evt := 0\<rparr>;
           Some (ret, s, p)
         })"

record cpipe_env =
  cp_open :: open_ans
  cp_wait :: wait_env

definition connect_pipe :: "cpipe_env \<Rightarrow> fhandler_socket_unix \<Rightarrow> proc
    \<Rightarrow> (int \<times> fhandler_socket_unix \<times> proc) option" where
  "connect_pipe e s p = do {
     (status, s, p) \<leftarrow> open_pipe (cp_open e) s p;
     if STATUS_PIPE_NO_INSTANCE_AVAILABLE status then wait_pipe (cp_wait e) s p
     else if \<not> NT_SUCCESS status
     then let p = seterrno_from_nt_status status p
          in Some (- 1, s\<lparr>so_error := word_of_int (errno p)\<rparr>, p)
     else Some (0, s\<lparr>so_error := 0\<rparr>, p)
   }"

section \<open>Name registry\<close>

text \<open>
  \<^verbatim>\<open>create_abstract_link\<close>: the answer is the status of
  \<^verbatim>\<open>NtCreateSymbolicLinkObject\<close> and the value it leaves in \<^verbatim>\<open>fh\<close>.
\<close>

definition create_abstract_link :: "NTSTATUS \<times> HANDLE \<Rightarrow> sun_name_t \<Rightarrow> proc \<Rightarrow> HANDLE \<times> proc"
  where
  "create_abstract_link ans sun p =
     (let (status, fh) = ans
      in (fh, if \<not> NT_SUCCESS status
              then (if status = STATUS_OBJECT_NAME_EXISTS \<or> status = STATUS_OBJECT_NAME_COLLISION
                    then set_errno EADDRINUSE p
                    else seterrno_from_nt_status status p)
              else p))"

text \<open>
  \<^verbatim>\<open>create_reparse_point\<close> works on the file system alone.  Its answer is the handle it
  returns (null on failure) and the error number it stores, if it stores one.
\<close>

definition create_reparse_point :: "HANDLE \<times> int option \<Rightarrow> sun_name_t \<Rightarrow> proc \<Rightarrow> HANDLE \<times> proc"
  where
  "create_reparse_point ans sun p =
     (let (fh, err) = ans in (fh, case err of Some e \<Rightarrow> set_errno e p | None \<Rightarrow> p))"

record file_ans =
  fa_link :: "NTSTATUS \<times> HANDLE"
  fa_reparse :: "HANDLE \<times> int option"

definition create_file :: "file_ans \<Rightarrow> sun_name_t \<Rightarrow> proc \<Rightarrow> (HANDLE \<times> proc) option" where
  "create_file e sun p =
     (if un_len sun \<le> int sizeof_sa_family_t then Some (0, set_errno EINVAL p)
      else do {
        c \<leftarrow> sun_path_at sun 0;
        if un_len sun = 3 \<and> c = 0 then Some (0, set_errno EINVAL p)
        else if c = 0 then Some (create_abstract_link (fa_link e) sun p)
        else Some (create_reparse_point (fa_reparse e) sun p)
      })"

text \<open>
  Modelled from the spec: \<^verbatim>\<open>__small_sprintf\<close> is missing.  Autobind uses ``20-bit
  random ids formatted as a 5-hex-digit abstract name''; the format in the source is
  \<^verbatim>\<open>"%5X"\<close>, so the digits are upper case.
\<close>

definition small_sprintf_5X :: "uint32_t \<Rightarrow> string" where
  "small_sprintf_5X v = hexdigits 5 (unat v)"

text \<open>
  \<^verbatim>\<open>autobind\<close>.  Each round draws a new unique id and tries to create the link: the
  list holds, for each round, the id and the answer to \<^verbatim>\<open>create_abstract_link\<close>.  The
  formatted text is stored behind the leading NUL of the path, with its terminating NUL.
\<close>

fun autobind :: "(64 word \<times> NTSTATUS \<times> HANDLE) list \<Rightarrow> sun_name_t \<Rightarrow> fhandler_socket_unix
    \<Rightarrow> proc \<Rightarrow> (HANDLE \<times> sun_name_t \<times> fhandler_socket_unix \<times> proc) option" where
  "autobind [] sun s p = None"
| "autobind ((new_id, ans) # rounds) sun s p =
     (let s = s\<lparr>unique_id := new_id\<rparr>;
          ident = (ucast (unique_id s AND 0xfffff) :: uint32_t);
          sun = sun\<lparr>un := poke (un sun) sizeof_sa_family_t [Some 0]\<rparr>;
          digits = small_sprintf_5X ident;
          sun = sun\<lparr>un := poke (un sun) (sizeof_sa_family_t + 1)
                              (map (\<lambda>c. Some (of_char c)) digits @ [Some 0])\<rparr>;
          sun = sun\<lparr>un_len := int sizeof_sa_family_t + 1 + int (length digits)\<rparr>;
          (fh, p) = create_abstract_link ans sun p
      in if fh = 0 then autobind rounds sun s p else Some (fh, sun, s, p))"

text \<open>
  \<^verbatim>\<open>open_file\<close>.  The answer to \<^verbatim>\<open>open_abstract_link\<close> or
  \<^verbatim>\<open>open_reparse_point\<close> is the value returned, the error number stored (if one is)
  and the pipe name found.  The result is the return value, the type read off the pipe
  name, the pipe name and the process state.
\<close>

definition CYGWIN_PIPE_SOCKET_TYPE_POS :: nat where "CYGWIN_PIPE_SOCKET_TYPE_POS = 29"

record lookup_ans =
  lo_ret :: int
  lo_errno :: "int option"
  lo_pipe_name :: string

definition open_link :: "lookup_ans \<Rightarrow> proc \<Rightarrow> int \<times> proc" where
  "open_link e p = (lo_ret e, case lo_errno e of Some err \<Rightarrow> set_errno err p | None \<Rightarrow> p)"

definition open_file :: "lookup_ans \<Rightarrow> sun_name_t \<Rightarrow> proc
    \<Rightarrow> (int \<times> int option \<times> string \<times> proc) option" where
  "open_file e sun p = do {
     (ret, p) \<leftarrow>
        (if un_len sun \<le> int sizeof_sa_family_t then Some (- 1, set_errno EINVAL p)
         else do {
           c \<leftarrow> sun_path_at sun 0;
           if un_len sun = 3 \<and> c = 0 then Some (- 1, set_errno EINVAL p)
           else Some (open_link e p)
         });
     let name = lo_pipe_name e;
     if ret = 0
     then (if CYGWIN_PIPE_SOCKET_TYPE_POS < length name
              \<and> name ! CYGWIN_PIPE_SOCKET_TYPE_POS = CHR ''d''
           then Some (ret, Some SOCK_DGRAM, name, p)
           else if CYGWIN_PIPE_SOCKET_TYPE_POS < length name
              \<and> name ! CYGWIN_PIPE_SOCKET_TYPE_POS = CHR ''s''
           then Some (ret, Some SOCK_STREAM, name, p)
           else Some (- 1, None, name, set_errno EINVAL p))
     else Some (ret, None, name, p)
   }"

section \<open>Public operations\<close>

text \<open>
  \<^verbatim>\<open>bind\<close>.  The answers: the installation key, the pipe (datagram sockets), the rounds
  of autobind or the answer for the backing file, the address of the stored name, and the
  status of the write if the name is sent to a peer.  \<open>name\<close> is the memory at the
  pointer \<^verbatim>\<open>name\<close>.
\<close>

record bind_env =
  be_key :: string
  be_pipe :: pipe_ans
  be_autobind :: "(64 word \<times> NTSTATUS \<times> HANDLE) list"
  be_file :: file_ans
  be_addr :: nat
  be_write :: NTSTATUS

definition bind_unix :: "bind_env \<Rightarrow> mbyte list option \<Rightarrow> int \<Rightarrow> fhandler_socket_unix \<Rightarrow> proc
    \<Rightarrow> (int \<times> fhandler_socket_unix \<times> proc) option" where
  "bind_unix e name namelen s p =
     (let sun = sun_name_from name namelen;
          unnamed = (un_len sun = int sizeof_sa_family_t);
          pipe = 0
      in do {
        family \<leftarrow> sun_family sun;
        if family \<noteq> AF_UNIX then Some (- 1, s, set_errno EINVAL p)
        else do {
          l \<leftarrow> AcquireSRWLockExclusive (bind_lock s);
          let s = s\<lparr>bind_lock := l\<rparr>;
          if binding_state s = bind_pending
          then do {
            let p = set_errno EALREADY p;
            l \<leftarrow> ReleaseSRWLockExclusive (bind_lock s);
            Some (- 1, s\<lparr>bind_lock := l\<rparr>, p)
          }
          else if binding_state s = bound
          then do {
            let p = set_errno EINVAL p;
            l \<leftarrow> ReleaseSRWLockExclusive (bind_lock s);
            Some (- 1, s\<lparr>bind_lock := l\<rparr>, p)
          }
          else do {
            let s = s\<lparr>binding_state := bind_pending\<rparr>;
            l \<leftarrow> ReleaseSRWLockExclusive (bind_lock s);
            let s = s\<lparr>bind_lock := l\<rparr>;
            let s = gen_pipe_name (be_key e) s;
            let (pipe, p) = (if socket_type s = SOCK_DGRAM then create_pipe (be_pipe e) s p
                             else (pipe, p));
            if socket_type s = SOCK_DGRAM \<and> pipe = 0
            then Some (- 1, s\<lparr>binding_state := unbound\<rparr>, p)
            else do {
              let s = (if socket_type s = SOCK_DGRAM then s\<lparr>io_handle := pipe\<rparr> else s);
              (fh, sun, s, p) \<leftarrow>
                 (if unnamed then autobind (be_autobind e) sun s p
                  else map_option (\<lambda>(fh, p). (fh, sun, s, p)) (create_file (be_file e) sun p));
              let s = s\<lparr>backing_file_handle := fh\<rparr>;
              if backing_file_handle s = 0
              then
                let s = s\<lparr>io_handle := 0\<rparr>;
                    p = (if pipe \<noteq> 0 then kernel (Close_handle pipe) p else p)
                in Some (- 1, s\<lparr>binding_state := unbound\<rparr>, p)
              else do {
                (s, p) \<leftarrow> set_sun_path_snt (be_addr e) (Some sun) s p;
                (s, p) \<leftarrow>
                   (if connect_state s = connected
                    then map_option snd (send_my_name (be_write e) s p)
                    else Some (s, p));
                Some (0, s\<lparr>binding_state := bound\<rparr>, p)
              }
            }
          }
        }
      })"

text \<open>
  \<^verbatim>\<open>listen\<close>.  While a bind is pending the function yields in a loop, which in one
  thread never ends.
\<close>

definition listen :: "pipe_ans \<Rightarrow> int \<Rightarrow> fhandler_socket_unix \<Rightarrow> proc
    \<Rightarrow> (int \<times> fhandler_socket_unix \<times> proc) option" where
  "listen e backlog s p =
     (if socket_type s = SOCK_DGRAM then Some (- 1, s, set_errno EOPNOTSUPP p)
      else do {
        l \<leftarrow> AcquireSRWLockShared (bind_lock s);
        let s = s\<lparr>bind_lock := l\<rparr>;
        if binding_state s = bind_pending then None
        else if binding_state s = unbound
        then do {
          let p = set_errno EDESTADDRREQ p;
          l \<leftarrow> ReleaseSRWLockShared (bind_lock s);
          Some (- 1, s\<lparr>bind_lock := l\<rparr>, p)
        }
        else do {
          l \<leftarrow> ReleaseSRWLockShared (bind_lock s);
          let s = s\<lparr>bind_lock := l\<rparr>;
          l \<leftarrow> AcquireSRWLockExclusive (conn_lock s);
          let s = s\<lparr>conn_lock := l\<rparr>;
          if connect_state s \<noteq> unconnected \<and> connect_state s \<noteq> connect_failed
          then do {
            let p = set_errno (if connect_state s = listener then EADDRINUSE else EINVAL) p;
            l \<leftarrow> ReleaseSRWLockExclusive (conn_lock s);
            Some (- 1, s\<lparr>conn_lock := l\<rparr>, p)
          }
          else
            let (pipe, p) = (if socket_type s \<noteq> SOCK_DGRAM then create_pipe e s p else (0, p))
            in if socket_type s \<noteq> SOCK_DGRAM \<and> pipe = 0
               then Some (- 1, set_connect_state unconnected s, p)
               else do {
                 let s = (if socket_type s \<noteq> SOCK_DGRAM then s\<lparr>io_handle := pipe\<rparr> else s);
                 let s = set_connect_state listener s;
                 l \<leftarrow> ReleaseSRWLockExclusive (conn_lock s);
                 Some (0, s\<lparr>conn_lock := l\<rparr>, p)
               }
        }
      })"

text \<open>
  \<^verbatim>\<open>~fhandler_socket_unix\<close>: both names are deleted.
\<close>

definition destroy :: "fhandler_socket_unix \<Rightarrow> proc \<Rightarrow> proc option" where
  "destroy s p = do {
     p \<leftarrow> (case sun_path s of Some q \<Rightarrow> delete_sun_name q p | None \<Rightarrow> Some p);
     (case peer_sun_path s of Some q \<Rightarrow> delete_sun_name q p | None \<Rightarrow> Some p)
   }"

text \<open>
  \<^verbatim>\<open>accept4\<close>.  The answers: those of \<^verbatim>\<open>listen_pipe\<close> and
  \<^verbatim>\<open>create_pipe_instance\<close>, the descriptor reserved (negative if there is none), whether
  a handler object could be built and the unique id it draws, the addresses of the two
  names of the new socket, the answers of \<^verbatim>\<open>recv_peer_name\<close>, whether storing through
  \<^verbatim>\<open>peer\<close> or \<^verbatim>\<open>len\<close> faults, and the answers of \<^verbatim>\<open>disconnect_pipe\<close>.
  \<open>peer\<close> and \<open>len\<close> are the memory at the two pointers, \<open>None\<close> for a null
  pointer.  The result is the return value, \<open>peer\<close> and \<open>len\<close> afterwards, the
  listener, the new socket if the call installed one, and the process state.
\<close>

record accept_env =
  ae_listen :: listen_ans
  ae_inst :: pipe_ans
  ae_fd :: int
  ae_sock :: bool
  ae_id :: "64 word"
  ae_addr_sun :: nat
  ae_addr_peer :: nat
  ae_recv :: recv_env
  ae_fault :: bool
  ae_disc :: disc_ans

definition new_sock :: "accept_env \<Rightarrow> int \<Rightarrow> HANDLE \<Rightarrow> fhandler_socket_unix
    \<Rightarrow> fhandler_socket_unix" where
  "new_sock e flags accepted s =
     (let sock = constructed;
          sock = sock\<lparr>addr_family := addr_family s\<rparr>;
          sock = sock\<lparr>socket_type := socket_type s\<rparr>;
          sock = (if flags AND SOCK_NONBLOCK \<noteq> 0 then sock\<lparr>is_nonblocking := True\<rparr> else sock);
          sock = (if flags AND SOCK_CLOEXEC \<noteq> 0 then sock\<lparr>close_on_exec := True\<rparr> else sock);
          sock = sock\<lparr>unique_id := ae_id e\<rparr>;
          sock = sock\<lparr>ino := unique_id sock\<rparr>;
          sock = sock\<lparr>pipe_name := pipe_name s\<rparr>;
          sock = set_connect_state connected sock;
          sock = sock\<lparr>binding_state := binding_state s\<rparr>
      in sock\<lparr>io_handle := accepted\<rparr>)"

text \<open>
  The part of \<^verbatim>\<open>accept4\<close> that prepares the new descriptor once the listener has its
  new pipe instance, up to the point where the call either returns the descriptor
  (\<open>Inr\<close>: what is stored through \<^verbatim>\<open>peer\<close> and \<^verbatim>\<open>len\<close>, and the new socket) or
  gives up with an error (\<open>Inl\<close>).
\<close>

definition accept_sock :: "accept_env \<Rightarrow> mbyte list option \<Rightarrow> int option \<Rightarrow> int \<Rightarrow> HANDLE
    \<Rightarrow> fhandler_socket_unix \<Rightarrow> proc
    \<Rightarrow> (int \<times> proc + (mbyte list option \<times> int option) \<times> fhandler_socket_unix \<times> proc) option"
  where
  "accept_sock e peer len flags accepted s p =
     (let error = ENOBUFS
      in if ae_fd e < 0 \<or> \<not> ae_sock e then Some (Inl (error, p))
         else do {
           let sock = new_sock e flags accepted s;
           own \<leftarrow> (case sun_path s of None \<Rightarrow> Some None
                   | Some q \<Rightarrow> map_option Some (heap p q));
           (sock, p) \<leftarrow> set_sun_path_snt (ae_addr_sun e) own sock p;
           (error, sock, p) \<leftarrow> recv_peer_name (ae_recv e) (ae_addr_peer e) sock p;
           if error = 0 \<and> \<not> (ae_fault e \<and> peer \<noteq> None)
           then do {
             out \<leftarrow>
               (case (peer, len) of
                  (Some buf, Some n) \<Rightarrow>
                    (case peer_sun_path sock of
                       Some q \<Rightarrow>
                         (case heap p q of
                            None \<Rightarrow> None
                          | Some sun \<Rightarrow>
                              Some (Some (memcpy buf (un sun) (nat (min n (un_len sun)))),
                                    Some (un_len sun)))
                     | None \<Rightarrow> Some (peer, Some 0))
                | _ \<Rightarrow> Some (peer, len));
             Some (Inr (out, sock, p))
           }
           else do {
             p \<leftarrow> destroy sock p;
             Some (Inl (if error = 0 then EFAULT else error, p))
           }
         })"

definition accept4 :: "accept_env \<Rightarrow> mbyte list option \<Rightarrow> int option \<Rightarrow> int
    \<Rightarrow> fhandler_socket_unix \<Rightarrow> proc
    \<Rightarrow> (int \<times> mbyte list option \<times> int option \<times> fhandler_socket_unix
         \<times> fhandler_socket_unix option \<times> proc) option" where
  "accept4 e peer len flags s p =
     (if socket_type s \<noteq> SOCK_STREAM then Some (- 1, peer, len, s, None, set_errno EOPNOTSUPP p)
      else if connect_state s \<noteq> listener
              \<or> (peer \<noteq> None \<and> (case len of None \<Rightarrow> True
                                | Some n \<Rightarrow> n < int sizeof_sa_family_t))
      then Some (- 1, peer, len, s, None, set_errno EINVAL p)
      else do {
        (r, p) \<leftarrow> listen_pipe (ae_listen e) s p;
        if r = 0
        then do {
          l \<leftarrow> AcquireSRWLockExclusive (io_lock s);
          let s = s\<lparr>io_lock := l\<rparr>;
          let accepted = io_handle s;
          let (new_inst, p) = create_pipe_instance (ae_inst e) s p;
          let error = ENOBUFS;
          let s = (if new_inst = 0 then s else s\<lparr>io_handle := new_inst\<rparr>);
          l \<leftarrow> ReleaseSRWLockExclusive (io_lock s);
          let s = s\<lparr>io_lock := l\<rparr>;
          fin \<leftarrow> (if new_inst = 0 then Some (Inl (error, p))
                  else accept_sock e peer len flags accepted s p);
          (case fin of
             Inr ((peer, len), sock, p) \<Rightarrow> Some (ae_fd e, peer, len, s, Some sock, p)
           | Inl (error, p) \<Rightarrow>
               let (_, p) = disconnect_pipe (ae_disc e) accepted p
               in Some (- 1, peer, len, s, None, set_errno error p))
        }
        else Some (- 1, peer, len, s, None, p)
      })"

text \<open>
  \<^verbatim>\<open>connect\<close>.  The answers: the lookup of the peer address, those of
  \<^verbatim>\<open>connect_pipe\<close>, and the addresses of the peer name stored before the attempt and
  of the one stored when it fails.
\<close>

record connect_env =
  ce_lookup :: lookup_ans
  ce_pipe :: cpipe_env
  ce_addr :: nat
  ce_addr_failed :: nat

definition connect :: "connect_env \<Rightarrow> mbyte list option \<Rightarrow> int \<Rightarrow> fhandler_socket_unix \<Rightarrow> proc
    \<Rightarrow> (int \<times> fhandler_socket_unix \<times> proc) option" where
  "connect e name namelen s p =
     (let sun = sun_name_from name namelen
      in do {
        l \<leftarrow> AcquireSRWLockExclusive (conn_lock s);
        let s = s\<lparr>conn_lock := l\<rparr>;
        if connect_state s = connect_pending
        then do {
          let p = set_errno EALREADY p;
          l \<leftarrow> ReleaseSRWLockExclusive (conn_lock s);
          Some (- 1, s\<lparr>conn_lock := l\<rparr>, p)
        }
        else if connect_state s = listener
        then do {
          let p = set_errno EADDRINUSE p;
          l \<leftarrow> ReleaseSRWLockExclusive (conn_lock s);
          Some (- 1, s\<lparr>conn_lock := l\<rparr>, p)
        }
        else if connect_state s = connected \<and> socket_type s \<noteq> SOCK_DGRAM
        then do {
          let p = set_errno EISCONN p;
          l \<leftarrow> ReleaseSRWLockExclusive (conn_lock s);
          Some (- 1, s\<lparr>conn_lock := l\<rparr>, p)
        }
        else do {
          let s = set_connect_state connect_pending s;
          l \<leftarrow> ReleaseSRWLockExclusive (conn_lock s);
          let s = s\<lparr>conn_lock := l\<rparr>;
          if un_len sun \<le> int sizeof_sa_family_t
          then Some (- 1, set_connect_state unconnected s, set_errno EINVAL p)
          else do {
            family \<leftarrow> sun_family sun;
            if family \<noteq> AF_UNIX
            then Some (- 1, set_connect_state unconnected s, set_errno EAFNOSUPPORT p)
            else do {
              c \<leftarrow> sun_path_at sun 0;
              if un_len sun = 3 \<and> c = 0
              then Some (- 1, set_connect_state unconnected s, set_errno EINVAL p)
              else do {
                (r, peer_type, pname, p) \<leftarrow> open_file (ce_lookup e) sun p;
                if r < 0 then Some (- 1, set_connect_state unconnected s, p)
                else if peer_type \<noteq> Some (socket_type s)
                then Some (- 1, set_connect_state unconnected s, set_errno EINVAL p)
                else do {
                  (s, p) \<leftarrow> set_peer_sun_path_snt (ce_addr e) (Some sun) s p;
                  if socket_type s \<noteq> SOCK_DGRAM
                  then do {
                    (r, s, p) \<leftarrow> connect_pipe (ce_pipe e) s p;
                    if r < 0
                    then (if errno p \<noteq> EINPROGRESS
                          then do {
                            (s, p) \<leftarrow> set_peer_sun_path_snt (ce_addr_failed e) None s p;
                            Some (- 1, set_connect_state connect_failed s, p)
                          }
                          else Some (- 1, s, p))
                    else Some (0, set_connect_state connected s, p)
                  }
                  else Some (0, set_connect_state connected s, p)
                }
              }
            }
          }
        }
      })"

text \<open>
  \<^verbatim>\<open>getpeereid\<close>.  The three flags say which of the pointers are not null; \<open>fault\<close>
  says that storing through them faults.  The result holds the values stored.
\<close>

definition getpeereid :: "bool \<Rightarrow> bool \<Rightarrow> bool \<Rightarrow> bool \<Rightarrow> fhandler_socket_unix \<Rightarrow> proc
    \<Rightarrow> (int \<times> (32 word option \<times> 32 word option \<times> 32 word option)
         \<times> fhandler_socket_unix \<times> proc) option" where
  "getpeereid want_pid want_euid want_egid fault s p =
     (let ret = - 1
      in if socket_type s \<noteq> SOCK_STREAM
         then Some (- 1, (None, None, None), s, set_errno EINVAL p)
         else do {
           l \<leftarrow> AcquireSRWLockShared (conn_lock s);
           let s = s\<lparr>conn_lock := l\<rparr>;
           let (ret, out, p) =
              (if connect_state s \<noteq> connected
               then (ret, (None, None, None), set_errno ENOTCONN p)
               else if fault \<and> (want_pid \<or> want_euid \<or> want_egid)
               then (ret, (None, None, None), set_errno EFAULT p)
               else (0, (if want_pid then Some (pid (peer_cred s)) else None,
                         if want_euid then Some (uid (peer_cred s)) else None,
                         if want_egid then Some (gid (peer_cred s)) else None), p));
           l \<leftarrow> ReleaseSRWLockShared (conn_lock s);
           Some (ret, out, s\<lparr>conn_lock := l\<rparr>, p)
         })"

text \<open>
  \<^verbatim>\<open>getsockopt\<close>.  Levels and option names are macros of the socket header; every
  name the \<^verbatim>\<open>switch\<close> sends to \<^verbatim>\<open>default\<close> is \<open>SO_other\<close>, every level but
  \<^verbatim>\<open>SOL_SOCKET\<close> is \<open>SOL_other\<close>.  What is stored through \<^verbatim>\<open>optval\<close> is a value
  of \<open>optval\<close>, \<open>Untouched\<close> if nothing is stored; \<open>optlen\<close> is \<^verbatim>\<open>*optlen\<close>.
\<close>

datatype level = SOL_SOCKET | SOL_other

datatype optname = SO_ERROR | SO_PASSCRED | SO_PEERCRED | SO_REUSEADDR | SO_RCVBUF | SO_SNDBUF
  | SO_RCVTIMEO | SO_SNDTIMEO | SO_TYPE | SO_LINGER | SO_other

datatype optval = Untouched | Int_val int | Cred_val ucred | Timeval nat nat | Linger_val nat nat

definition sizeof_ucred :: int where "sizeof_ucred = 12"
definition sizeof_int :: int where "sizeof_int = 4"
definition sizeof_timeval :: int where "sizeof_timeval = 16"
definition sizeof_linger :: int where "sizeof_linger = 4"
definition INFINITE :: "32 word" where "INFINITE = - 1"
definition MSPERSEC :: nat where "MSPERSEC = 1000"
definition USPERSEC :: nat where "USPERSEC = 1000000"

definition getsockopt :: "level \<Rightarrow> optname \<Rightarrow> int \<Rightarrow> bool \<Rightarrow> fhandler_socket_unix \<Rightarrow> proc
    \<Rightarrow> (int \<times> optval \<times> int \<times> fhandler_socket_unix \<times> proc) option" where
  "getsockopt lvl name optlen fault s p =
     (case lvl of
        SOL_other \<Rightarrow> Some (- 1, Untouched, optlen, s, set_errno ENOPROTOOPT p)
      | SOL_SOCKET \<Rightarrow>
          (case name of
             SO_ERROR \<Rightarrow>
               let err = so_error s;
                   s = s\<lparr>so_error := 0\<rparr>
               in Some (0, Int_val (sint err), optlen, s, p)
           | SO_PASSCRED \<Rightarrow> Some (0, Untouched, optlen, s, p)
           | SO_PEERCRED \<Rightarrow>
               if optlen < sizeof_ucred then Some (- 1, Untouched, optlen, s, set_errno EINVAL p)
               else do {
                 (ret, (opid, ouid, ogid), s, p) \<leftarrow> getpeereid True True True fault s p;
                 Some (ret,
                       (case (opid, ouid, ogid) of
                          (Some a, Some b, Some c) \<Rightarrow> Cred_val \<lparr>pid = a, uid = b, gid = c\<rparr>
                        | _ \<Rightarrow> Untouched),
                       if ret = 0 then sizeof_ucred else optlen, s, p)
               }
           | SO_REUSEADDR \<Rightarrow>
               if optlen < sizeof_int then Some (- 1, Untouched, optlen, s, set_errno EINVAL p)
               else Some (0, Int_val (saw_reuseaddr s), sizeof_int, s, p)
           | SO_RCVBUF \<Rightarrow>
               if optlen < sizeof_int then Some (- 1, Untouched, optlen, s, set_errno EINVAL p)
               else Some (0, Int_val (rmem s), optlen, s, p)
           | SO_SNDBUF \<Rightarrow>
               if optlen < sizeof_int then Some (- 1, Untouched, optlen, s, set_errno EINVAL p)
               else Some (0, Int_val (wmem s), optlen, s, p)
           | SO_RCVTIMEO \<Rightarrow>
               if optlen < sizeof_timeval
               then Some (- 1, Untouched, optlen, s, set_errno EINVAL p)
               else
                 let ms = rcvtimeo s
                 in Some (0,
                          if ms = 0 \<or> ms = INFINITE then Timeval 0 0
                          else Timeval (unat ms div MSPERSEC)
                                 (((unat ms mod MSPERSEC) * USPERSEC) div MSPERSEC),
                          sizeof_timeval, s, p)
           | SO_SNDTIMEO \<Rightarrow>
               if optlen < sizeof_timeval
               then Some (- 1, Untouched, optlen, s, set_errno EINVAL p)
               else
                 let ms = sndtimeo s
                 in Some (0,
                          if ms = 0 \<or> ms = INFINITE then Timeval 0 0
                          else Timeval (unat ms div MSPERSEC)
                                 (((unat ms mod MSPERSEC) * USPERSEC) div MSPERSEC),
                          sizeof_timeval, s, p)
           | SO_TYPE \<Rightarrow> Some (0, Int_val (socket_type s), sizeof_int, s, p)
           | SO_LINGER \<Rightarrow> Some (0, Linger_val 0 0, sizeof_linger, s, p)
           | SO_other \<Rightarrow> Some (0, Int_val 0, sizeof_int, s, p)))"

section \<open>Layouts and example states\<close>


text \<open>
  A process with an empty heap whose status table maps everything to \<^verbatim>\<open>EIO\<close>, and a
  stream and a datagram socket as \<^verbatim>\<open>socket\<close> leaves them.
\<close>

definition proc0 :: proc where
  "proc0 = \<lparr>heap = (\<lambda>a. None), errno = 0, klog = [], geterrno_from_nt_status = (\<lambda>status. EIO)\<rparr>"

definition stream0 :: fhandler_socket_unix where
  "stream0 = fst (snd (socket 1 SOCK_STREAM 0 0 1 constructed proc0))"

definition dgram0 :: fhandler_socket_unix where
  "dgram0 = fst (snd (socket 1 SOCK_DGRAM 0 0 2 constructed proc0))"

text \<open>Projections of the result of an operation: return value, socket, process.\<close>

definition ret_of :: "(int \<times> 'a) option \<Rightarrow> int option" where
  "ret_of r = map_option fst r"

definition sock_of :: "(int \<times> fhandler_socket_unix \<times> proc) option \<Rightarrow> fhandler_socket_unix" where
  "sock_of r = fst (snd (the r))"

definition proc_of :: "(int \<times> fhandler_socket_unix \<times> proc) option \<Rightarrow> proc" where
  "proc_of r = snd (snd (the r))"

text \<open>
  Addresses: the path names \<^verbatim>\<open>/tmp/s\<close> and \<^verbatim>\<open>/tmp/d\<close> with their terminating NUL
  (9 bytes with the family), and the unnamed address (the family alone).
\<close>

definition name_tmp_s :: "mbyte list" where
  "name_tmp_s = map Some [1, 0, 47, 116, 109, 112, 47, 115, 0]"

definition name_tmp_d :: "mbyte list" where
  "name_tmp_d = map Some [1, 0, 47, 116, 109, 112, 47, 100, 0]"

definition name_unnamed :: "mbyte list" where
  "name_unnamed = map Some [1, 0]"

text \<open>Answers of an environment in which everything asked for succeeds at once.\<close>

definition pipe_created :: pipe_ans where
  "pipe_created = \<lparr>pa_npfs = STATUS_SUCCESS, pa_status = STATUS_SUCCESS, pa_handle = 0x50\<rparr>"

definition pipe_failed :: pipe_ans where
  "pipe_failed = \<lparr>pa_npfs = STATUS_SUCCESS, pa_status = STATUS_INSUFFICIENT_RESOURCES,
     pa_handle = 0\<rparr>"

definition file_created :: file_ans where
  "file_created = \<lparr>fa_link = (STATUS_SUCCESS, 0x40), fa_reparse = (INVALID_HANDLE_VALUE, None)\<rparr>"

definition bind_ok :: "nat \<Rightarrow> bind_env" where
  "bind_ok a = \<lparr>be_key = ''0123456789abcdef'', be_pipe = pipe_created,
     be_autobind = [(0xABCDE, STATUS_SUCCESS, 0x44)], be_file = file_created,
     be_addr = a, be_write = STATUS_SUCCESS\<rparr>"

definition open_ok :: open_ans where
  "open_ok = \<lparr>oa_npfs = STATUS_SUCCESS, oa_status = STATUS_SUCCESS, oa_handle = 0x70,
     oa_write = STATUS_SUCCESS\<rparr>"

text \<open>
  A waiter whose wait for a pipe instance times out, and a caller whose thread has done
  nothing yet when a non-blocking call returns, and ends before a blocking call does.
\<close>

definition thread_timed_out :: thread_env where
  "thread_timed_out = \<lparr>te_npfs = STATUS_SUCCESS, te_event = (STATUS_SUCCESS, 0x31), te_stamp = 0,
     te_rounds = [\<lparr>ro_status = STATUS_IO_TIMEOUT, ro_wait = WAIT_OBJECT_0,
                   ro_io_status = STATUS_IO_TIMEOUT, ro_open = open_ok, ro_now = 0\<rparr>]\<rparr>"

definition wait_blocking :: wait_env where
  "wait_blocking = \<lparr>we_event = (STATUS_SUCCESS, 0x30), we_thread = 0x32, we_lasterr = 0,
     we_progress = Thread_started, we_wait = WAIT_OBJECT_0, we_run = thread_timed_out\<rparr>"

definition cpipe_ok :: cpipe_env where
  "cpipe_ok = \<lparr>cp_open = open_ok, cp_wait = wait_blocking\<rparr>"

text \<open>The stream socket bound to \<^verbatim>\<open>/tmp/s\<close>, and bound to the unnamed address.\<close>

definition bound_run :: "(int \<times> fhandler_socket_unix \<times> proc) option" where
  "bound_run = bind_unix (bind_ok 16) (Some name_tmp_s) 9 stream0 proc0"

definition autobound_run :: "(int \<times> fhandler_socket_unix \<times> proc) option" where
  "autobound_run = bind_unix (bind_ok 16) (Some name_unnamed) 2 stream0 proc0"

text \<open>
  The datagram socket connected to \<^verbatim>\<open>/tmp/d\<close>, whose pipe name says it is a datagram
  socket, and then bound to \<^verbatim>\<open>/tmp/s\<close>, with the new name stored at address \<open>a\<close>.
\<close>

definition lookup_dgram :: lookup_ans where
  "lookup_dgram = \<lparr>lo_ret = 0, lo_errno = None,
     lo_pipe_name = ''cygwin-0123456789abcdef-unix-d-0000000000000007''\<rparr>"

definition conn_dgram :: connect_env where
  "conn_dgram = \<lparr>ce_lookup = lookup_dgram, ce_pipe = cpipe_ok, ce_addr = 16, ce_addr_failed = 48\<rparr>"

definition connected_run :: "(int \<times> fhandler_socket_unix \<times> proc) option" where
  "connected_run = connect conn_dgram (Some name_tmp_d) 9 dgram0 proc0"

definition rebound_run :: "nat \<Rightarrow> (int \<times> fhandler_socket_unix \<times> proc) option" where
  "rebound_run a =
     bind_unix (bind_ok a) (Some name_tmp_s) 9 (sock_of connected_run) (proc_of connected_run)"

text \<open>
  A read of the peer's name that stays pending until the wait ends with \<open>w\<close>; the
  packet buffer holds zeros.
\<close>

definition recv_pending :: "waitret \<Rightarrow> recv_env" where
  "recv_pending w = \<lparr>rp_event = (STATUS_SUCCESS, 0x60), rp_read = STATUS_PENDING, rp_wait = w,
     rp_io_status = STATUS_SUCCESS, rp_packet = replicate 118 (Some 0)\<rparr>"

text \<open>A lookup of a path that does not exist.\<close>

definition lookup_missing :: lookup_ans where
  "lookup_missing = \<lparr>lo_ret = - 1, lo_errno = Some ENOENT, lo_pipe_name = []\<rparr>"

definition conn_missing :: connect_env where
  "conn_missing = \<lparr>ce_lookup = lookup_missing, ce_pipe = cpipe_ok, ce_addr = 16,
     ce_addr_failed = 32\<rparr>"

text \<open>The bound stream socket when \<^verbatim>\<open>listen\<close> cannot create its pipe.\<close>

definition failed_listen_run :: "(int \<times> fhandler_socket_unix \<times> proc) option" where
  "failed_listen_run = listen pipe_failed 5 (sock_of bound_run) (proc_of bound_run)"

text \<open>The waiter thread of a stream socket, timing out.\<close>

definition timed_out_run :: "(int \<times> fhandler_socket_unix \<times> proc) option" where
  "timed_out_run = wait_pipe_thread thread_timed_out stream0 proc0"

text \<open>The abstract name NUL \<^verbatim>\<open>ABCDE\<close>, with the family in front.\<close>

definition name_autobound :: "mbyte list" where
  "name_autobound = map Some [1, 0, 0, 65, 66, 67, 68, 69]"

text \<open>
  Two states of a socket agree on what \<^verbatim>\<open>connect\<close> looks at: the connect state and
  its history, the type, the blocking mode and \<^verbatim>\<open>conn_lock\<close>.
\<close>

definition same_conn :: "fhandler_socket_unix \<Rightarrow> fhandler_socket_unix \<Rightarrow> bool" where
  "same_conn s s1 \<longleftrightarrow>
     connect_state s1 = connect_state s \<and> connect_trace s1 = connect_trace s
     \<and> socket_type s1 = socket_type s \<and> is_nonblocking s1 = is_nonblocking s
     \<and> conn_lock s1 = conn_lock s"

text \<open>
  The test at the head of \<^verbatim>\<open>connect\<close> lets a socket pass that is neither connecting
  nor listening, and that is not connected unless it is a datagram socket.
\<close>

definition passes_state_checks :: "fhandler_socket_unix \<Rightarrow> bool" where
  "passes_state_checks s \<longleftrightarrow>
     connect_state s \<noteq> connect_pending \<and> connect_state s \<noteq> listener
     \<and> (connect_state s = connected \<longrightarrow> socket_type s = SOCK_DGRAM)"

text \<open>
  An address that \<^verbatim>\<open>connect\<close> lets pass its own checks: longer than the family, of
  family \<^verbatim>\<open>AF_UNIX\<close>, and not the abstract name of length 3 whose first byte is NUL.
\<close>

definition accepted_address :: "sun_name_t \<Rightarrow> bool" where
  "accepted_address sun \<longleftrightarrow>
     int sizeof_sa_family_t < un_len sun \<and> sun_family sun = Some AF_UNIX
     \<and> (case sun_path_at sun 0 of None \<Rightarrow> False | Some c \<Rightarrow> \<not> (un_len sun = 3 \<and> c = 0))"

text \<open>
  The allocator may hand out the address \<open>a\<close> for a new peer name: the old peer name, if
  there is one, is allocated (it is deleted first), and \<open>a\<close> is free once that is
  deleted.
\<close>

definition can_store :: "nat \<Rightarrow> fhandler_socket_unix \<Rightarrow> proc \<Rightarrow> bool" where
  "can_store a s p \<longleftrightarrow>
     (case peer_sun_path s of
        None \<Rightarrow> heap p a = None
      | Some q \<Rightarrow> heap p q \<noteq> None \<and> (a = q \<or> heap p a = None))"

text \<open>
  \<^verbatim>\<open>send_my_name\<close> can run once a peer name has been stored at \<open>a\<close>: nobody holds
  \<^verbatim>\<open>bind_lock\<close> exclusively or \<^verbatim>\<open>io_lock\<close>, and the socket's own name, if it has
  one, is an allocated object that storing the peer name leaves alone.
\<close>

definition can_send_name :: "nat \<Rightarrow> fhandler_socket_unix \<Rightarrow> proc \<Rightarrow> bool" where
  "can_send_name a s p \<longleftrightarrow>
     bind_lock s \<noteq> Exclusive \<and> io_lock s = Unlocked
     \<and> (case sun_path s of
          None \<Rightarrow> True
        | Some q \<Rightarrow> q \<noteq> a \<and> Some q \<noteq> peer_sun_path s
                    \<and> (case heap p q of None \<Rightarrow> False | Some sun \<Rightarrow> 0 \<le> un_len sun))"

text \<open>
  The status \<^verbatim>\<open>open_pipe\<close> returns: that of \<^verbatim>\<open>npfs_handle\<close> if it failed, else that
  of \<^verbatim>\<open>NtOpenFile\<close>.
\<close>

definition open_status :: "open_ans \<Rightarrow> NTSTATUS" where
  "open_status e = (if \<not> NT_SUCCESS (oa_npfs e) then oa_npfs e else oa_status e)"

text \<open>
  A connect of the stream socket to \<^verbatim>\<open>/tmp/s\<close> when that path does not exist.  A
  non-blocking stream socket, a peer of the right type whose pipe has no free instance,
  the connect of the one to the other, and a second connect while the first is pending.
\<close>

definition missing_run :: "(int \<times> fhandler_socket_unix \<times> proc) option" where
  "missing_run = connect conn_missing (Some name_tmp_s) 9 stream0 proc0"

definition nonblock0 :: fhandler_socket_unix where
  "nonblock0 = fst (snd (socket 1 SOCK_STREAM 0 SOCK_NONBLOCK 3 constructed proc0))"

definition lookup_stream :: lookup_ans where
  "lookup_stream = \<lparr>lo_ret = 0, lo_errno = None,
     lo_pipe_name = ''cygwin-0123456789abcdef-unix-s-0000000000000009''\<rparr>"

definition open_busy :: open_ans where
  "open_busy = \<lparr>oa_npfs = STATUS_SUCCESS, oa_status = STATUS_PIPE_BUSY, oa_handle = 0,
     oa_write = STATUS_SUCCESS\<rparr>"

definition conn_busy :: connect_env where
  "conn_busy = \<lparr>ce_lookup = lookup_stream,
     ce_pipe = \<lparr>cp_open = open_busy, cp_wait = wait_blocking\<rparr>,
     ce_addr = 16, ce_addr_failed = 32\<rparr>"

definition pending_run :: "(int \<times> fhandler_socket_unix \<times> proc) option" where
  "pending_run = connect conn_busy (Some name_tmp_s) 9 nonblock0 proc0"

definition again_run :: "(int \<times> fhandler_socket_unix \<times> proc) option" where
  "again_run = connect conn_busy (Some name_tmp_s) 9 (sock_of pending_run) (proc_of pending_run)"

text \<open>
  A connect of the stream socket to an address of two bytes whose family is 2, not
  \<^verbatim>\<open>AF_UNIX\<close>.  A waiter whose wait is answered with success and whose
  \<^verbatim>\<open>open_pipe\<close> succeeds, and the connect of the non-blocking socket when that waiter
  has ended before the call returns.  The connect of the blocking stream socket to the peer
  whose pipe has no free instance, with the waiter that times out.
\<close>

definition name_inet :: "mbyte list" where
  "name_inet = map Some [2, 0]"

definition short_run :: "(int \<times> fhandler_socket_unix \<times> proc) option" where
  "short_run = connect conn_missing (Some name_inet) 2 stream0 proc0"

definition round_opens :: round where
  "round_opens = \<lparr>ro_status = STATUS_SUCCESS, ro_wait = WAIT_OBJECT_0,
     ro_io_status = STATUS_SUCCESS, ro_open = open_ok, ro_now = 0\<rparr>"

definition thread_opens :: thread_env where
  "thread_opens = \<lparr>te_npfs = STATUS_SUCCESS, te_event = (STATUS_SUCCESS, 0x31), te_stamp = 0,
     te_rounds = [round_opens]\<rparr>"

definition conn_ended :: connect_env where
  "conn_ended = \<lparr>ce_lookup = lookup_stream,
     ce_pipe = \<lparr>cp_open = open_busy,
                 cp_wait = wait_blocking\<lparr>we_progress := Thread_ended, we_run := thread_opens\<rparr>\<rparr>,
     ce_addr = 16, ce_addr_failed = 32\<rparr>"

definition ended_run :: "(int \<times> fhandler_socket_unix \<times> proc) option" where
  "ended_run = connect conn_ended (Some name_tmp_s) 9 nonblock0 proc0"

definition failed_run :: "(int \<times> fhandler_socket_unix \<times> proc) option" where
  "failed_run = connect conn_busy (Some name_tmp_s) 9 stream0 proc0"


text \<open>Projections of the result of \<^verbatim>\<open>accept4\<close>: listener, new socket, process.\<close>

definition acc_sock :: "(int \<times> 'a \<times> 'b \<times> fhandler_socket_unix \<times> 'c) option
    \<Rightarrow> fhandler_socket_unix" where
  "acc_sock r = fst (snd (snd (snd (the r))))"

definition acc_child :: "(int \<times> 'a \<times> 'b \<times> 'c \<times> fhandler_socket_unix option \<times> 'd) option
    \<Rightarrow> fhandler_socket_unix option" where
  "acc_child r = fst (snd (snd (snd (snd (the r)))))"

definition acc_proc :: "(int \<times> 'a \<times> 'b \<times> 'c \<times> 'd \<times> proc) option \<Rightarrow> proc" where
  "acc_proc r = snd (snd (snd (snd (snd (the r)))))"

text \<open>
  The stream socket bound to \<^verbatim>\<open>/tmp/s\<close> and listening; a client whose first packet
  carries the unnamed address; an \<^verbatim>\<open>accept4\<close> where everything succeeds, and one where
  the new pipe instance cannot be created.
\<close>

definition listening_run :: "(int \<times> fhandler_socket_unix \<times> proc) option" where
  "listening_run = listen pipe_created 5 (sock_of bound_run) (proc_of bound_run)"

definition client_packet :: "mbyte list" where
  "client_packet = map Some [10, 0, 0, 2, 0, 0, 0, 0, 1, 0] @ replicate 108 None"

definition accept_ok :: accept_env where
  "accept_ok = \<lparr>
     ae_listen = \<lparr>la_event = (STATUS_SUCCESS, 0x61), la_status = STATUS_PIPE_CONNECTED,
                   la_wait = WAIT_OBJECT_0, la_io_status = STATUS_SUCCESS\<rparr>,
     ae_inst = \<lparr>pa_npfs = STATUS_SUCCESS, pa_status = STATUS_SUCCESS, pa_handle = 0x51\<rparr>,
     ae_fd = 5, ae_sock = True, ae_id = 4, ae_addr_sun = 32, ae_addr_peer = 48,
     ae_recv = \<lparr>rp_event = (STATUS_SUCCESS, 0x62), rp_read = STATUS_SUCCESS,
                 rp_wait = WAIT_OBJECT_0, rp_io_status = STATUS_SUCCESS,
                 rp_packet = client_packet\<rparr>,
     ae_fault = False,
     ae_disc = \<lparr>da_status = STATUS_SUCCESS, da_wait = WAIT_OBJECT_0,
                 da_io_status = STATUS_SUCCESS\<rparr>\<rparr>"

definition accept_noinst :: accept_env where
  "accept_noinst = accept_ok\<lparr>ae_inst := pipe_failed\<rparr>"

definition accepted_run :: "(int \<times> mbyte list option \<times> int option \<times> fhandler_socket_unix
    \<times> fhandler_socket_unix option \<times> proc) option" where
  "accepted_run = accept4 accept_ok None None 0 (sock_of listening_run) (proc_of listening_run)"

definition refused_run :: "(int \<times> mbyte list option \<times> int option \<times> fhandler_socket_unix
    \<times> fhandler_socket_unix option \<times> proc) option" where
  "refused_run =
     accept4 accept_noinst None None 0 (sock_of listening_run) (proc_of listening_run)"

text \<open>
  Further connects of the stream socket: to an address of family 2 and the length of
  \<^verbatim>\<open>/tmp/s\<close>; to a peer that is a datagram socket; to a peer whose pipe opens at
  once, and a second connect after that; to a peer whose pipe cannot be opened; and the
  connect of the listening socket.
\<close>

definition name_inet_s :: "mbyte list" where
  "name_inet_s = map Some [2, 0, 47, 116, 109, 112, 47, 115, 0]"

definition wrong_family_run :: "(int \<times> fhandler_socket_unix \<times> proc) option" where
  "wrong_family_run = connect conn_missing (Some name_inet_s) 9 stream0 proc0"

definition wrong_type_run :: "(int \<times> fhandler_socket_unix \<times> proc) option" where
  "wrong_type_run = connect conn_dgram (Some name_tmp_d) 9 stream0 proc0"

definition conn_ok :: connect_env where
  "conn_ok = \<lparr>ce_lookup = lookup_stream, ce_pipe = cpipe_ok, ce_addr = 16, ce_addr_failed = 32\<rparr>"

definition opened_run :: "(int \<times> fhandler_socket_unix \<times> proc) option" where
  "opened_run = connect conn_ok (Some name_tmp_s) 9 stream0 proc0"

definition isconn_run :: "(int \<times> fhandler_socket_unix \<times> proc) option" where
  "isconn_run = connect conn_ok (Some name_tmp_s) 9 (sock_of opened_run) (proc_of opened_run)"

definition open_refused :: open_ans where
  "open_refused = \<lparr>oa_npfs = STATUS_SUCCESS, oa_status = STATUS_OBJECT_NAME_NOT_FOUND,
     oa_handle = 0, oa_write = STATUS_SUCCESS\<rparr>"

definition conn_refused :: connect_env where
  "conn_refused = \<lparr>ce_lookup = lookup_stream,
     ce_pipe = \<lparr>cp_open = open_refused, cp_wait = wait_blocking\<rparr>,
     ce_addr = 16, ce_addr_failed = 32\<rparr>"

definition refused_connect_run :: "(int \<times> fhandler_socket_unix \<times> proc) option" where
  "refused_connect_run = connect conn_refused (Some name_tmp_s) 9 stream0 proc0"

definition listener_run :: "(int \<times> fhandler_socket_unix \<times> proc) option" where
  "listener_run
     = connect conn_ok (Some name_tmp_s) 9 (sock_of listening_run) (proc_of listening_run)"

section \<open>Properties\<close>

lemmas errno_defs = ENOENT_def EINTR_def EIO_def EAGAIN_def EFAULT_def EINVAL_def EDOM_def
  EPROTO_def EOPNOTSUPP_def ENOBUFS_def EAFNOSUPPORT_def ENOPROTOOPT_def EADDRINUSE_def
  ECONNABORTED_def ETIMEDOUT_def EINPROGRESS_def EALREADY_def EDESTADDRREQ_def
  EPROTONOSUPPORT_def EADDRNOTAVAIL_def EISCONN_def ENOTCONN_def

lemmas status_defs = STATUS_SUCCESS_def STATUS_PENDING_def STATUS_OBJECT_NAME_EXISTS_def
  STATUS_INVALID_DEVICE_REQUEST_def STATUS_OBJECT_NAME_NOT_FOUND_def
  STATUS_OBJECT_NAME_COLLISION_def STATUS_THREAD_IS_TERMINATING_def
  STATUS_INSUFFICIENT_RESOURCES_def STATUS_INSTANCE_NOT_AVAILABLE_def
  STATUS_PIPE_NOT_AVAILABLE_def STATUS_PIPE_BUSY_def STATUS_PIPE_CONNECTED_def
  STATUS_PIPE_LISTENING_def STATUS_IO_TIMEOUT_def

subsection \<open>Packet header\<close>

lemma unat_u8_bound: "unat (n :: uint8_t) < 256"
  using unsigned_less [of n] by simp

lemma unat_u16_bound: "unat (n :: uint16_t) < 65536"
  using unsigned_less [of n] by simp

lemma unat_ucast_u8: "unat (ucast (n :: uint8_t) :: size_t) = unat n"
  by (simp add: unsigned_ucast_eq take_bit_nat_eq_self less_trans [OF unat_u8_bound])

lemma unat_ucast_u16: "unat (ucast (n :: uint16_t) :: size_t) = unat n"
  by (simp add: unsigned_ucast_eq take_bit_nat_eq_self less_trans [OF unat_u16_bound])

lemma unat_packet_sum:
  "unat (8 + ucast (n :: uint8_t) + ucast (c :: uint16_t) + ucast (d :: uint16_t) :: size_t)
     = 8 + unat n + unat c + unat d"
  using unat_u8_bound [of n] unat_u16_bound [of c] unat_u16_bound [of d]
  by (simp add: unat_word_ariths unat_ucast_u8 unat_ucast_u16)

lemma unat_narrow:
  assumes "unat (w :: size_t) = m" and "m < 65536"
  shows "unat (ucast w :: uint16_t) = m"
  using assms by (simp add: unsigned_ucast_eq take_bit_nat_eq_self)

text \<open>
  C1.  Whenever the header, the name, the ancillary data and the user data together have at
  most 65535 bytes, \<^verbatim>\<open>init\<close> stores its four arguments unchanged and sets
  \<^verbatim>\<open>pckt_len\<close> to the size of the header (8) plus the three lengths; the name starts
  right behind the header, the ancillary data right behind the name, and the user data right
  behind the ancillary data.
\<close>

theorem init_sets_fields_and_layout:
  assumes "unat sizeof_af_unix_pkt_hdr_t + unat n + unat c + unat d \<le> 65535"
  shows "unat sizeof_af_unix_pkt_hdr_t = 8
       \<and> shut_info (init h s n c d) = s \<and> name_len (init h s n c d) = n
       \<and> cmsg_len (init h s n c d) = c \<and> data_len (init h s n c d) = d
       \<and> unat (pckt_len (init h s n c d)) = unat sizeof_af_unix_pkt_hdr_t + unat n + unat c + unat d
       \<and> unat (AF_UNIX_PKT_OFFSETOF_NAME (init h s n c d)) = unat sizeof_af_unix_pkt_hdr_t
       \<and> unat (AF_UNIX_PKT_OFFSETOF_CMSG (init h s n c d)) = unat sizeof_af_unix_pkt_hdr_t + unat n
       \<and> unat (AF_UNIX_PKT_OFFSETOF_DATA (init h s n c d))
           = unat sizeof_af_unix_pkt_hdr_t + unat n + unat c"
proof -
  have total: "8 + unat n + unat c + unat d < 65536"
    using assms by (simp add: sizeof_af_unix_pkt_hdr_t_def)
  have len: "unat (ucast (8 + ucast n + ucast c + ucast d :: size_t) :: uint16_t)
               = 8 + unat n + unat c + unat d"
    by (rule unat_narrow [OF unat_packet_sum total])
  show ?thesis
    using len unat_packet_sum [of n c 0] unat_packet_sum [of n 0 0]
    by (simp add: init_def Let_def sizeof_af_unix_pkt_hdr_t_def AF_UNIX_PKT_OFFSETOF_NAME_def
        AF_UNIX_PKT_OFFSETOF_CMSG_def AF_UNIX_PKT_OFFSETOF_DATA_def)
qed

theorem init_sets_fields_and_layout_witness:
  "unat sizeof_af_unix_pkt_hdr_t + unat (110 :: uint8_t) + unat (16 :: uint16_t)
      + unat (65000 :: uint16_t) \<le> 65535
   \<and> pckt_len (init blank_hdr 1 110 16 65000) = 65134
   \<and> AF_UNIX_PKT_OFFSETOF_DATA (init blank_hdr 1 110 16 65000) = 134"
  using init_sets_fields_and_layout [of 110 16 65000 blank_hdr 1]
  by (simp add: init_def sizeof_af_unix_pkt_hdr_t_def AF_UNIX_PKT_OFFSETOF_DATA_def)

subsection \<open>Names that were never set\<close>






lemma stream0_names: "sun_path stream0 = None \<and> peer_sun_path stream0 = None"
  by (simp add: stream0_def socket_def SOCK_STREAM_def SOCK_DGRAM_def Let_def constructed_def
      set_cred_def zeroed_def)








subsection \<open>Evaluation on the example states\<close>

lemmas lock_defs = AcquireSRWLockExclusive_def ReleaseSRWLockExclusive_def
  AcquireSRWLockShared_def ReleaseSRWLockShared_def

lemma hexdigits_numeral:
  "hexdigits (numeral k) v = hexdigits (pred_numeral k) (v div 16) @ [hexdigit v]"
  using hexdigits.simps(2) [of "pred_numeral k" v] by (simp only: numeral_eq_Suc [symmetric])

lemma stream0_fields:
  "socket_type stream0 = SOCK_STREAM" "binding_state stream0 = unbound"
  "connect_state stream0 = unconnected" "bind_lock stream0 = Unlocked"
  "conn_lock stream0 = Unlocked" "io_lock stream0 = Unlocked" "\<not> is_nonblocking stream0"
  "connect_trace stream0 = []"
  by (simp_all add: stream0_def socket_def SOCK_STREAM_def SOCK_DGRAM_def SOCK_NONBLOCK_def
      SOCK_CLOEXEC_def Let_def constructed_def set_cred_def zeroed_def)

lemma sun_from_tmp_s:
  "sun_name_from (Some (name_tmp_s @ rest)) 9
     = \<lparr>un_len = 9, un = name_tmp_s @ replicate 101 None @ [Some 0]\<rparr>"
  by (simp add: sun_name_from_def name_tmp_s_def memcpy_def poke_def raw_sun_def
      sizeof_sockaddr_un_def Let_def)

lemma family_tmp_s: "sun_family \<lparr>un_len = n, un = name_tmp_s @ rest\<rparr> = Some AF_UNIX"
  by (simp add: sun_family_def rd_u16_def rd_u8_def name_tmp_s_def AF_UNIX_def)

lemma path0_tmp_s: "sun_path_at \<lparr>un_len = n, un = name_tmp_s @ rest\<rparr> 0 = Some 47"
  by (simp add: sun_path_at_def rd_u8_def name_tmp_s_def sizeof_sa_family_t_def)

lemma bind_stream_file:
  assumes sun: "sun_name_from name n = sun"
    and fam: "sun_family sun = Some AF_UNIX"
    and len: "2 < un_len sun"
    and c: "sun_path_at sun 0 = Some c" "c \<noteq> 0"
    and s: "bind_lock s = Unlocked" "binding_state s = unbound" "socket_type s = SOCK_STREAM"
       "connect_state s \<noteq> connected" "peer_sun_path s = None"
    and p: "heap p (be_addr e) = None"
    and f: "fa_reparse (be_file e) = (fh, None)" "fh \<noteq> 0"
  shows "\<exists>s'. bind_unix e name n s p
            = Some (0, s', p\<lparr>heap := (heap p)(be_addr e \<mapsto> sun_name_from (Some (un sun)) (un_len sun))\<rparr>)
          \<and> sun_path s' = Some (be_addr e) \<and> peer_sun_path s' = None
          \<and> binding_state s' = bound \<and> connect_state s' = connect_state s
          \<and> socket_type s' = socket_type s \<and> is_nonblocking s' = is_nonblocking s
          \<and> bind_lock s' = Unlocked \<and> conn_lock s' = conn_lock s \<and> io_lock s' = io_lock s"
  using fam len c s p f
  by (simp add: bind_unix_def sun lock_defs sizeof_sa_family_t_def Let_def create_file_def
      create_reparse_point_def gen_pipe_name_def set_sun_path_snt_def set_sun_path_def
      new_sun_name_def SOCK_STREAM_def SOCK_DGRAM_def)

lemma bound_run_eq:
  "\<exists>s'. bound_run = Some (0, s', proc0\<lparr>heap := (heap proc0)(16 \<mapsto>
                \<lparr>un_len = 9, un = name_tmp_s @ replicate 101 None @ [Some 0]\<rparr>)\<rparr>)
        \<and> sun_path s' = Some 16 \<and> peer_sun_path s' = None
        \<and> binding_state s' = bound \<and> connect_state s' = unconnected
        \<and> socket_type s' = SOCK_STREAM \<and> \<not> is_nonblocking s'
        \<and> bind_lock s' = Unlocked \<and> conn_lock s' = Unlocked \<and> io_lock s' = Unlocked"
proof -
  have sun: "sun_name_from (Some name_tmp_s) 9
               = \<lparr>un_len = 9, un = name_tmp_s @ replicate 101 None @ [Some 0]\<rparr>"
    using sun_from_tmp_s [of "[]"] by simp
  have "\<exists>s'. bind_unix (bind_ok 16) (Some name_tmp_s) 9 stream0 proc0
            = Some (0, s', proc0\<lparr>heap := (heap proc0)(be_addr (bind_ok 16) \<mapsto>
                sun_name_from (Some (name_tmp_s @ replicate 101 None @ [Some 0])) 9)\<rparr>)
          \<and> sun_path s' = Some (be_addr (bind_ok 16)) \<and> peer_sun_path s' = None
          \<and> binding_state s' = bound \<and> connect_state s' = connect_state stream0
          \<and> socket_type s' = socket_type stream0 \<and> is_nonblocking s' = is_nonblocking stream0
          \<and> bind_lock s' = Unlocked \<and> conn_lock s' = conn_lock stream0
          \<and> io_lock s' = io_lock stream0"
    using bind_stream_file [OF sun family_tmp_s _ path0_tmp_s, of stream0 proc0 "bind_ok 16"
        INVALID_HANDLE_VALUE]
    by (simp add: stream0_fields stream0_names bind_ok_def file_created_def proc0_def
        INVALID_HANDLE_VALUE_def)
  then show ?thesis
    by (simp add: bound_run_def sun_from_tmp_s stream0_fields bind_ok_def)
qed

subsection \<open>Bound names and getsockname\<close>

lemma copy_tmp_s_len_first:
  assumes "heap p q = Some \<lparr>un_len = 9, un = name_tmp_s @ rest\<rparr>"
  shows "copy_name_out len_first (Some q) (replicate 110 None) 110 p
           = Some (0, name_tmp_s @ replicate 101 None, 1949237249)"
  using assms
  by (simp add: copy_name_out_def sun_image_def sun_name_default_def len_first_def memcpy_def
      poke_def raw_sun_def le16_def le32_def sizeof_sockaddr_un_def sizeof_sa_family_t_def
      AF_UNIX_def name_tmp_s_def rd_i32_def rd_u8_def Let_def nth_append)

lemma copy_tmp_s_un_first:
  assumes "heap p q = Some \<lparr>un_len = 9, un = name_tmp_s @ rest\<rparr>"
  shows "copy_name_out un_first (Some q) (replicate 110 None) 110 p
           = Some (0, take 2 name_tmp_s @ replicate 108 None, 2)"
  using assms
  by (simp add: copy_name_out_def sun_image_def sun_name_default_def un_first_def memcpy_def
      poke_def raw_sun_def le16_def le32_def sizeof_sockaddr_un_def sizeof_sa_family_t_def
      AF_UNIX_def name_tmp_s_def rd_i32_def rd_u8_def Let_def nth_append)

text \<open>
  C2.  The claim fails on the code.  The stream socket is bound to \<^verbatim>\<open>/tmp/s\<close> with
  length 9; \<^verbatim>\<open>bind\<close> returns 0 and the stored name has length 9.  \<^verbatim>\<open>getsockname\<close>
  with a buffer of 110 bytes then stores 1949237249 in \<^verbatim>\<open>*namelen\<close> if the length is the
  first member of \<^verbatim>\<open>sun_name_t\<close> (its four bytes were overwritten by the start of the
  name), and 2 with the two bytes of the family if the name is the first member (the length
  of the default-constructed local is never replaced).  Under neither layout is it 9.
\<close>

theorem getsockname_after_bind_misses_length:
  "ret_of bound_run = Some 0
   \<and> map_option un_len (heap (proc_of bound_run) 16) = Some 9
   \<and> sun_path (sock_of bound_run) = Some 16
   \<and> getsockname len_first (replicate 110 None) 110 (sock_of bound_run) (proc_of bound_run)
       = Some (0, name_tmp_s @ replicate 101 None, 1949237249)
   \<and> getsockname un_first (replicate 110 None) 110 (sock_of bound_run) (proc_of bound_run)
       = Some (0, take 2 name_tmp_s @ replicate 108 None, 2)"
proof -
  obtain s' where run: "bound_run = Some (0, s', proc0\<lparr>heap := (heap proc0)(16 \<mapsto>
                \<lparr>un_len = 9, un = name_tmp_s @ replicate 101 None @ [Some 0]\<rparr>)\<rparr>)"
      and s': "sun_path s' = Some 16"
    using bound_run_eq by blast
  have h: "heap (proc_of bound_run) 16
             = Some \<lparr>un_len = 9, un = name_tmp_s @ replicate 101 None @ [Some 0]\<rparr>"
    by (simp add: run proc_of_def)
  have s: "sun_path (sock_of bound_run) = Some 16"
    by (simp add: run sock_of_def s')
  have r: "ret_of bound_run = Some 0"
    by (simp add: run ret_of_def)
  show ?thesis
    using copy_tmp_s_len_first [OF h] copy_tmp_s_un_first [OF h]
    by (simp add: getsockname_def r s h)
qed

lemma length_hexdigits: "length (hexdigits k v) = k"
  by (induction k arbitrary: v) simp_all

lemma hexdigit_in_range: "hexdigit n \<in> set ''0123456789ABCDEF''"
proof -
  have "n mod 16 < length ''0123456789ABCDEF''" by simp
  then show ?thesis unfolding hexdigit_def by (rule nth_mem)
qed

lemma hexdigits_in_range: "set (hexdigits k v) \<subseteq> set ''0123456789ABCDEF''"
proof (induction k arbitrary: v)
  case 0
  then show ?case by simp
next
  case (Suc k)
  have "hexdigit v \<in> set ''0123456789ABCDEF''" by (rule hexdigit_in_range)
  with Suc [of "v div 16"] show ?case by simp
qed

lemma length_poke_inside:
  assumes "off + length bs \<le> length m"
  shows "length (poke m off bs) = length m"
  using assms by (simp add: poke_def)

lemma autobound_bytes:
  assumes "length u = 111" and "length d = 5"
  shows "take 6 (drop 2 (poke (poke u 2 [Some 0]) 3 (d @ [Some 0]))) = Some 0 # d"
  using assms by (simp add: poke_def)

text \<open>
  Whenever autobind succeeds, the name it leaves has length 8: behind the family come a NUL
  and the five digits that the formatter produces for the low 20 bits of the id drawn last.
  The formatter always gives five characters out of \<^verbatim>\<open>0123456789ABCDEF\<close>.
\<close>

lemma autobind_name_shape:
  assumes "autobind rounds sun s p = Some (fh, sun', s', p')"
    and "length (un sun) = sizeof_sockaddr_un + 1"
  shows "fh \<noteq> 0 \<and> un_len sun' = 8 \<and> length (un sun') = sizeof_sockaddr_un + 1
       \<and> take 6 (drop 2 (un sun'))
           = Some 0 # map (\<lambda>c. Some (of_char c))
                        (small_sprintf_5X (ucast (unique_id s' AND 0xfffff)))"
  using assms
proof (induction rounds arbitrary: sun s p)
  case Nil
  then show ?case by simp
next
  case (Cons round rounds)
  obtain new_id ans where round: "round = (new_id, ans)" by (cases round)
  let ?d = "map (\<lambda>c. Some (of_char c)) (small_sprintf_5X (ucast (new_id AND 0xfffff))) :: mbyte list"
  let ?sun = "sun\<lparr>un := poke (poke (un sun) 2 [Some 0]) 3 (?d @ [Some 0]), un_len := 8\<rparr>"
  have d: "length ?d = 5"
    by (simp add: small_sprintf_5X_def length_hexdigits)
  have len: "length (un ?sun) = sizeof_sockaddr_un + 1"
    using Cons.prems(2) d by (simp add: poke_def sizeof_sockaddr_un_def)
  have bytes: "take 6 (drop 2 (un ?sun)) = Some 0 # ?d"
    using Cons.prems(2) d by (simp add: autobound_bytes sizeof_sockaddr_un_def)
  obtain fh0 p0 where link: "create_abstract_link ans ?sun p = (fh0, p0)"
    by (cases "create_abstract_link ans ?sun p")
  have step: "autobind (round # rounds) sun s p
                = (if fh0 = 0 then autobind rounds ?sun (s\<lparr>unique_id := new_id\<rparr>) p0
                   else Some (fh0, ?sun, s\<lparr>unique_id := new_id\<rparr>, p0))"
    using link d by (simp add: round Let_def sizeof_sa_family_t_def small_sprintf_5X_def
        length_hexdigits)
  show ?case
  proof (cases "fh0 = 0")
    case True
    with Cons.prems(1) step
    have "autobind rounds ?sun (s\<lparr>unique_id := new_id\<rparr>) p0 = Some (fh, sun', s', p')"
      by simp
    from Cons.IH [OF this len] show ?thesis .
  next
    case False
    with Cons.prems(1) step have "fh = fh0" "sun' = ?sun" "s' = s\<lparr>unique_id := new_id\<rparr>"
      by simp_all
    with False len bytes show ?thesis by simp
  qed
qed

lemma sun_from_unnamed:
  "sun_name_from (Some name_unnamed) 2 = \<lparr>un_len = 2, un = name_unnamed @ replicate 108 None @ [Some 0]\<rparr>"
  by (simp add: sun_name_from_def name_unnamed_def memcpy_def poke_def raw_sun_def
      sizeof_sockaddr_un_def Let_def)

lemma family_unnamed: "sun_family \<lparr>un_len = n, un = name_unnamed @ rest\<rparr> = Some AF_UNIX"
  by (simp add: sun_family_def rd_u16_def rd_u8_def name_unnamed_def AF_UNIX_def)

lemma digits_ABCDE: "small_sprintf_5X 703710 = ''ABCDE''"
  by (simp add: small_sprintf_5X_def hexdigits_numeral hexdigit_def)

lemma autobind_ABCDE:
  "autobind [(0xABCDE, STATUS_SUCCESS, 0x44)]
       \<lparr>un_len = 2, un = name_unnamed @ replicate 108 None @ [Some 0]\<rparr> s p
     = Some (0x44, \<lparr>un_len = 8, un = name_autobound @ Some 0 # replicate 101 None @ [Some 0]\<rparr>,
             s\<lparr>unique_id := 0xABCDE\<rparr>, p)"
  by (simp add: digits_ABCDE create_abstract_link_def NT_SUCCESS_def STATUS_SUCCESS_def
      name_unnamed_def name_autobound_def poke_def sizeof_sa_family_t_def Let_def)

lemma sun_from_autobound:
  "sun_name_from (Some (name_autobound @ rest)) 8
     = \<lparr>un_len = 8, un = name_autobound @ replicate 102 None @ [Some 0]\<rparr>"
  by (simp add: sun_name_from_def name_autobound_def memcpy_def poke_def raw_sun_def
      sizeof_sockaddr_un_def Let_def)

lemma autobound_run_eq:
  "\<exists>s'. autobound_run = Some (0, s', proc0\<lparr>heap := (heap proc0)(16 \<mapsto>
                \<lparr>un_len = 8, un = name_autobound @ replicate 102 None @ [Some 0]\<rparr>)\<rparr>)
        \<and> sun_path s' = Some 16"
  using stream0_names
  by (simp add: autobound_run_def bind_unix_def sun_from_unnamed family_unnamed bind_ok_def
      stream0_fields lock_defs sizeof_sa_family_t_def Let_def autobind_ABCDE gen_pipe_name_def
      set_sun_path_snt_def set_sun_path_def new_sun_name_def proc0_def sun_from_autobound
      SOCK_STREAM_def SOCK_DGRAM_def del: autobind.simps)

lemma copy_autobound_len_first:
  assumes "heap p q = Some \<lparr>un_len = 8, un = name_autobound @ rest\<rparr>"
  shows "copy_name_out len_first (Some q) (replicate 110 None) 110 p
           = Some (0, name_autobound @ replicate 102 None, 1090519041)"
  using assms
  by (simp add: copy_name_out_def sun_image_def sun_name_default_def len_first_def memcpy_def
      poke_def raw_sun_def le16_def le32_def sizeof_sockaddr_un_def sizeof_sa_family_t_def
      AF_UNIX_def name_autobound_def rd_i32_def rd_u8_def Let_def nth_append)

lemma copy_autobound_un_first:
  assumes "heap p q = Some \<lparr>un_len = 8, un = name_autobound @ rest\<rparr>"
  shows "copy_name_out un_first (Some q) (replicate 110 None) 110 p
           = Some (0, take 2 name_autobound @ replicate 108 None, 2)"
  using assms
  by (simp add: copy_name_out_def sun_image_def sun_name_default_def un_first_def memcpy_def
      poke_def raw_sun_def le16_def le32_def sizeof_sockaddr_un_def sizeof_sa_family_t_def
      AF_UNIX_def name_autobound_def rd_i32_def rd_u8_def Let_def nth_append)

text \<open>
  C7.  The claim fails on the code in its last part.  Binding the unnamed address (length 2)
  of a stream socket autobinds: with the id \<^verbatim>\<open>0xABCDE\<close> the stored name has length 8
  and is the family, a NUL and the five digits \<^verbatim>\<open>ABCDE\<close>.  \<^verbatim>\<open>getsockname\<close> then
  stores 1090519041 in \<^verbatim>\<open>*namelen\<close> if the length is the first member of
  \<^verbatim>\<open>sun_name_t\<close>, and 2 with the family alone if the name is the first member; it does
  not report the name of length 8.
\<close>

theorem getsockname_after_autobind_misses_length:
  "ret_of autobound_run = Some 0
   \<and> sun_path (sock_of autobound_run) = Some 16
   \<and> heap (proc_of autobound_run) 16
       = Some \<lparr>un_len = 8, un = name_autobound @ replicate 102 None @ [Some 0]\<rparr>
   \<and> getsockname len_first (replicate 110 None) 110 (sock_of autobound_run)
         (proc_of autobound_run)
       = Some (0, name_autobound @ replicate 102 None, 1090519041)
   \<and> getsockname un_first (replicate 110 None) 110 (sock_of autobound_run)
         (proc_of autobound_run)
       = Some (0, take 2 name_autobound @ replicate 108 None, 2)"
proof -
  obtain s' where run: "autobound_run = Some (0, s', proc0\<lparr>heap := (heap proc0)(16 \<mapsto>
                \<lparr>un_len = 8, un = name_autobound @ replicate 102 None @ [Some 0]\<rparr>)\<rparr>)"
      and s': "sun_path s' = Some 16"
    using autobound_run_eq by blast
  have h: "heap (proc_of autobound_run) 16
             = Some \<lparr>un_len = 8, un = name_autobound @ replicate 102 None @ [Some 0]\<rparr>"
    by (simp add: run proc_of_def)
  have s: "sun_path (sock_of autobound_run) = Some 16"
    by (simp add: run sock_of_def s')
  have r: "ret_of autobound_run = Some 0"
    by (simp add: run ret_of_def)
  show ?thesis
    using copy_autobound_len_first [OF h] copy_autobound_un_first [OF h]
    by (simp add: getsockname_def r s h)
qed

subsection \<open>Locks\<close>

lemma listen_without_pipe:
  assumes "socket_type s = SOCK_STREAM" "bind_lock s = Unlocked" "binding_state s = bound"
    "conn_lock s = Unlocked" "connect_state s = unconnected"
  shows "\<exists>s' p'. listen pipe_failed backlog s p = Some (- 1, s', p')
           \<and> conn_lock s' = Exclusive \<and> bind_lock s' = Unlocked \<and> binding_state s' = bound
           \<and> socket_type s' = SOCK_STREAM"
  using assms
  by (simp add: listen_def lock_defs create_pipe_def pipe_failed_def NT_SUCCESS_def
      status_defs set_connect_state_def SOCK_STREAM_def SOCK_DGRAM_def)

lemma listen_blocks:
  assumes "socket_type s = SOCK_STREAM" "bind_lock s = Unlocked" "binding_state s = bound"
    "conn_lock s = Exclusive"
  shows "listen e backlog s p = None"
  using assms by (simp add: listen_def lock_defs SOCK_STREAM_def SOCK_DGRAM_def)

lemma connect_blocks:
  assumes "conn_lock s = Exclusive"
  shows "connect e name namelen s p = None"
  using assms by (simp add: connect_def lock_defs)

text \<open>
  C9.  The claim fails on the code.  On the stream socket bound to \<^verbatim>\<open>/tmp/s\<close>, whose
  locks are all free, \<^verbatim>\<open>listen\<close> with a pipe that cannot be created returns -1 and
  leaves \<^verbatim>\<open>conn_lock\<close> held exclusively; a second \<^verbatim>\<open>listen\<close> or a
  \<^verbatim>\<open>connect\<close> on that socket then never returns.
\<close>

theorem listen_returns_with_conn_lock_held:
  "ret_of bound_run = Some 0
   \<and> conn_lock (sock_of bound_run) = Unlocked
   \<and> ret_of failed_listen_run = Some (- 1)
   \<and> conn_lock (sock_of failed_listen_run) = Exclusive
   \<and> listen pipe_created 5 (sock_of failed_listen_run) (proc_of failed_listen_run) = None
   \<and> connect conn_missing (Some name_tmp_d) 9 (sock_of failed_listen_run)
         (proc_of failed_listen_run) = None"
proof -
  obtain s where run: "bound_run = Some (0, s, proc0\<lparr>heap := (heap proc0)(16 \<mapsto>
                \<lparr>un_len = 9, un = name_tmp_s @ replicate 101 None @ [Some 0]\<rparr>)\<rparr>)"
      and s: "binding_state s = bound" "connect_state s = unconnected"
        "socket_type s = SOCK_STREAM" "bind_lock s = Unlocked" "conn_lock s = Unlocked"
    using bound_run_eq by blast
  have sock: "sock_of bound_run = s"
    by (simp add: run sock_of_def)
  obtain s' p' where fail: "failed_listen_run = Some (- 1, s', p')"
      and s': "conn_lock s' = Exclusive" "bind_lock s' = Unlocked" "binding_state s' = bound"
        "socket_type s' = SOCK_STREAM"
    unfolding failed_listen_run_def sock
    using listen_without_pipe [OF s(3) s(4) s(1) s(5) s(2)] by blast
  have sock': "sock_of failed_listen_run = s'"
    by (simp add: fail sock_of_def)
  show ?thesis
    using listen_blocks [OF s'(4) s'(2) s'(3) s'(1)] connect_blocks [OF s'(1)] s s'
    by (simp add: run fail ret_of_def sock_of_def proc_of_def)
qed

subsection \<open>The peer-name handshake\<close>

lemma recv_peer_name_pending:
  assumes "w = WAIT_TIMEOUT \<or> w = WAIT_SIGNALED"
  shows "\<exists>p'. recv_peer_name (recv_pending w) a s p = Some (0, s, p')"
  using assms
  by (auto simp: recv_peer_name_def recv_pending_def create_event_def NT_SUCCESS_def
      status_defs rd_u8_def Let_def)

text \<open>
  C5.  The claim fails on the code.  When the read of the peer's name is pending and the
  wait for it times out, or is interrupted by a signal, \<^verbatim>\<open>recv_peer_name\<close> returns 0
  on every socket: neither \<^verbatim>\<open>ECONNABORTED\<close> nor \<^verbatim>\<open>EINTR\<close>, which are not 0.
\<close>

theorem recv_peer_name_reports_success_on_timeout:
  "ret_of (recv_peer_name (recv_pending WAIT_TIMEOUT) a s p) = Some 0
   \<and> ret_of (recv_peer_name (recv_pending WAIT_SIGNALED) a s p) = Some 0
   \<and> ECONNABORTED \<noteq> 0 \<and> EINTR \<noteq> 0"
proof -
  obtain p1 where t: "recv_peer_name (recv_pending WAIT_TIMEOUT) a s p = Some (0, s, p1)"
    using recv_peer_name_pending [of WAIT_TIMEOUT a s p] by blast
  obtain p2 where i: "recv_peer_name (recv_pending WAIT_SIGNALED) a s p = Some (0, s, p2)"
    using recv_peer_name_pending [of WAIT_SIGNALED a s p] by blast
  show ?thesis
    by (simp add: t i ret_of_def ECONNABORTED_def EINTR_def)
qed

subsection \<open>The connect state machine\<close>

lemma same_conn_refl: "same_conn s s"
  by (simp add: same_conn_def)

lemma same_conn_trans: "same_conn s s1 \<Longrightarrow> same_conn s1 s2 \<Longrightarrow> same_conn s s2"
  by (simp add: same_conn_def)

lemma send_my_name_same_conn:
  assumes "send_my_name wr s p = Some (r, s1, p1)"
  shows "same_conn s s1"
  using assms
  by (auto simp: send_my_name_def same_conn_def Let_def split: Option.bind_splits)

lemma open_pipe_same_conn:
  assumes "open_pipe e s p = Some (status, s1, p1)"
  shows "same_conn s s1"
  using assms
  by (auto simp: open_pipe_def Let_def same_conn_def split: if_splits Option.bind_splits
      dest!: send_my_name_same_conn)

lemma wait_loop_same_conn:
  "wait_loop stamp rounds timeout error s p = Some (err, s1, p1) \<Longrightarrow> same_conn s s1"
proof (induction rounds arbitrary: timeout error s p)
  case Nil
  then show ?case by simp
next
  case (Cons r rounds)
  from Cons.prems show ?case
    by (auto simp: Let_def split: if_splits Option.bind_splits
        dest!: open_pipe_same_conn Cons.IH intro: same_conn_trans same_conn_refl)
qed

lemma wait_pipe_thread_body_same_conn:
  assumes "wait_pipe_thread_body e s p = Some (error, s1, p1)"
  shows "same_conn s s1"
  using assms
  by (auto simp: wait_pipe_thread_body_def Let_def split: if_splits prod.splits
      dest: wait_loop_same_conn intro: same_conn_refl)

lemma wait_pipe_thread_out_result:
  assumes "wait_pipe_thread_out error s p = Some (r, s1, p1)"
  shows "r = error \<and> so_error s1 = word_of_int error
       \<and> connect_state s1 = (if error \<noteq> 0 then connect_failed else connected)
       \<and> connect_trace s1 = connect_trace s @ [connect_state s1]
       \<and> socket_type s1 = socket_type s \<and> is_nonblocking s1 = is_nonblocking s
       \<and> conn_lock s1 = conn_lock s"
  using assms
  by (auto simp: wait_pipe_thread_out_def lock_defs set_connect_state_def Let_def
      split: if_splits)

lemma wait_pipe_thread_result:
  assumes "wait_pipe_thread e s p = Some (r, s1, p1)"
  shows "so_error s1 = word_of_int r
       \<and> connect_state s1 = (if r \<noteq> 0 then connect_failed else connected)
       \<and> connect_trace s1 = connect_trace s @ [connect_state s1]
       \<and> socket_type s1 = socket_type s \<and> is_nonblocking s1 = is_nonblocking s
       \<and> conn_lock s1 = conn_lock s"
proof -
  obtain error s0 p0 where body: "wait_pipe_thread_body e s p = Some (error, s0, p0)"
    and out: "wait_pipe_thread_out error s0 p0 = Some (r, s1, p1)"
    using assms by (auto simp: wait_pipe_thread_def split: Option.bind_splits)
  show ?thesis
    using wait_pipe_thread_out_result [OF out] wait_pipe_thread_body_same_conn [OF body]
    by (simp add: same_conn_def)
qed

lemma waiter_so_far_result:
  assumes "waiter_so_far g e s p = (s1, p1)"
  shows "errno p1 = errno p \<and> socket_type s1 = socket_type s
       \<and> is_nonblocking s1 = is_nonblocking s \<and> conn_lock s1 = conn_lock s
       \<and> (connect_state s1 = connect_state s \<and> connect_trace s1 = connect_trace s
          \<or> g = Thread_ended \<and> (connect_state s1 = connected \<or> connect_state s1 = connect_failed)
            \<and> connect_trace s1 = connect_trace s @ [connect_state s1])"
proof (cases g)
  case Thread_started
  with assms show ?thesis by (simp add: waiter_so_far_def)
next
  case Thread_at_out
  show ?thesis
  proof (cases "wait_pipe_thread_body e s p")
    case None
    with assms Thread_at_out show ?thesis by (simp add: waiter_so_far_def)
  next
    case (Some res)
    obtain error s0 p0 where res: "res = (error, s0, p0)" by (cases res)
    from assms Thread_at_out Some res have "s1 = s0" "p1 = p0\<lparr>errno := errno p\<rparr>"
      by (simp_all add: waiter_so_far_def)
    with wait_pipe_thread_body_same_conn [of e s p error s0 p0] Some res show ?thesis
      by (simp add: same_conn_def)
  qed
next
  case Thread_ended
  show ?thesis
  proof (cases "wait_pipe_thread e s p")
    case None
    with assms Thread_ended show ?thesis by (simp add: waiter_so_far_def)
  next
    case (Some res)
    obtain error s0 p0 where res: "res = (error, s0, p0)" by (cases res)
    from assms Thread_ended Some res have "s1 = s0" "p1 = p0\<lparr>errno := errno p\<rparr>"
      by (simp_all add: waiter_so_far_def)
    with wait_pipe_thread_result [of e s p error s0 p0] Some res Thread_ended show ?thesis
      by auto
  qed
qed

lemma set_peer_sun_path_same_conn:
  assumes "set_peer_sun_path_snt a snt s p = Some (s1, p1)"
  shows "same_conn s s1"
  using assms
  by (auto simp: set_peer_sun_path_snt_def set_peer_sun_path_def same_conn_def Let_def
      split: option.splits Option.bind_splits)

lemma free_lock_kept: "conn_lock s = Unlocked \<Longrightarrow> s\<lparr>conn_lock := Unlocked\<rparr> = s"
  by (cases s) simp

lemma connect_refuses_pending:
  assumes "conn_lock s = Unlocked" and "connect_state s = connect_pending"
  shows "connect e name namelen s p = Some (- 1, s, set_errno EALREADY p)"
  using assms by (simp add: connect_def lock_defs Let_def free_lock_kept)

lemma connect_refuses_listener:
  assumes "conn_lock s = Unlocked" and "connect_state s = listener"
  shows "connect e name namelen s p = Some (- 1, s, set_errno EADDRINUSE p)"
  using assms by (simp add: connect_def lock_defs Let_def free_lock_kept)

lemma connect_refuses_connected:
  assumes "conn_lock s = Unlocked" and "connect_state s = connected"
    and "socket_type s \<noteq> SOCK_DGRAM"
  shows "connect e name namelen s p = Some (- 1, s, set_errno EISCONN p)"
  using assms by (simp add: connect_def lock_defs Let_def free_lock_kept)

lemma begin_connect:
  assumes "conn_lock s = Unlocked"
  shows "(set_connect_state connect_pending (s\<lparr>conn_lock := Exclusive\<rparr>))\<lparr>conn_lock := Unlocked\<rparr>
           = set_connect_state connect_pending s"
  using assms by (cases s) (simp add: set_connect_state_def)

lemma set_connect_state_fields:
  "conn_lock (set_connect_state v s) = conn_lock s"
  "socket_type (set_connect_state v s) = socket_type s"
  "is_nonblocking (set_connect_state v s) = is_nonblocking s"
  "peer_sun_path (set_connect_state v s) = peer_sun_path s"
  "sun_path (set_connect_state v s) = sun_path s"
  "bind_lock (set_connect_state v s) = bind_lock s"
  "io_lock (set_connect_state v s) = io_lock s"
  "connect_state (set_connect_state v s) = v"
  "connect_trace (set_connect_state v s) = connect_trace s @ [v]"
  by (simp_all add: set_connect_state_def)

lemma passes_simps:
  assumes "passes_state_checks s"
  shows "connect_state s \<noteq> connect_pending" "connect_state s \<noteq> listener"
    "(connect_state s = connected \<and> socket_type s \<noteq> SOCK_DGRAM) = False"
  using assms by (auto simp: passes_state_checks_def)

lemma connect_short_address:
  assumes "conn_lock s = Unlocked" and "passes_state_checks s"
    and "un_len (sun_name_from name namelen) \<le> int sizeof_sa_family_t"
  shows "connect e name namelen s p
           = Some (- 1, set_connect_state unconnected (set_connect_state connect_pending s),
                   set_errno EINVAL p)"
  using assms(1,3)
  by (simp add: connect_def lock_defs Let_def begin_connect passes_simps [OF assms(2)]
      set_connect_state_fields)

lemma connect_wrong_family:
  assumes "conn_lock s = Unlocked" and "passes_state_checks s"
    and "int sizeof_sa_family_t < un_len (sun_name_from name namelen)"
    and "sun_family (sun_name_from name namelen) = Some f" and "f \<noteq> AF_UNIX"
  shows "connect e name namelen s p
           = Some (- 1, set_connect_state unconnected (set_connect_state connect_pending s),
                   set_errno EAFNOSUPPORT p)"
  using assms(1,3-)
  by (simp add: connect_def lock_defs Let_def begin_connect passes_simps [OF assms(2)]
      set_connect_state_fields)

lemma connect_after_checks:
  assumes "conn_lock s = Unlocked" and "passes_state_checks s"
    and "accepted_address (sun_name_from name namelen)"
  shows "connect e name namelen s p =
     do {
       (r, peer_type, pname, p) \<leftarrow> open_file (ce_lookup e) (sun_name_from name namelen) p;
       if r < 0 then Some (- 1, set_connect_state unconnected (set_connect_state connect_pending s), p)
       else if peer_type \<noteq> Some (socket_type s)
       then Some (- 1, set_connect_state unconnected (set_connect_state connect_pending s),
                  set_errno EINVAL p)
       else do {
         (s, p) \<leftarrow> set_peer_sun_path_snt (ce_addr e) (Some (sun_name_from name namelen))
                     (set_connect_state connect_pending s) p;
         if socket_type s \<noteq> SOCK_DGRAM
         then do {
           (r, s, p) \<leftarrow> connect_pipe (ce_pipe e) s p;
           if r < 0
           then (if errno p \<noteq> EINPROGRESS
                 then do {
                   (s, p) \<leftarrow> set_peer_sun_path_snt (ce_addr_failed e) None s p;
                   Some (- 1, set_connect_state connect_failed s, p)
                 }
                 else Some (- 1, s, p))
           else Some (0, set_connect_state connected s, p)
         }
         else Some (0, set_connect_state connected s, p)
       }
     }"
proof -
  obtain c where c: "sun_path_at (sun_name_from name namelen) 0 = Some c"
    "(un_len (sun_name_from name namelen) = 3 \<and> c = 0) = False"
    using assms(3) by (auto simp: accepted_address_def split: option.splits)
  have a: "int sizeof_sa_family_t < un_len (sun_name_from name namelen)"
    "sun_family (sun_name_from name namelen) = Some AF_UNIX"
    using assms(3) by (simp_all add: accepted_address_def)
  show ?thesis
    using assms(1) a
    by (simp add: connect_def lock_defs Let_def begin_connect passes_simps [OF assms(2)]
        set_connect_state_fields c cong: if_cong)
qed

lemma wait_pipe_result:
  assumes "wait_pipe e s p = Some (r, s1, p1)"
  shows "(r = 0 \<or> r = - 1) \<and> socket_type s1 = socket_type s
       \<and> (\<exists>ext. connect_trace s1 = connect_trace s @ ext)
       \<and> (r = - 1 \<and> errno p1 = EINPROGRESS
            \<longrightarrow> connect_state s1 = connect_state s \<or> connect_state s1 = connected
                \<or> connect_state s1 = connect_failed)"
proof -
  obtain evt p0 where ev: "create_event (we_event e) p = (evt, p0)"
    by (cases "create_event (we_event e) p")
  let ?s = "s\<lparr>cwt_termination_evt := evt, cwt_param := True, connect_wait_thr := we_thread e\<rparr>"
  show ?thesis
  proof (cases "evt = 0")
    case True
    with assms ev show ?thesis by (auto simp: wait_pipe_def Let_def)
  next
    case evt: False
    show ?thesis
    proof (cases "we_thread e = 0")
      case True
      with assms ev evt show ?thesis
        by (auto simp: wait_pipe_def Let_def split: if_splits)
    next
      case thr: False
      show ?thesis
      proof (cases "is_nonblocking s")
        case True
        obtain s2 p2 where w: "waiter_so_far (we_progress e) (we_run e) ?s p0 = (s2, p2)"
          by (cases "waiter_so_far (we_progress e) (we_run e) ?s p0")
        from assms ev evt thr True w have "r = - 1" "s1 = s2\<lparr>cwt_termination_evt := 0\<rparr>"
          by (auto simp: wait_pipe_def Let_def split: if_splits)
        with waiter_so_far_result [OF w] show ?thesis by auto
      next
        case False
        then obtain err s2 p2 where t: "wait_pipe_thread (we_run e) ?s p0 = Some (err, s2, p2)"
          using assms ev evt thr
          by (cases "wait_pipe_thread (we_run e) ?s p0")
             (auto simp: wait_pipe_def Let_def split: if_splits)
        from assms ev evt thr False t
        have "(r = 0 \<or> r = - 1) \<and> connect_state s1 = connect_state s2
              \<and> connect_trace s1 = connect_trace s2 \<and> socket_type s1 = socket_type s2"
          by (auto simp: wait_pipe_def Let_def split: if_splits waitret.splits)
        with wait_pipe_thread_result [OF t] show ?thesis by auto
      qed
    qed
  qed
qed

lemma connect_pipe_result:
  assumes "connect_pipe e s p = Some (r, s1, p1)"
  shows "(r = 0 \<or> r = - 1) \<and> socket_type s1 = socket_type s
       \<and> (\<exists>ext. connect_trace s1 = connect_trace s @ ext)
       \<and> (r = - 1 \<and> errno p1 = EINPROGRESS
            \<longrightarrow> connect_state s1 = connect_state s \<or> connect_state s1 = connected
                \<or> connect_state s1 = connect_failed)"
proof -
  obtain status s0 p0 where op: "open_pipe (cp_open e) s p = Some (status, s0, p0)"
    using assms by (auto simp: connect_pipe_def split: Option.bind_splits)
  have s0: "same_conn s s0"
    using op by (rule open_pipe_same_conn)
  show ?thesis
  proof (cases "STATUS_PIPE_NO_INSTANCE_AVAILABLE status")
    case True
    then have "wait_pipe (cp_wait e) s0 p0 = Some (r, s1, p1)"
      using assms op by (simp add: connect_pipe_def)
    from wait_pipe_result [OF this] s0 show ?thesis
      by (auto simp: same_conn_def)
  next
    case False
    then show ?thesis
      using assms op s0
      by (auto simp: connect_pipe_def same_conn_def Let_def split: if_splits)
  qed
qed

lemma open_file_heap:
  assumes "open_file e sun p = Some (r, ty, nm, p0)"
  shows "heap p0 = heap p \<and> klog p0 = klog p"
  using assms
  by (auto simp: open_file_def open_link_def set_errno_def Let_def
      split: if_splits Option.bind_splits option.splits prod.splits)

lemma connect_general:
  assumes run: "connect e name namelen s p = Some (r, s', p')"
    and free: "conn_lock s = Unlocked" and pass: "passes_state_checks s"
  shows "(\<exists>rest. connect_trace s' = connect_trace s @ connect_pending # rest)
       \<and> socket_type s' = socket_type s
       \<and> (r = 0 \<and> connect_state s' = connected
          \<or> r = - 1 \<and> connect_state s' = connect_failed \<and> errno p' \<noteq> EINPROGRESS
          \<or> r = - 1 \<and> errno p' = EINPROGRESS
             \<and> (connect_state s' = connect_pending \<or> connect_state s' = connected
                \<or> connect_state s' = connect_failed)
          \<or> r = - 1
             \<and> s' = set_connect_state unconnected (set_connect_state connect_pending s)
             \<and> heap p' = heap p \<and> klog p' = klog p)"
proof -
  let ?sun = "sun_name_from name namelen"
  let ?pend = "set_connect_state connect_pending s"
  let ?reset = "set_connect_state unconnected ?pend"
  have reset: "connect_trace ?reset = connect_trace s @ connect_pending # [unconnected]"
    "socket_type ?reset = socket_type s"
    by (simp_all add: set_connect_state_fields)
  note st = passes_simps [OF pass]
  note head = connect_def lock_defs Let_def begin_connect set_connect_state_fields
  show ?thesis
  proof (cases "accepted_address ?sun")
    case False
    have early: "r = - 1 \<and> s' = ?reset \<and> heap p' = heap p \<and> klog p' = klog p"
    proof (cases "un_len ?sun \<le> int sizeof_sa_family_t")
      case True
      with run free show ?thesis by (auto simp: head st set_errno_def)
    next
      case long: False
      then obtain f where fam: "sun_family ?sun = Some f"
        using run free by (cases "sun_family ?sun") (simp_all add: head st)
      show ?thesis
      proof (cases "f = AF_UNIX")
        case False
        with run free long fam show ?thesis by (auto simp: head st set_errno_def)
      next
        case True
        obtain c where c: "sun_path_at ?sun 0 = Some c"
          using run free long fam True by (cases "sun_path_at ?sun 0") (simp_all add: head st)
        with False long fam True have "un_len ?sun = 3 \<and> c = 0"
          by (simp add: accepted_address_def)
        with run free long fam True c show ?thesis by (auto simp: head st set_errno_def)
      qed
    qed
    with reset show ?thesis by auto
  next
    case True
    note tail = run [unfolded connect_after_checks [OF free pass True]]
    obtain r0 ty nm p0 where look: "open_file (ce_lookup e) ?sun p = Some (r0, ty, nm, p0)"
      using tail by (cases "open_file (ce_lookup e) ?sun p") auto
    note hp = open_file_heap [OF look]
    show ?thesis
    proof (cases "r0 < 0 \<or> ty \<noteq> Some (socket_type s)")
      case True
      with tail look have "r = - 1 \<and> s' = ?reset \<and> heap p' = heap p0 \<and> klog p' = klog p0"
        by (auto simp: set_errno_def split: if_splits)
      with reset hp show ?thesis by auto
    next
      case found: False
      then obtain s3 p3 where
        peer: "set_peer_sun_path_snt (ce_addr e) (Some ?sun) ?pend p0 = Some (s3, p3)"
        using tail look
        by (cases "set_peer_sun_path_snt (ce_addr e) (Some ?sun) ?pend p0") auto
      have s3: "connect_state s3 = connect_pending"
        "connect_trace s3 = connect_trace s @ [connect_pending]"
        "socket_type s3 = socket_type s"
        using set_peer_sun_path_same_conn [OF peer]
        by (simp_all add: same_conn_def set_connect_state_fields)
      show ?thesis
      proof (cases "socket_type s = SOCK_DGRAM")
        case True
        with tail look found peer s3 have "r = 0" "s' = set_connect_state connected s3"
          by auto
        with s3 show ?thesis by (simp add: set_connect_state_fields)
      next
        case stream: False
        obtain r1 s4 p4 where pipe: "connect_pipe (ce_pipe e) s3 p3 = Some (r1, s4, p4)"
          using tail look found peer s3 stream
          by (cases "connect_pipe (ce_pipe e) s3 p3") auto
        note res = connect_pipe_result [OF pipe]
        from res obtain ext where ext: "connect_trace s4 = connect_trace s3 @ ext"
          by blast
        from res s3 have ty4: "socket_type s4 = socket_type s"
          by simp
        show ?thesis
        proof (cases "r1 < 0")
          case False
          with tail look found peer s3 stream pipe
          have "r = 0" "s' = set_connect_state connected s4"
            by auto
          then show ?thesis
            using ext s3 ty4 by (simp add: set_connect_state_fields)
        next
          case failed: True
          with res have r1: "r1 = - 1" by auto
          show ?thesis
          proof (cases "errno p4 = EINPROGRESS")
            case True
            with tail look found peer s3 stream pipe r1
            have "r = - 1" "s' = s4" "p' = p4"
              by auto
            with res r1 True ext s3 ty4 show ?thesis by auto
          next
            case False
            then obtain s5 p5 where
              drop: "set_peer_sun_path_snt (ce_addr_failed e) None s4 p4 = Some (s5, p5)"
              using tail look found peer s3 stream pipe r1
              by (cases "set_peer_sun_path_snt (ce_addr_failed e) None s4 p4") auto
            have s5: "connect_trace s5 = connect_trace s4" "socket_type s5 = socket_type s4"
              using set_peer_sun_path_same_conn [OF drop] by (simp_all add: same_conn_def)
            have e5: "errno p5 = errno p4"
              using drop
              by (auto simp: set_peer_sun_path_snt_def set_peer_sun_path_def new_sun_name_def
                  delete_sun_name_def split: option.splits Option.bind_splits if_splits)
            from False tail look found peer s3 stream pipe r1 drop
            have "r = - 1" "s' = set_connect_state connect_failed s5" "p' = p5"
              by auto
            then show ?thesis
              using ext s3 s5 e5 ty4 False by (simp add: set_connect_state_fields)
          qed
        qed
      qed
    qed
  qed
qed

lemma set_peer_sun_path_stores:
  assumes "can_store a s p"
  shows "\<exists>p1. set_peer_sun_path a unp len s p = Some (s\<lparr>peer_sun_path := Some a\<rparr>, p1)
           \<and> errno p1 = errno p \<and> klog p1 = klog p
           \<and> geterrno_from_nt_status p1 = geterrno_from_nt_status p
           \<and> heap p1 a = Some (sun_name_from unp len)
           \<and> (\<forall>q. q \<noteq> a \<longrightarrow> Some q \<noteq> peer_sun_path s \<longrightarrow> heap p1 q = heap p q)"
proof (cases "peer_sun_path s")
  case None
  with assms show ?thesis
    by (simp add: can_store_def set_peer_sun_path_def new_sun_name_def)
next
  case (Some q)
  with assms show ?thesis
    by (auto simp: can_store_def set_peer_sun_path_def new_sun_name_def delete_sun_name_def)
qed

lemma set_peer_sun_path_snt_stores:
  assumes "can_store a s p"
  shows "\<exists>p1 obj. set_peer_sun_path_snt a snt s p = Some (s\<lparr>peer_sun_path := Some a\<rparr>, p1)
           \<and> errno p1 = errno p \<and> klog p1 = klog p
           \<and> geterrno_from_nt_status p1 = geterrno_from_nt_status p
           \<and> heap p1 a = Some obj
           \<and> un_len obj = (case snt of None \<Rightarrow> 0 | Some sun \<Rightarrow> un_len (sun_name_from (Some (un sun)) (un_len sun)))
           \<and> (\<forall>q. q \<noteq> a \<longrightarrow> Some q \<noteq> peer_sun_path s \<longrightarrow> heap p1 q = heap p q)"
proof (cases snt)
  case None
  have "un_len (sun_name_from None 0) = 0"
    by (simp add: sun_name_from_def sizeof_sockaddr_un_def)
  with set_peer_sun_path_stores [OF assms, of None 0] None show ?thesis
    by (auto simp: set_peer_sun_path_snt_def)
next
  case (Some sun)
  with set_peer_sun_path_stores [OF assms, of "Some (un sun)" "un_len sun"] show ?thesis
    by (auto simp: set_peer_sun_path_snt_def)
qed

lemma un_len_stored:
  "un_len (sun_name_from (Some (un (sun_name_from name n))) (un_len (sun_name_from name n)))
     = un_len (sun_name_from name n)"
  by (simp add: sun_name_from_def Let_def sizeof_sockaddr_un_def)

lemma open_file_found:
  assumes "open_file e sun p = Some (r, Some t, nm, p0)"
  shows "r = 0"
  using assms
  by (auto simp: open_file_def Let_def split: if_splits Option.bind_splits prod.splits)

lemma connect_stores_peer:
  assumes free: "conn_lock s = Unlocked" and pass: "passes_state_checks s"
    and addr: "accepted_address (sun_name_from name namelen)"
    and look: "open_file (ce_lookup e) (sun_name_from name namelen) p
                 = Some (r0, Some (socket_type s), nm, p0)"
    and store: "can_store (ce_addr e) s p"
  shows "\<exists>p3. connect e name namelen s p =
           (if socket_type s \<noteq> SOCK_DGRAM
            then do {
              (r, s, p) \<leftarrow> connect_pipe (ce_pipe e)
                             ((set_connect_state connect_pending s)
                                \<lparr>peer_sun_path := Some (ce_addr e)\<rparr>) p3;
              if r < 0
              then (if errno p \<noteq> EINPROGRESS
                    then do {
                      (s, p) \<leftarrow> set_peer_sun_path_snt (ce_addr_failed e) None s p;
                      Some (- 1, set_connect_state connect_failed s, p)
                    }
                    else Some (- 1, s, p))
              else Some (0, set_connect_state connected s, p)
            }
            else Some (0, set_connect_state connected
                            ((set_connect_state connect_pending s)
                               \<lparr>peer_sun_path := Some (ce_addr e)\<rparr>), p3))
         \<and> errno p3 = errno p0 \<and> klog p3 = klog p
         \<and> geterrno_from_nt_status p3 = geterrno_from_nt_status p
         \<and> map_option un_len (heap p3 (ce_addr e)) = Some (un_len (sun_name_from name namelen))
         \<and> (\<forall>q. q \<noteq> ce_addr e \<longrightarrow> Some q \<noteq> peer_sun_path s \<longrightarrow> heap p3 q = heap p q)"
proof -
  let ?sun = "sun_name_from name namelen"
  let ?pend = "set_connect_state connect_pending s"
  have r0: "r0 = 0"
    using look by (rule open_file_found)
  have frame: "heap p0 = heap p" "klog p0 = klog p"
    using open_file_heap [OF look] by simp_all
  have tbl: "geterrno_from_nt_status p0 = geterrno_from_nt_status p"
    using look
    by (auto simp: open_file_def open_link_def set_errno_def Let_def
        split: if_splits Option.bind_splits option.splits prod.splits)
  have "can_store (ce_addr e) ?pend p0"
    using store frame by (simp add: can_store_def set_connect_state_fields split: option.splits)
  from set_peer_sun_path_snt_stores [OF this, of "Some ?sun"]
  obtain p3 obj where
    st: "set_peer_sun_path_snt (ce_addr e) (Some ?sun) ?pend p0
           = Some (?pend\<lparr>peer_sun_path := Some (ce_addr e)\<rparr>, p3)"
    and p3: "errno p3 = errno p0" "klog p3 = klog p0"
      "geterrno_from_nt_status p3 = geterrno_from_nt_status p0"
      "heap p3 (ce_addr e) = Some obj"
      "un_len obj = un_len (sun_name_from (Some (un ?sun)) (un_len ?sun))"
      "\<forall>q. q \<noteq> ce_addr e \<longrightarrow> Some q \<noteq> peer_sun_path ?pend \<longrightarrow> heap p3 q = heap p0 q"
    by auto
  have "connect e name namelen s p =
           (if socket_type s \<noteq> SOCK_DGRAM
            then do {
              (r, s, p) \<leftarrow> connect_pipe (ce_pipe e)
                             (?pend\<lparr>peer_sun_path := Some (ce_addr e)\<rparr>) p3;
              if r < 0
              then (if errno p \<noteq> EINPROGRESS
                    then do {
                      (s, p) \<leftarrow> set_peer_sun_path_snt (ce_addr_failed e) None s p;
                      Some (- 1, set_connect_state connect_failed s, p)
                    }
                    else Some (- 1, s, p))
              else Some (0, set_connect_state connected s, p)
            }
            else Some (0, set_connect_state connected
                            (?pend\<lparr>peer_sun_path := Some (ce_addr e)\<rparr>), p3))"
    unfolding connect_after_checks [OF free pass addr]
    by (simp add: look r0 st set_connect_state_fields)
  then show ?thesis
    using p3 frame tbl un_len_stored [of name namelen]
    by (intro exI [of _ p3]) (simp add: set_connect_state_fields)
qed

lemma no_instance_not_success:
  assumes "STATUS_PIPE_NO_INSTANCE_AVAILABLE status"
  shows "\<not> NT_SUCCESS status"
  using assms
  by (auto simp: STATUS_PIPE_NO_INSTANCE_AVAILABLE_def NT_SUCCESS_def status_defs)

lemma open_status_success:
  assumes "NT_SUCCESS (open_status e)"
  shows "NT_SUCCESS (oa_npfs e)" "NT_SUCCESS (oa_status e)" "open_status e = oa_status e"
  using assms by (auto simp: open_status_def split: if_splits)

lemma open_pipe_fails:
  assumes "\<not> NT_SUCCESS (open_status e)"
  shows "open_pipe e s p = Some (open_status e, s, p)"
  using assms by (auto simp: open_pipe_def open_status_def)

lemma send_my_name_returns:
  assumes "bind_lock s \<noteq> Exclusive" and "io_lock s = Unlocked"
    and "case sun_path s of None \<Rightarrow> True
         | Some q \<Rightarrow> (case heap p q of None \<Rightarrow> False | Some sun \<Rightarrow> 0 \<le> un_len sun)"
  shows "\<exists>r s1 p1. send_my_name wr s p = Some (r, s1, p1) \<and> same_conn s s1
           \<and> io_handle s1 = io_handle s \<and> peer_sun_path s1 = peer_sun_path s
           \<and> so_error s1 = so_error s
           \<and> errno p1 = errno p \<and> heap p1 = heap p
           \<and> geterrno_from_nt_status p1 = geterrno_from_nt_status p"
proof -
  obtain l where l: "AcquireSRWLockShared (bind_lock s) = Some l"
    "\<exists>l'. ReleaseSRWLockShared l = Some l'"
    using assms(1) by (cases "bind_lock s") (simp_all add: lock_defs)
  then obtain l' where l': "ReleaseSRWLockShared l = Some l'"
    by blast
  obtain nlen nm where rd:
    "(case sun_path s of
        None \<Rightarrow> Some (0, [])
      | Some q \<Rightarrow> (case heap p q of
                     None \<Rightarrow> None
                   | Some sun \<Rightarrow> if un_len sun < 0 then None
                                 else Some (un_len sun, take (nat (un_len sun)) (un sun))))
       = Some (nlen, nm)"
    using assms(3) by (auto split: option.splits)
  show ?thesis
    using l(1) l' rd assms(2)
    by (simp add: send_my_name_def Let_def AcquireSRWLockExclusive_def
        ReleaseSRWLockExclusive_def same_conn_def set_pipe_non_blocking_def kernel_def)
qed

lemma open_pipe_succeeds:
  assumes "NT_SUCCESS (open_status e)"
    and "bind_lock s \<noteq> Exclusive" and "io_lock s = Unlocked"
    and "case sun_path s of None \<Rightarrow> True
         | Some q \<Rightarrow> (case heap p q of None \<Rightarrow> False | Some sun \<Rightarrow> 0 \<le> un_len sun)"
  shows "\<exists>s1 p1. open_pipe e s p = Some (open_status e, s1, p1) \<and> same_conn s s1
           \<and> io_handle s1 = oa_handle e \<and> peer_sun_path s1 = peer_sun_path s
           \<and> errno p1 = errno p \<and> heap p1 = heap p
           \<and> geterrno_from_nt_status p1 = geterrno_from_nt_status p"
proof -
  let ?s = "s\<lparr>io_handle := oa_handle e\<rparr>"
  have "\<exists>r s1 p1. send_my_name (oa_write e) ?s p = Some (r, s1, p1) \<and> same_conn ?s s1
           \<and> io_handle s1 = io_handle ?s \<and> peer_sun_path s1 = peer_sun_path ?s
           \<and> so_error s1 = so_error ?s
           \<and> errno p1 = errno p \<and> heap p1 = heap p
           \<and> geterrno_from_nt_status p1 = geterrno_from_nt_status p"
    using assms(2-) by (intro send_my_name_returns) simp_all
  then obtain r s1 p1 where snd: "send_my_name (oa_write e) ?s p = Some (r, s1, p1)"
    and res: "same_conn ?s s1" "io_handle s1 = oa_handle e"
      "peer_sun_path s1 = peer_sun_path s" "errno p1 = errno p" "heap p1 = heap p"
      "geterrno_from_nt_status p1 = geterrno_from_nt_status p"
    by auto
  have "open_pipe e s p = Some (open_status e, s1, p1)"
    using open_status_success [OF assms(1)] snd by (simp add: open_pipe_def)
  with res show ?thesis
    by (simp add: same_conn_def)
qed

lemma connect_datagram:
  assumes free: "conn_lock s = Unlocked" and pass: "passes_state_checks s"
    and addr: "accepted_address (sun_name_from name namelen)"
    and look: "open_file (ce_lookup e) (sun_name_from name namelen) p
                 = Some (r0, Some (socket_type s), nm, p0)"
    and store: "can_store (ce_addr e) s p"
    and dgram: "socket_type s = SOCK_DGRAM"
  shows "\<exists>s' p'. connect e name namelen s p = Some (0, s', p')
           \<and> conn_lock s' = Unlocked \<and> connect_state s' = connected
           \<and> connect_trace s' = connect_trace s @ [connect_pending, connected]
           \<and> peer_sun_path s' = Some (ce_addr e)
           \<and> map_option un_len (heap p' (ce_addr e))
               = Some (un_len (sun_name_from name namelen))"
  using connect_stores_peer [OF free pass addr look store] dgram free
  by (auto simp: set_connect_state_fields set_connect_state_def)

lemma connect_pipe_opened:
  assumes "NT_SUCCESS (open_status (cp_open e))"
    and "bind_lock s \<noteq> Exclusive" and "io_lock s = Unlocked"
    and "case sun_path s of None \<Rightarrow> True
         | Some q \<Rightarrow> (case heap p q of None \<Rightarrow> False | Some sun \<Rightarrow> 0 \<le> un_len sun)"
  shows "\<exists>s1 p1. connect_pipe e s p = Some (0, s1, p1) \<and> same_conn s s1
           \<and> io_handle s1 = oa_handle (cp_open e) \<and> so_error s1 = 0
           \<and> peer_sun_path s1 = peer_sun_path s"
proof -
  obtain s1 p1 where op: "open_pipe (cp_open e) s p = Some (open_status (cp_open e), s1, p1)"
    and res: "same_conn s s1" "io_handle s1 = oa_handle (cp_open e)"
      "peer_sun_path s1 = peer_sun_path s"
    using open_pipe_succeeds [OF assms] by blast
  have "\<not> STATUS_PIPE_NO_INSTANCE_AVAILABLE (open_status (cp_open e))"
    using assms(1) no_instance_not_success by blast
  then have "connect_pipe e s p = Some (0, s1\<lparr>so_error := 0\<rparr>, p1)"
    using op assms(1) by (simp add: connect_pipe_def)
  with res show ?thesis
    by (simp add: same_conn_def)
qed

lemma connect_stream_opened:
  assumes free: "conn_lock s = Unlocked" and pass: "passes_state_checks s"
    and addr: "accepted_address (sun_name_from name namelen)"
    and look: "open_file (ce_lookup e) (sun_name_from name namelen) p
                 = Some (r0, Some (socket_type s), nm, p0)"
    and store: "can_store (ce_addr e) s p"
    and stream: "socket_type s \<noteq> SOCK_DGRAM"
    and opened: "NT_SUCCESS (open_status (cp_open (ce_pipe e)))"
    and send: "can_send_name (ce_addr e) s p"
  shows "\<exists>s' p'. connect e name namelen s p = Some (0, s', p')
           \<and> conn_lock s' = Unlocked \<and> connect_state s' = connected
           \<and> connect_trace s' = connect_trace s @ [connect_pending, connected]
           \<and> io_handle s' = oa_handle (cp_open (ce_pipe e)) \<and> so_error s' = 0
           \<and> peer_sun_path s' = Some (ce_addr e)"
proof -
  let ?s3 = "(set_connect_state connect_pending s)\<lparr>peer_sun_path := Some (ce_addr e)\<rparr>"
  from connect_stores_peer [OF free pass addr look store] stream
  obtain p3 where
    c: "connect e name namelen s p =
          do {
            (r, s, p) \<leftarrow> connect_pipe (ce_pipe e) ?s3 p3;
            if r < 0
            then (if errno p \<noteq> EINPROGRESS
                  then do {
                    (s, p) \<leftarrow> set_peer_sun_path_snt (ce_addr_failed e) None s p;
                    Some (- 1, set_connect_state connect_failed s, p)
                  }
                  else Some (- 1, s, p))
            else Some (0, set_connect_state connected s, p)
          }"
    and frame: "\<forall>q. q \<noteq> ce_addr e \<longrightarrow> Some q \<noteq> peer_sun_path s \<longrightarrow> heap p3 q = heap p q"
    by auto
  have rd: "case sun_path ?s3 of None \<Rightarrow> True
            | Some q \<Rightarrow> (case heap p3 q of None \<Rightarrow> False | Some sun \<Rightarrow> 0 \<le> un_len sun)"
    using send frame
    by (auto simp: can_send_name_def set_connect_state_fields set_connect_state_def
        split: option.splits)
  have locks: "bind_lock ?s3 \<noteq> Exclusive" "io_lock ?s3 = Unlocked"
    using send by (simp_all add: can_send_name_def set_connect_state_def)
  obtain s4 p4 where pipe: "connect_pipe (ce_pipe e) ?s3 p3 = Some (0, s4, p4)"
    and res: "same_conn ?s3 s4" "io_handle s4 = oa_handle (cp_open (ce_pipe e))"
      "so_error s4 = 0" "peer_sun_path s4 = peer_sun_path ?s3"
    using connect_pipe_opened [OF opened locks rd] by blast
  have "connect e name namelen s p = Some (0, set_connect_state connected s4, p4)"
    unfolding c by (simp add: pipe)
  with res free show ?thesis
    by (simp add: same_conn_def set_connect_state_def)
qed

lemma connect_stream_refused:
  assumes free: "conn_lock s = Unlocked" and pass: "passes_state_checks s"
    and addr: "accepted_address (sun_name_from name namelen)"
    and look: "open_file (ce_lookup e) (sun_name_from name namelen) p
                 = Some (r0, Some (socket_type s), nm, p0)"
    and store: "can_store (ce_addr e) s p"
    and stream: "socket_type s \<noteq> SOCK_DGRAM"
    and fails: "\<not> NT_SUCCESS (open_status (cp_open (ce_pipe e)))"
    and other: "\<not> STATUS_PIPE_NO_INSTANCE_AVAILABLE (open_status (cp_open (ce_pipe e)))"
    and err: "geterrno_from_nt_status p (open_status (cp_open (ce_pipe e))) \<noteq> EINPROGRESS"
    and room: "heap p (ce_addr_failed e) = None"
  shows "\<exists>s' p'. connect e name namelen s p = Some (- 1, s', p')
           \<and> errno p' = geterrno_from_nt_status p (open_status (cp_open (ce_pipe e)))
           \<and> conn_lock s' = Unlocked \<and> connect_state s' = connect_failed
           \<and> connect_trace s' = connect_trace s @ [connect_pending, connect_failed]
           \<and> so_error s'
               = word_of_int (geterrno_from_nt_status p (open_status (cp_open (ce_pipe e))))
           \<and> peer_sun_path s' = Some (ce_addr_failed e)
           \<and> map_option un_len (heap p' (ce_addr_failed e)) = Some 0"
proof -
  let ?s3 = "(set_connect_state connect_pending s)\<lparr>peer_sun_path := Some (ce_addr e)\<rparr>"
  let ?st = "open_status (cp_open (ce_pipe e))"
  from connect_stores_peer [OF free pass addr look store] stream
  obtain p3 where
    c: "connect e name namelen s p =
          do {
            (r, s, p) \<leftarrow> connect_pipe (ce_pipe e) ?s3 p3;
            if r < 0
            then (if errno p \<noteq> EINPROGRESS
                  then do {
                    (s, p) \<leftarrow> set_peer_sun_path_snt (ce_addr_failed e) None s p;
                    Some (- 1, set_connect_state connect_failed s, p)
                  }
                  else Some (- 1, s, p))
            else Some (0, set_connect_state connected s, p)
          }"
    and tbl: "geterrno_from_nt_status p3 = geterrno_from_nt_status p"
    and obj: "map_option un_len (heap p3 (ce_addr e)) = Some (un_len (sun_name_from name namelen))"
    and frame: "\<forall>q. q \<noteq> ce_addr e \<longrightarrow> Some q \<noteq> peer_sun_path s \<longrightarrow> heap p3 q = heap p q"
    by auto
  let ?p4 = "seterrno_from_nt_status ?st p3"
  let ?s4 = "?s3\<lparr>so_error := word_of_int (geterrno_from_nt_status p ?st)\<rparr>"
  have e4: "errno ?p4 = geterrno_from_nt_status p ?st"
    by (simp add: seterrno_from_nt_status_def set_errno_def tbl)
  have pipe: "connect_pipe (ce_pipe e) ?s3 p3 = Some (- 1, ?s4, ?p4)"
    using fails other by (simp add: connect_pipe_def open_pipe_fails Let_def e4)
  have "can_store (ce_addr_failed e) ?s4 ?p4"
  proof (cases "ce_addr_failed e = ce_addr e")
    case True
    with obj show ?thesis
      by (auto simp: can_store_def seterrno_from_nt_status_def set_errno_def)
  next
    case False
    have "Some (ce_addr_failed e) \<noteq> peer_sun_path s"
      using store room by (auto simp: can_store_def split: option.splits)
    with False frame room have "heap p3 (ce_addr_failed e) = None"
      by simp
    with obj show ?thesis
      by (auto simp: can_store_def seterrno_from_nt_status_def set_errno_def)
  qed
  from set_peer_sun_path_snt_stores [OF this, of None]
  obtain p5 ob where
    drop: "set_peer_sun_path_snt (ce_addr_failed e) None ?s4 ?p4
             = Some (?s4\<lparr>peer_sun_path := Some (ce_addr_failed e)\<rparr>, p5)"
    and p5: "errno p5 = errno ?p4" "heap p5 (ce_addr_failed e) = Some ob" "un_len ob = 0"
    by auto
  have "connect e name namelen s p
          = Some (- 1, set_connect_state connect_failed
                         (?s4\<lparr>peer_sun_path := Some (ce_addr_failed e)\<rparr>), p5)"
    unfolding c pipe using err e4 drop by simp
  with p5 e4 free show ?thesis
    by (simp add: set_connect_state_def)
qed

lemma wait_pipe_in_progress:
  assumes "snd (we_event w) \<noteq> 0" and "we_thread w \<noteq> 0" and "is_nonblocking s"
  shows "\<exists>s1 p1. wait_pipe w s p = Some (- 1, s1, p1) \<and> errno p1 = EINPROGRESS
           \<and> conn_lock s1 = conn_lock s
           \<and> (connect_state s1 = connect_state s \<and> connect_trace s1 = connect_trace s
              \<or> we_progress w = Thread_ended
                \<and> (connect_state s1 = connected \<or> connect_state s1 = connect_failed)
                \<and> connect_trace s1 = connect_trace s @ [connect_state s1])"
proof -
  obtain st evt where we: "we_event w = (st, evt)"
    by (cases "we_event w")
  obtain p0 where ev: "create_event (we_event w) p = (evt, p0)"
    by (simp add: create_event_def we)
  have evt: "evt \<noteq> 0"
    using assms(1) we by simp
  let ?s = "s\<lparr>cwt_termination_evt := evt, cwt_param := True, connect_wait_thr := we_thread w\<rparr>"
  obtain s2 p2 where wt: "waiter_so_far (we_progress w) (we_run w) ?s p0 = (s2, p2)"
    by (cases "waiter_so_far (we_progress w) (we_run w) ?s p0")
  have "\<exists>p1. wait_pipe w s p = Some (- 1, s2\<lparr>cwt_termination_evt := 0\<rparr>, p1)
          \<and> errno p1 = EINPROGRESS"
    using ev evt assms(2,3) wt
    by (simp add: wait_pipe_def Let_def set_errno_def kernel_def)
  with waiter_so_far_result [OF wt] show ?thesis
    by auto
qed

lemma connect_stream_in_progress:
  assumes free: "conn_lock s = Unlocked" and pass: "passes_state_checks s"
    and addr: "accepted_address (sun_name_from name namelen)"
    and look: "open_file (ce_lookup e) (sun_name_from name namelen) p
                 = Some (r0, Some (socket_type s), nm, p0)"
    and store: "can_store (ce_addr e) s p"
    and stream: "socket_type s \<noteq> SOCK_DGRAM"
    and busy: "STATUS_PIPE_NO_INSTANCE_AVAILABLE (open_status (cp_open (ce_pipe e)))"
    and evt: "snd (we_event (cp_wait (ce_pipe e))) \<noteq> 0"
    and thr: "we_thread (cp_wait (ce_pipe e)) \<noteq> 0"
    and nb: "is_nonblocking s"
  shows "\<exists>s' p'. connect e name namelen s p = Some (- 1, s', p') \<and> errno p' = EINPROGRESS
           \<and> conn_lock s' = Unlocked
           \<and> (connect_state s' = connect_pending
                \<and> connect_trace s' = connect_trace s @ [connect_pending]
              \<or> we_progress (cp_wait (ce_pipe e)) = Thread_ended
                \<and> (connect_state s' = connected \<or> connect_state s' = connect_failed)
                \<and> connect_trace s' = connect_trace s @ [connect_pending, connect_state s'])"
proof -
  let ?s3 = "(set_connect_state connect_pending s)\<lparr>peer_sun_path := Some (ce_addr e)\<rparr>"
  from connect_stores_peer [OF free pass addr look store] stream
  obtain p3 where
    c: "connect e name namelen s p =
          do {
            (r, s, p) \<leftarrow> connect_pipe (ce_pipe e) ?s3 p3;
            if r < 0
            then (if errno p \<noteq> EINPROGRESS
                  then do {
                    (s, p) \<leftarrow> set_peer_sun_path_snt (ce_addr_failed e) None s p;
                    Some (- 1, set_connect_state connect_failed s, p)
                  }
                  else Some (- 1, s, p))
            else Some (0, set_connect_state connected s, p)
          }"
    by auto
  have nb3: "is_nonblocking ?s3"
    using nb by (simp add: set_connect_state_def)
  obtain s4 p4 where w: "wait_pipe (cp_wait (ce_pipe e)) ?s3 p3 = Some (- 1, s4, p4)"
    and res: "errno p4 = EINPROGRESS" "conn_lock s4 = conn_lock ?s3"
      "connect_state s4 = connect_state ?s3 \<and> connect_trace s4 = connect_trace ?s3
       \<or> we_progress (cp_wait (ce_pipe e)) = Thread_ended
         \<and> (connect_state s4 = connected \<or> connect_state s4 = connect_failed)
         \<and> connect_trace s4 = connect_trace ?s3 @ [connect_state s4]"
    using wait_pipe_in_progress [OF evt thr nb3, of p3] by blast
  have pipe: "connect_pipe (ce_pipe e) ?s3 p3 = Some (- 1, s4, p4)"
    using busy no_instance_not_success [OF busy] w
    by (simp add: connect_pipe_def open_pipe_fails)
  have "connect e name namelen s p = Some (- 1, s4, p4)"
    unfolding c pipe using res(1) by simp
  with res free show ?thesis
    by (auto simp: set_connect_state_def)
qed

lemma wait_loop_timeout:
  assumes "ro_status r = STATUS_IO_TIMEOUT"
  shows "wait_loop stamp (r # rs) t err s p = Some (ETIMEDOUT, s, p)"
  using assms
  by (simp add: status_defs STATUS_PIPE_NO_INSTANCE_AVAILABLE_def Let_def)

lemma wait_pipe_thread_timeout:
  assumes "conn_lock s = Unlocked" and "NT_SUCCESS (te_npfs e)" and "snd (te_event e) \<noteq> 0"
    and "te_rounds e = r # rs" and "ro_status r = STATUS_IO_TIMEOUT"
  shows "\<exists>s1 p1. wait_pipe_thread e s p = Some (ETIMEDOUT, s1, p1)
           \<and> connect_state s1 = connect_failed
           \<and> connect_trace s1 = connect_trace s @ [connect_failed]
           \<and> so_error s1 = word_of_int ETIMEDOUT
           \<and> peer_sun_path s1 = peer_sun_path s \<and> socket_type s1 = socket_type s
           \<and> conn_lock s1 = Unlocked
           \<and> heap p1 = heap p \<and> geterrno_from_nt_status p1 = geterrno_from_nt_status p"
proof -
  obtain st evt where te: "te_event e = (st, evt)"
    by (cases "te_event e")
  with assms(3) have evt: "evt \<noteq> 0"
    by simp
  show ?thesis
    using assms(1,2,4,5) te evt
    by (simp add: wait_pipe_thread_def wait_pipe_thread_body_def wait_pipe_thread_out_def
        create_event_def wait_loop_timeout lock_defs Let_def ETIMEDOUT_def set_connect_state_def
        seterrno_from_nt_status_def set_errno_def
        del: wait_loop.simps)
qed

lemma wait_pipe_timeout:
  assumes "conn_lock s = Unlocked"
    and "snd (we_event w) \<noteq> 0" and "we_thread w \<noteq> 0" and "\<not> is_nonblocking s"
    and "we_wait w = WAIT_OBJECT_0"
    and "NT_SUCCESS (te_npfs (we_run w))" and "snd (te_event (we_run w)) \<noteq> 0"
    and "te_rounds (we_run w) = r # rs" and "ro_status r = STATUS_IO_TIMEOUT"
  shows "\<exists>s1 p1. wait_pipe w s p = Some (- 1, s1, p1) \<and> errno p1 = ETIMEDOUT
           \<and> conn_lock s1 = Unlocked \<and> connect_state s1 = connect_failed
           \<and> connect_trace s1 = connect_trace s @ [connect_failed]
           \<and> so_error s1 = word_of_int ETIMEDOUT
           \<and> peer_sun_path s1 = peer_sun_path s
           \<and> heap p1 = heap p \<and> geterrno_from_nt_status p1 = geterrno_from_nt_status p"
proof -
  obtain st evt where we: "we_event w = (st, evt)"
    by (cases "we_event w")
  obtain p0 where ev: "create_event (we_event w) p = (evt, p0)"
    and p0: "heap p0 = heap p" "geterrno_from_nt_status p0 = geterrno_from_nt_status p"
    by (simp add: create_event_def we seterrno_from_nt_status_def set_errno_def)
  have evt: "evt \<noteq> 0"
    using assms(2) we by simp
  let ?s = "s\<lparr>cwt_termination_evt := evt, cwt_param := True, connect_wait_thr := we_thread w\<rparr>"
  have "conn_lock ?s = Unlocked"
    using assms(1) by simp
  from wait_pipe_thread_timeout [OF this assms(6-9), of p0]
  obtain s2 p2 where t: "wait_pipe_thread (we_run w) ?s p0 = Some (ETIMEDOUT, s2, p2)"
    and res: "conn_lock s2 = Unlocked" "connect_state s2 = connect_failed"
      "connect_trace s2 = connect_trace ?s @ [connect_failed]"
      "so_error s2 = word_of_int ETIMEDOUT" "peer_sun_path s2 = peer_sun_path ?s"
      "heap p2 = heap p0" "geterrno_from_nt_status p2 = geterrno_from_nt_status p0"
    by blast
  have "\<exists>s1 p1. wait_pipe w s p = Some (- 1, s1, p1) \<and> errno p1 = ETIMEDOUT
          \<and> conn_lock s1 = conn_lock s2
          \<and> connect_state s1 = connect_state s2 \<and> connect_trace s1 = connect_trace s2
          \<and> so_error s1 = word_of_int ETIMEDOUT \<and> peer_sun_path s1 = peer_sun_path s2
          \<and> heap p1 = heap p2 \<and> geterrno_from_nt_status p1 = geterrno_from_nt_status p2"
    using ev evt assms(3,4,5) t
    by (simp add: wait_pipe_def Let_def set_errno_def kernel_def ETIMEDOUT_def)
  with res p0 show ?thesis
    by auto
qed

lemma connect_stream_timed_out:
  assumes free: "conn_lock s = Unlocked" and pass: "passes_state_checks s"
    and addr: "accepted_address (sun_name_from name namelen)"
    and look: "open_file (ce_lookup e) (sun_name_from name namelen) p
                 = Some (r0, Some (socket_type s), nm, p0)"
    and store: "can_store (ce_addr e) s p"
    and stream: "socket_type s \<noteq> SOCK_DGRAM"
    and busy: "STATUS_PIPE_NO_INSTANCE_AVAILABLE (open_status (cp_open (ce_pipe e)))"
    and evt: "snd (we_event (cp_wait (ce_pipe e))) \<noteq> 0"
    and thr: "we_thread (cp_wait (ce_pipe e)) \<noteq> 0"
    and blocking: "\<not> is_nonblocking s"
    and joined: "we_wait (cp_wait (ce_pipe e)) = WAIT_OBJECT_0"
    and npfs: "NT_SUCCESS (te_npfs (we_run (cp_wait (ce_pipe e))))"
    and tevt: "snd (te_event (we_run (cp_wait (ce_pipe e)))) \<noteq> 0"
    and rounds: "te_rounds (we_run (cp_wait (ce_pipe e))) = r # rs"
    and timeout: "ro_status r = STATUS_IO_TIMEOUT"
    and room: "heap p (ce_addr_failed e) = None"
  shows "\<exists>s' p'. connect e name namelen s p = Some (- 1, s', p') \<and> errno p' = ETIMEDOUT
           \<and> conn_lock s' = Unlocked \<and> connect_state s' = connect_failed
           \<and> connect_trace s' = connect_trace s @ [connect_pending, connect_failed, connect_failed]
           \<and> so_error s' = word_of_int ETIMEDOUT
           \<and> peer_sun_path s' = Some (ce_addr_failed e)
           \<and> map_option un_len (heap p' (ce_addr_failed e)) = Some 0"
proof -
  let ?s3 = "(set_connect_state connect_pending s)\<lparr>peer_sun_path := Some (ce_addr e)\<rparr>"
  from connect_stores_peer [OF free pass addr look store] stream
  obtain p3 where
    c: "connect e name namelen s p =
          do {
            (r, s, p) \<leftarrow> connect_pipe (ce_pipe e) ?s3 p3;
            if r < 0
            then (if errno p \<noteq> EINPROGRESS
                  then do {
                    (s, p) \<leftarrow> set_peer_sun_path_snt (ce_addr_failed e) None s p;
                    Some (- 1, set_connect_state connect_failed s, p)
                  }
                  else Some (- 1, s, p))
            else Some (0, set_connect_state connected s, p)
          }"
    and obj: "map_option un_len (heap p3 (ce_addr e)) = Some (un_len (sun_name_from name namelen))"
    and frame: "\<forall>q. q \<noteq> ce_addr e \<longrightarrow> Some q \<noteq> peer_sun_path s \<longrightarrow> heap p3 q = heap p q"
    by auto
  have s3: "conn_lock ?s3 = Unlocked" "\<not> is_nonblocking ?s3"
    using free blocking by (simp_all add: set_connect_state_def)
  from wait_pipe_timeout [OF s3(1) evt thr s3(2) joined npfs tevt rounds timeout, of p3]
  obtain s4 p4 where w: "wait_pipe (cp_wait (ce_pipe e)) ?s3 p3 = Some (- 1, s4, p4)"
    and res: "errno p4 = ETIMEDOUT" "connect_state s4 = connect_failed"
      "connect_trace s4 = connect_trace ?s3 @ [connect_failed]"
      "so_error s4 = word_of_int ETIMEDOUT" "peer_sun_path s4 = peer_sun_path ?s3"
      "heap p4 = heap p3" "conn_lock s4 = Unlocked"
    by blast
  have pipe: "connect_pipe (ce_pipe e) ?s3 p3 = Some (- 1, s4, p4)"
    using busy no_instance_not_success [OF busy] w
    by (simp add: connect_pipe_def open_pipe_fails)
  have "can_store (ce_addr_failed e) s4 p4"
  proof (cases "ce_addr_failed e = ce_addr e")
    case True
    with obj res(5,6) show ?thesis
      by (auto simp: can_store_def)
  next
    case False
    have "Some (ce_addr_failed e) \<noteq> peer_sun_path s"
      using store room by (auto simp: can_store_def split: option.splits)
    with False frame room have "heap p3 (ce_addr_failed e) = None"
      by simp
    with obj res(5,6) show ?thesis
      by (auto simp: can_store_def)
  qed
  from set_peer_sun_path_snt_stores [OF this, of None]
  obtain p5 ob where
    drop: "set_peer_sun_path_snt (ce_addr_failed e) None s4 p4
             = Some (s4\<lparr>peer_sun_path := Some (ce_addr_failed e)\<rparr>, p5)"
    and p5: "errno p5 = errno p4" "heap p5 (ce_addr_failed e) = Some ob" "un_len ob = 0"
    by auto
  have "connect e name namelen s p
          = Some (- 1, set_connect_state connect_failed
                         (s4\<lparr>peer_sun_path := Some (ce_addr_failed e)\<rparr>), p5)"
    unfolding c pipe using res(1) drop by (simp add: ETIMEDOUT_def EINPROGRESS_def)
  with p5 res show ?thesis
    by (simp add: set_connect_state_def)
qed

lemma connect_peer_not_found:
  assumes free: "conn_lock s = Unlocked" and pass: "passes_state_checks s"
    and addr: "accepted_address (sun_name_from name namelen)"
    and look: "open_file (ce_lookup e) (sun_name_from name namelen) p = Some (r0, ty, nm, p0)"
    and fails: "r0 < 0"
  shows "connect e name namelen s p
           = Some (- 1, set_connect_state unconnected (set_connect_state connect_pending s), p0)"
  unfolding connect_after_checks [OF free pass addr] using fails by (simp add: look)

lemma connect_wrong_type:
  assumes free: "conn_lock s = Unlocked" and pass: "passes_state_checks s"
    and addr: "accepted_address (sun_name_from name namelen)"
    and look: "open_file (ce_lookup e) (sun_name_from name namelen) p = Some (r0, ty, nm, p0)"
    and found: "0 \<le> r0" and other: "ty \<noteq> Some (socket_type s)"
  shows "connect e name namelen s p
           = Some (- 1, set_connect_state unconnected (set_connect_state connect_pending s),
                   set_errno EINVAL p0)"
  unfolding connect_after_checks [OF free pass addr] using found other by (simp add: look)

lemma wait_loop_opens:
  assumes "ro_status r = STATUS_SUCCESS" and "NT_SUCCESS (open_status (ro_open r))"
    and "open_pipe (ro_open r) s p = Some (open_status (ro_open r), s1, p1)"
  shows "wait_loop stamp (r # rs) t 0 s p = Some (0, s1, p1)"
  using assms no_instance_not_success [of "open_status (ro_open r)"]
  by (auto simp: STATUS_SUCCESS_def STATUS_PENDING_def Let_def)

lemma wait_pipe_thread_opens:
  assumes "conn_lock s = Unlocked" and "NT_SUCCESS (te_npfs e)" and "snd (te_event e) \<noteq> 0"
    and "te_rounds e = r # rs" and "ro_status r = STATUS_SUCCESS"
    and "NT_SUCCESS (open_status (ro_open r))"
    and "bind_lock s \<noteq> Exclusive" and "io_lock s = Unlocked"
    and "case sun_path s of None \<Rightarrow> True
         | Some q \<Rightarrow> (case heap p q of None \<Rightarrow> False | Some sun \<Rightarrow> 0 \<le> un_len sun)"
  shows "\<exists>s1 p1. wait_pipe_thread e s p = Some (0, s1, p1)
           \<and> conn_lock s1 = Unlocked \<and> connect_state s1 = connected
           \<and> connect_trace s1 = connect_trace s @ [connected]
           \<and> so_error s1 = 0 \<and> io_handle s1 = oa_handle (ro_open r)"
proof -
  obtain st evt where te: "te_event e = (st, evt)"
    by (cases "te_event e")
  with assms(3) have evt: "evt \<noteq> 0"
    by simp
  obtain p0 where ev: "create_event (te_event e) p = (evt, p0)"
    and p0: "heap p0 = heap p"
    by (simp add: create_event_def te seterrno_from_nt_status_def set_errno_def)
  have rd: "case sun_path s of None \<Rightarrow> True
            | Some q \<Rightarrow> (case heap p0 q of None \<Rightarrow> False | Some sun \<Rightarrow> 0 \<le> un_len sun)"
    using assms(9) p0 by (auto split: option.splits)
  obtain s1 p1 where op: "open_pipe (ro_open r) s p0 = Some (open_status (ro_open r), s1, p1)"
    and res: "same_conn s s1" "io_handle s1 = oa_handle (ro_open r)"
    using open_pipe_succeeds [OF assms(6,7,8) rd] by blast
  have body: "wait_pipe_thread_body e s p = Some (0, s1, p1)"
    using assms(2,4) ev evt wait_loop_opens [OF assms(5,6) op]
    by (simp add: wait_pipe_thread_body_def del: wait_loop.simps)
  have lock: "conn_lock s1 = Unlocked"
    using res(1) assms(1) by (simp add: same_conn_def)
  have "\<exists>s2. wait_pipe_thread_out 0 s1 p1 = Some (0, s2, p1)
          \<and> conn_lock s2 = Unlocked
          \<and> connect_state s2 = connected \<and> connect_trace s2 = connect_trace s1 @ [connected]
          \<and> so_error s2 = 0 \<and> io_handle s2 = io_handle s1"
    using lock by (simp add: wait_pipe_thread_out_def lock_defs set_connect_state_def)
  with body res show ?thesis
    by (auto simp: wait_pipe_thread_def same_conn_def)
qed

lemma wait_pipe_in_progress_connected:
  assumes "snd (we_event w) \<noteq> 0" and "we_thread w \<noteq> 0" and "is_nonblocking s"
    and "we_progress w = Thread_ended"
    and "conn_lock s = Unlocked" and "NT_SUCCESS (te_npfs (we_run w))"
    and "snd (te_event (we_run w)) \<noteq> 0"
    and "te_rounds (we_run w) = r # rs" and "ro_status r = STATUS_SUCCESS"
    and "NT_SUCCESS (open_status (ro_open r))"
    and "bind_lock s \<noteq> Exclusive" and "io_lock s = Unlocked"
    and "case sun_path s of None \<Rightarrow> True
         | Some q \<Rightarrow> (case heap p q of None \<Rightarrow> False | Some sun \<Rightarrow> 0 \<le> un_len sun)"
  shows "\<exists>s1 p1. wait_pipe w s p = Some (- 1, s1, p1) \<and> errno p1 = EINPROGRESS
           \<and> conn_lock s1 = Unlocked \<and> connect_state s1 = connected
           \<and> connect_trace s1 = connect_trace s @ [connected]
           \<and> so_error s1 = 0 \<and> io_handle s1 = oa_handle (ro_open r)"
proof -
  obtain st evt where we: "we_event w = (st, evt)"
    by (cases "we_event w")
  obtain p0 where ev: "create_event (we_event w) p = (evt, p0)"
    and p0: "heap p0 = heap p"
    by (simp add: create_event_def we seterrno_from_nt_status_def set_errno_def)
  have evt: "evt \<noteq> 0"
    using assms(1) we by simp
  let ?s = "s\<lparr>cwt_termination_evt := evt, cwt_param := True, connect_wait_thr := we_thread w\<rparr>"
  have s: "conn_lock ?s = Unlocked" "bind_lock ?s \<noteq> Exclusive" "io_lock ?s = Unlocked"
    "case sun_path ?s of None \<Rightarrow> True
     | Some q \<Rightarrow> (case heap p0 q of None \<Rightarrow> False | Some sun \<Rightarrow> 0 \<le> un_len sun)"
    using assms(5,11,12,13) p0 by (auto split: option.splits)
  from wait_pipe_thread_opens [OF s(1) assms(6-10) s(2-4)]
  obtain s2 p2 where t: "wait_pipe_thread (we_run w) ?s p0 = Some (0, s2, p2)"
    and res: "connect_state s2 = connected" "connect_trace s2 = connect_trace ?s @ [connected]"
      "so_error s2 = 0" "io_handle s2 = oa_handle (ro_open r)" "conn_lock s2 = Unlocked"
    by blast
  have wt: "waiter_so_far (we_progress w) (we_run w) ?s p0 = (s2, p2\<lparr>errno := errno p0\<rparr>)"
    using assms(4) t by (simp add: waiter_so_far_def)
  have "\<exists>p1. wait_pipe w s p = Some (- 1, s2\<lparr>cwt_termination_evt := 0\<rparr>, p1)
          \<and> errno p1 = EINPROGRESS"
    using ev evt assms(2,3) wt
    by (simp add: wait_pipe_def Let_def set_errno_def kernel_def)
  with res show ?thesis
    by auto
qed

lemma connect_stream_in_progress_connected:
  assumes free: "conn_lock s = Unlocked" and pass: "passes_state_checks s"
    and addr: "accepted_address (sun_name_from name namelen)"
    and look: "open_file (ce_lookup e) (sun_name_from name namelen) p
                 = Some (r0, Some (socket_type s), nm, p0)"
    and store: "can_store (ce_addr e) s p"
    and stream: "socket_type s \<noteq> SOCK_DGRAM"
    and busy: "STATUS_PIPE_NO_INSTANCE_AVAILABLE (open_status (cp_open (ce_pipe e)))"
    and evt: "snd (we_event (cp_wait (ce_pipe e))) \<noteq> 0"
    and thr: "we_thread (cp_wait (ce_pipe e)) \<noteq> 0"
    and nb: "is_nonblocking s"
    and ended: "we_progress (cp_wait (ce_pipe e)) = Thread_ended"
    and npfs: "NT_SUCCESS (te_npfs (we_run (cp_wait (ce_pipe e))))"
    and tevt: "snd (te_event (we_run (cp_wait (ce_pipe e)))) \<noteq> 0"
    and rounds: "te_rounds (we_run (cp_wait (ce_pipe e))) = r # rs"
    and avail: "ro_status r = STATUS_SUCCESS"
    and opened: "NT_SUCCESS (open_status (ro_open r))"
    and send: "can_send_name (ce_addr e) s p"
  shows "\<exists>s' p'. connect e name namelen s p = Some (- 1, s', p') \<and> errno p' = EINPROGRESS
           \<and> conn_lock s' = Unlocked \<and> connect_state s' = connected
           \<and> connect_trace s' = connect_trace s @ [connect_pending, connected]
           \<and> so_error s' = 0 \<and> io_handle s' = oa_handle (ro_open r)"
proof -
  let ?s3 = "(set_connect_state connect_pending s)\<lparr>peer_sun_path := Some (ce_addr e)\<rparr>"
  from connect_stores_peer [OF free pass addr look store] stream
  obtain p3 where
    c: "connect e name namelen s p =
          do {
            (r, s, p) \<leftarrow> connect_pipe (ce_pipe e) ?s3 p3;
            if r < 0
            then (if errno p \<noteq> EINPROGRESS
                  then do {
                    (s, p) \<leftarrow> set_peer_sun_path_snt (ce_addr_failed e) None s p;
                    Some (- 1, set_connect_state connect_failed s, p)
                  }
                  else Some (- 1, s, p))
            else Some (0, set_connect_state connected s, p)
          }"
    and frame: "\<forall>q. q \<noteq> ce_addr e \<longrightarrow> Some q \<noteq> peer_sun_path s \<longrightarrow> heap p3 q = heap p q"
    by auto
  have s3: "is_nonblocking ?s3" "conn_lock ?s3 = Unlocked" "bind_lock ?s3 \<noteq> Exclusive"
    "io_lock ?s3 = Unlocked"
    using nb free send by (simp_all add: set_connect_state_def can_send_name_def)
  have rd: "case sun_path ?s3 of None \<Rightarrow> True
            | Some q \<Rightarrow> (case heap p3 q of None \<Rightarrow> False | Some sun \<Rightarrow> 0 \<le> un_len sun)"
    using send frame
    by (auto simp: can_send_name_def set_connect_state_def split: option.splits)
  from wait_pipe_in_progress_connected [OF evt thr s3(1) ended s3(2) npfs tevt rounds avail
      opened s3(3,4) rd]
  obtain s4 p4 where w: "wait_pipe (cp_wait (ce_pipe e)) ?s3 p3 = Some (- 1, s4, p4)"
    and res: "errno p4 = EINPROGRESS" "connect_state s4 = connected"
      "connect_trace s4 = connect_trace ?s3 @ [connected]" "so_error s4 = 0"
      "io_handle s4 = oa_handle (ro_open r)" "conn_lock s4 = Unlocked"
    by blast
  have pipe: "connect_pipe (ce_pipe e) ?s3 p3 = Some (- 1, s4, p4)"
    using busy no_instance_not_success [OF busy] w
    by (simp add: connect_pipe_def open_pipe_fails)
  have "connect e name namelen s p = Some (- 1, s4, p4)"
    unfolding c pipe using res(1) by simp
  with res show ?thesis
    by (simp add: set_connect_state_def)
qed

text \<open>
  C3, as amended.  Let \<^verbatim>\<open>conn_lock\<close> be free.

  In state \<^verbatim>\<open>connect_pending\<close> the call returns -1 with \<^verbatim>\<open>EALREADY\<close>, in state
  \<^verbatim>\<open>listener\<close> with \<^verbatim>\<open>EADDRINUSE\<close>, on a connected socket that is not a datagram
  socket with \<^verbatim>\<open>EISCONN\<close>; the socket is left as it was.

  Otherwise the state is set to \<^verbatim>\<open>connect_pending\<close>.  An address no longer than the
  family gives -1 with \<^verbatim>\<open>EINVAL\<close>, a longer one whose family is not \<^verbatim>\<open>AF_UNIX\<close>
  gives -1 with \<^verbatim>\<open>EAFNOSUPPORT\<close>; for an address that passes these checks, a lookup
  that fails gives -1 with the error the lookup stored, and a peer of the other type gives
  -1 with \<^verbatim>\<open>EINVAL\<close>.  In these four cases the state is reset to \<^verbatim>\<open>unconnected\<close>
  and nothing else is changed.

  When the peer is found, is of the socket's type and its name can be stored: a datagram
  socket ends with 0 and state \<^verbatim>\<open>connected\<close>.  A stream socket whose
  \<^verbatim>\<open>open_pipe\<close> succeeds ends with 0, state \<^verbatim>\<open>connected\<close>, the handle installed and
  \<^verbatim>\<open>so_error\<close> 0.  One whose \<^verbatim>\<open>open_pipe\<close> fails with a status other than ``no
  instance available'' ends with -1, the error of that status in \<^verbatim>\<open>errno\<close> and
  \<^verbatim>\<open>so_error\<close>, state \<^verbatim>\<open>connect_failed\<close> and the peer name set anew from a null
  name.  ``No instance available'' starts the waiter.  A non-blocking socket then returns
  -1 with \<^verbatim>\<open>EINPROGRESS\<close>, and the state is \<^verbatim>\<open>connect_pending\<close> unless the waiter
  has ended by then, in which case it is \<^verbatim>\<open>connected\<close> or \<^verbatim>\<open>connect_failed\<close>; if
  the waiter has ended after a wait answered with success and a successful
  \<^verbatim>\<open>open_pipe\<close>, the state is \<^verbatim>\<open>connected\<close> and \<^verbatim>\<open>so_error\<close> is 0.  A blocking
  socket whose waiter times out returns -1 with \<^verbatim>\<open>ETIMEDOUT\<close>, state
  \<^verbatim>\<open>connect_failed\<close> and \<^verbatim>\<open>so_error\<close> \<^verbatim>\<open>ETIMEDOUT\<close>.

  In each of these cases \<^verbatim>\<open>conn_lock\<close> is free again when the call returns.

  Whenever the call returns after the state checks, \<^verbatim>\<open>connect_state\<close> has passed
  through \<^verbatim>\<open>connect_pending\<close>, the type of the socket is what it was, and the call
  ended with 0 and state \<^verbatim>\<open>connected\<close>;
  or with -1, state \<^verbatim>\<open>connect_failed\<close> and an error other than \<^verbatim>\<open>EINPROGRESS\<close>;
  or with -1 and \<^verbatim>\<open>EINPROGRESS\<close> in state \<^verbatim>\<open>connect_pending\<close>, \<^verbatim>\<open>connected\<close> or
  \<^verbatim>\<open>connect_failed\<close>; or with -1 and the state reset to \<^verbatim>\<open>unconnected\<close>, the heap
  and the requests to the kernel unchanged.
\<close>

theorem connect_outcomes:
  assumes free: "conn_lock s = Unlocked"
  shows
    "(connect_state s = connect_pending
        \<longrightarrow> connect e name namelen s p = Some (- 1, s, set_errno EALREADY p))
   \<and> (connect_state s = listener
        \<longrightarrow> connect e name namelen s p = Some (- 1, s, set_errno EADDRINUSE p))
   \<and> (connect_state s = connected \<and> socket_type s \<noteq> SOCK_DGRAM
        \<longrightarrow> connect e name namelen s p = Some (- 1, s, set_errno EISCONN p))
   \<and> (passes_state_checks s \<longrightarrow>
        (un_len (sun_name_from name namelen) \<le> int sizeof_sa_family_t
           \<longrightarrow> connect e name namelen s p
                 = Some (- 1, set_connect_state unconnected (set_connect_state connect_pending s),
                         set_errno EINVAL p))
      \<and> (int sizeof_sa_family_t < un_len (sun_name_from name namelen)
           \<and> sun_family (sun_name_from name namelen) = Some f \<and> f \<noteq> AF_UNIX
           \<longrightarrow> connect e name namelen s p
                 = Some (- 1, set_connect_state unconnected (set_connect_state connect_pending s),
                         set_errno EAFNOSUPPORT p))
      \<and> (accepted_address (sun_name_from name namelen)
           \<and> open_file (ce_lookup e) (sun_name_from name namelen) p = Some (l, ty, nm, pl)
           \<longrightarrow>
             (l < 0
                \<longrightarrow> connect e name namelen s p
                      = Some (- 1,
                              set_connect_state unconnected (set_connect_state connect_pending s),
                              pl))
           \<and> (0 \<le> l \<and> ty \<noteq> Some (socket_type s)
                \<longrightarrow> connect e name namelen s p
                      = Some (- 1,
                              set_connect_state unconnected (set_connect_state connect_pending s),
                              set_errno EINVAL pl))
           \<and> (ty = Some (socket_type s) \<and> can_store (ce_addr e) s p \<longrightarrow>
                (socket_type s = SOCK_DGRAM
                   \<longrightarrow> (\<exists>s' p'. connect e name namelen s p = Some (0, s', p')
                          \<and> conn_lock s' = Unlocked \<and> connect_state s' = connected
                          \<and> connect_trace s' = connect_trace s @ [connect_pending, connected]
                          \<and> peer_sun_path s' = Some (ce_addr e)
                          \<and> map_option un_len (heap p' (ce_addr e))
                              = Some (un_len (sun_name_from name namelen))))
              \<and> (socket_type s \<noteq> SOCK_DGRAM \<longrightarrow>
                   (NT_SUCCESS (open_status (cp_open (ce_pipe e)))
                      \<and> can_send_name (ce_addr e) s p
                      \<longrightarrow> (\<exists>s' p'. connect e name namelen s p = Some (0, s', p')
                             \<and> conn_lock s' = Unlocked \<and> connect_state s' = connected
                             \<and> connect_trace s' = connect_trace s @ [connect_pending, connected]
                             \<and> io_handle s' = oa_handle (cp_open (ce_pipe e))
                             \<and> so_error s' = 0 \<and> peer_sun_path s' = Some (ce_addr e)))
                 \<and> (\<not> NT_SUCCESS (open_status (cp_open (ce_pipe e)))
                      \<and> \<not> STATUS_PIPE_NO_INSTANCE_AVAILABLE (open_status (cp_open (ce_pipe e)))
                      \<and> geterrno_from_nt_status p (open_status (cp_open (ce_pipe e)))
                          \<noteq> EINPROGRESS
                      \<and> heap p (ce_addr_failed e) = None
                      \<longrightarrow> (\<exists>s' p'. connect e name namelen s p = Some (- 1, s', p')
                             \<and> errno p'
                                 = geterrno_from_nt_status p (open_status (cp_open (ce_pipe e)))
                             \<and> conn_lock s' = Unlocked \<and> connect_state s' = connect_failed
                             \<and> connect_trace s'
                                 = connect_trace s @ [connect_pending, connect_failed]
                             \<and> so_error s'
                                 = word_of_int (geterrno_from_nt_status p
                                                  (open_status (cp_open (ce_pipe e))))
                             \<and> peer_sun_path s' = Some (ce_addr_failed e)
                             \<and> map_option un_len (heap p' (ce_addr_failed e)) = Some 0))
                 \<and> (STATUS_PIPE_NO_INSTANCE_AVAILABLE (open_status (cp_open (ce_pipe e)))
                      \<and> snd (we_event (cp_wait (ce_pipe e))) \<noteq> 0
                      \<and> we_thread (cp_wait (ce_pipe e)) \<noteq> 0 \<longrightarrow>
                        (is_nonblocking s
                           \<longrightarrow> (\<exists>s' p'. connect e name namelen s p = Some (- 1, s', p')
                                  \<and> errno p' = EINPROGRESS \<and> conn_lock s' = Unlocked
                                  \<and> (connect_state s' = connect_pending
                                       \<and> connect_trace s' = connect_trace s @ [connect_pending]
                                     \<or> we_progress (cp_wait (ce_pipe e)) = Thread_ended
                                       \<and> (connect_state s' = connected
                                          \<or> connect_state s' = connect_failed)
                                       \<and> connect_trace s'
                                           = connect_trace s
                                             @ [connect_pending, connect_state s'])))
                      \<and> (is_nonblocking s
                           \<and> we_progress (cp_wait (ce_pipe e)) = Thread_ended
                           \<and> NT_SUCCESS (te_npfs (we_run (cp_wait (ce_pipe e))))
                           \<and> snd (te_event (we_run (cp_wait (ce_pipe e)))) \<noteq> 0
                           \<and> te_rounds (we_run (cp_wait (ce_pipe e))) = r # rs
                           \<and> ro_status r = STATUS_SUCCESS
                           \<and> NT_SUCCESS (open_status (ro_open r))
                           \<and> can_send_name (ce_addr e) s p
                           \<longrightarrow> (\<exists>s' p'. connect e name namelen s p = Some (- 1, s', p')
                                  \<and> errno p' = EINPROGRESS \<and> conn_lock s' = Unlocked
                                  \<and> connect_state s' = connected
                                  \<and> connect_trace s'
                                      = connect_trace s @ [connect_pending, connected]
                                  \<and> so_error s' = 0
                                  \<and> io_handle s' = oa_handle (ro_open r)))
                      \<and> (\<not> is_nonblocking s
                           \<and> we_wait (cp_wait (ce_pipe e)) = WAIT_OBJECT_0
                           \<and> NT_SUCCESS (te_npfs (we_run (cp_wait (ce_pipe e))))
                           \<and> snd (te_event (we_run (cp_wait (ce_pipe e)))) \<noteq> 0
                           \<and> te_rounds (we_run (cp_wait (ce_pipe e))) = r # rs
                           \<and> ro_status r = STATUS_IO_TIMEOUT
                           \<and> heap p (ce_addr_failed e) = None
                           \<longrightarrow> (\<exists>s' p'. connect e name namelen s p = Some (- 1, s', p')
                                  \<and> errno p' = ETIMEDOUT \<and> conn_lock s' = Unlocked
                                  \<and> connect_state s' = connect_failed
                                  \<and> connect_trace s'
                                      = connect_trace s
                                        @ [connect_pending, connect_failed, connect_failed]
                                  \<and> so_error s' = word_of_int ETIMEDOUT
                                  \<and> peer_sun_path s' = Some (ce_addr_failed e)
                                  \<and> map_option un_len (heap p' (ce_addr_failed e))
                                      = Some 0))))))
      \<and> (\<forall>ret s' p'. connect e name namelen s p = Some (ret, s', p') \<longrightarrow>
            (\<exists>rest. connect_trace s' = connect_trace s @ connect_pending # rest)
          \<and> socket_type s' = socket_type s
          \<and> (ret = 0 \<and> connect_state s' = connected
             \<or> ret = - 1 \<and> connect_state s' = connect_failed \<and> errno p' \<noteq> EINPROGRESS
             \<or> ret = - 1 \<and> errno p' = EINPROGRESS
                \<and> (connect_state s' = connect_pending \<or> connect_state s' = connected
                   \<or> connect_state s' = connect_failed)
             \<or> ret = - 1
                \<and> s' = set_connect_state unconnected (set_connect_state connect_pending s)
                \<and> heap p' = heap p \<and> klog p' = klog p)))"
proof (intro conjI impI allI, goal_cases)
  case 1
  then show ?case by (rule connect_refuses_pending [OF free])
next
  case 2
  then show ?case by (rule connect_refuses_listener [OF free])
next
  case 3
  then show ?case using connect_refuses_connected [OF free] by blast
next
  case 4
  then show ?case by (rule connect_short_address [OF free])
next
  case 5
  then show ?case using connect_wrong_family [OF free] by blast
next
  case 6
  then show ?case using connect_peer_not_found [OF free] by blast
next
  case 7
  then show ?case using connect_wrong_type [OF free] by blast
next
  case 8
  then show ?case using connect_datagram [OF free] by blast
next
  case 9
  then show ?case using connect_stream_opened [OF free] by blast
next
  case 10
  then show ?case using connect_stream_refused [OF free] by blast
next
  case 11
  then show ?case
    using connect_stream_in_progress [OF free] by blast
next
  case 12
  then show ?case
    using connect_stream_in_progress_connected [OF free] by blast
next
  case 13
  then show ?case
    using connect_stream_timed_out [OF free] by blast
next
  case (14 ret s' p')
  then show ?case using connect_general [OF _ free] by blast
next
  case (15 ret s' p')
  then show ?case using connect_general [OF _ free] by blast
next
  case (16 ret s' p')
  then show ?case using connect_general [OF _ free] by blast
qed

lemma stream0_passes: "passes_state_checks stream0"
  by (simp add: passes_state_checks_def stream0_fields)

lemma nonblock0_fields:
  "socket_type nonblock0 = SOCK_STREAM" "connect_state nonblock0 = unconnected"
  "conn_lock nonblock0 = Unlocked" "bind_lock nonblock0 = Unlocked"
  "io_lock nonblock0 = Unlocked" "is_nonblocking nonblock0" "connect_trace nonblock0 = []"
  "peer_sun_path nonblock0 = None" "sun_path nonblock0 = None"
  by (simp_all add: nonblock0_def socket_def SOCK_STREAM_def SOCK_DGRAM_def SOCK_NONBLOCK_def
      SOCK_CLOEXEC_def Let_def constructed_def set_cred_def zeroed_def)

lemma nonblock0_passes: "passes_state_checks nonblock0"
  by (simp add: passes_state_checks_def nonblock0_fields)

lemma accepted_tmp_s: "accepted_address (sun_name_from (Some name_tmp_s) 9)"
  using sun_from_tmp_s [of "[]"]
  by (simp add: accepted_address_def family_tmp_s path0_tmp_s sizeof_sa_family_t_def)

lemma open_file_stream:
  "open_file lookup_stream \<lparr>un_len = 9, un = name_tmp_s @ rest\<rparr> p
     = Some (0, Some SOCK_STREAM, lo_pipe_name lookup_stream, p)"
  by (simp add: open_file_def path0_tmp_s lookup_stream_def open_link_def
      sizeof_sa_family_t_def CYGWIN_PIPE_SOCKET_TYPE_POS_def)

lemma lookup_tmp_s:
  "open_file lookup_stream (sun_name_from (Some name_tmp_s) 9) p
     = Some (0, Some SOCK_STREAM, lo_pipe_name lookup_stream, p)"
  using sun_from_tmp_s [of "[]"] by (simp add: open_file_stream)

lemma busy_answers:
  "STATUS_PIPE_NO_INSTANCE_AVAILABLE (open_status open_busy)"
  "snd (we_event wait_blocking) \<noteq> 0" "we_thread wait_blocking \<noteq> 0"
  "we_wait wait_blocking = WAIT_OBJECT_0" "we_progress wait_blocking = Thread_started"
  "we_run wait_blocking = thread_timed_out"
  "NT_SUCCESS (te_npfs thread_timed_out)" "snd (te_event thread_timed_out) \<noteq> 0"
  by (simp_all add: open_status_def open_busy_def wait_blocking_def thread_timed_out_def
      NT_SUCCESS_def STATUS_PIPE_NO_INSTANCE_AVAILABLE_def status_defs)

lemma timed_out_rounds:
  "te_rounds thread_timed_out = hd (te_rounds thread_timed_out) # []"
  "ro_status (hd (te_rounds thread_timed_out)) = STATUS_IO_TIMEOUT"
  by (simp_all add: thread_timed_out_def)

lemma opening_answers:
  "NT_SUCCESS (te_npfs thread_opens)" "snd (te_event thread_opens) \<noteq> 0"
  "te_rounds thread_opens = round_opens # []"
  "ro_status round_opens = STATUS_SUCCESS"
  "NT_SUCCESS (open_status (ro_open round_opens))"
  "oa_handle (ro_open round_opens) = 0x70"
  by (simp_all add: thread_opens_def round_opens_def open_status_def open_ok_def NT_SUCCESS_def
      status_defs)

lemma fresh_socket_stores:
  assumes "peer_sun_path s = None" and "sun_path s = None" and "bind_lock s = Unlocked"
    and "io_lock s = Unlocked"
  shows "can_store a s proc0" "can_send_name a s proc0"
  using assms by (simp_all add: can_store_def can_send_name_def proc0_def)

lemma open_file_missing:
  "open_file lookup_missing \<lparr>un_len = 9, un = name_tmp_s @ rest\<rparr> p
     = Some (- 1, None, [], set_errno ENOENT p)"
  by (simp add: open_file_def path0_tmp_s lookup_missing_def open_link_def
      sizeof_sa_family_t_def)

lemma missing_run_eq:
  "missing_run
     = Some (- 1, set_connect_state unconnected (set_connect_state connect_pending stream0),
             set_errno ENOENT proc0)"
proof -
  have look: "open_file (ce_lookup conn_missing) (sun_name_from (Some name_tmp_s) 9) proc0
                = Some (- 1, None, [], set_errno ENOENT proc0)"
    using sun_from_tmp_s [of "[]"] by (simp add: conn_missing_def open_file_missing)
  show ?thesis
    unfolding missing_run_def
    by (rule connect_peer_not_found [OF stream0_fields(5) stream0_passes accepted_tmp_s look])
       simp
qed

lemma sun_from_inet:
  "un_len (sun_name_from (Some name_inet) 2) = 2"
  "sun_family (sun_name_from (Some name_inet) 2) = Some 2"
  by (simp_all add: sun_name_from_def name_inet_def memcpy_def poke_def raw_sun_def
      sizeof_sockaddr_un_def Let_def sun_family_def rd_u16_def rd_u8_def)

lemma short_run_eq:
  "short_run
     = Some (- 1, set_connect_state unconnected (set_connect_state connect_pending stream0),
             set_errno EINVAL proc0)"
  unfolding short_run_def
  by (rule connect_short_address [OF stream0_fields(5) stream0_passes])
     (simp add: sun_from_inet sizeof_sa_family_t_def)

text \<open>
  C3 as stated fails in two places.  The unconnected stream socket, connecting to the
  \<^verbatim>\<open>AF_UNIX\<close> address \<^verbatim>\<open>/tmp/s\<close> that does not exist, passes the four checks and
  ends with -1, \<^verbatim>\<open>ENOENT\<close> and state \<^verbatim>\<open>unconnected\<close>, which is none of the three
  states the claim allows.  Connecting to an address of two bytes whose family is 2, not
  \<^verbatim>\<open>AF_UNIX\<close>, it gets \<^verbatim>\<open>EINVAL\<close>, not \<^verbatim>\<open>EAFNOSUPPORT\<close>: the length is checked
  before the family.
\<close>

theorem connect_may_end_unconnected_counterexample:
  "passes_state_checks stream0
   \<and> sun_family (sun_name_from (Some name_tmp_s) 9) = Some AF_UNIX
   \<and> ret_of missing_run = Some (- 1)
   \<and> errno (proc_of missing_run) = ENOENT
   \<and> connect_state (sock_of missing_run) = unconnected
   \<and> \<not> (connect_state (sock_of missing_run) = connected
          \<or> connect_state (sock_of missing_run) = connect_failed
          \<or> connect_state (sock_of missing_run) = connect_pending
             \<and> errno (proc_of missing_run) = EINPROGRESS)
   \<and> sun_family (sun_name_from (Some name_inet) 2) = Some 2
   \<and> (2 :: uint16_t) \<noteq> AF_UNIX
   \<and> ret_of short_run = Some (- 1)
   \<and> errno (proc_of short_run) = EINVAL
   \<and> errno (proc_of short_run) \<noteq> EAFNOSUPPORT"
proof -
  have fam: "sun_family (sun_name_from (Some name_tmp_s) 9) = Some AF_UNIX"
    using sun_from_tmp_s [of "[]"] by (simp add: family_tmp_s)
  show ?thesis
    using stream0_passes fam sun_from_inet(2)
    by (simp add: missing_run_eq short_run_eq ret_of_def sock_of_def proc_of_def set_errno_def
        set_connect_state_def AF_UNIX_def ENOENT_def EINVAL_def EAFNOSUPPORT_def
        EINPROGRESS_def)
qed

subsection \<open>SO_ERROR\<close>

text \<open>
  Three places store into \<^verbatim>\<open>so_error\<close>: the waiter thread at its end,
  \<^verbatim>\<open>wait_pipe\<close> once it has waited for the thread, and \<^verbatim>\<open>connect_pipe\<close> when it
  does not need the waiter.  Each stores the error it reports, and 0 on success.
\<close>

lemma connect_pipe_stores_error:
  assumes "connect_pipe e s p = Some (r, s1, p1)"
    and "\<not> STATUS_PIPE_NO_INSTANCE_AVAILABLE (open_status (cp_open e))"
  shows "so_error s1 = (if r = 0 then 0 else word_of_int (errno p1))"
proof -
  obtain status s0 p0 where op: "open_pipe (cp_open e) s p = Some (status, s0, p0)"
    using assms(1) by (auto simp: connect_pipe_def split: Option.bind_splits)
  have "status = open_status (cp_open e)"
    using op
    by (auto simp: open_pipe_def open_status_def Let_def split: if_splits Option.bind_splits)
  with assms op show ?thesis
    by (auto simp: connect_pipe_def Let_def split: if_splits)
qed

lemma wait_pipe_stores_error:
  assumes "wait_pipe e s p = Some (r, s1, p1)"
    and "snd (we_event e) \<noteq> 0" and "we_thread e \<noteq> 0" and "\<not> is_nonblocking s"
    and "we_wait e = WAIT_OBJECT_0"
  shows "so_error s1 = (if r = 0 then 0 else word_of_int (errno p1))"
proof -
  obtain st evt where we: "we_event e = (st, evt)"
    by (cases "we_event e")
  obtain p0 where ev: "create_event (we_event e) p = (evt, p0)"
    by (simp add: create_event_def we)
  have evt: "evt \<noteq> 0"
    using assms(2) we by simp
  let ?s = "s\<lparr>cwt_termination_evt := evt, cwt_param := True, connect_wait_thr := we_thread e\<rparr>"
  obtain err s2 p2 where t: "wait_pipe_thread (we_run e) ?s p0 = Some (err, s2, p2)"
    using assms(1,3,4) ev evt
    by (cases "wait_pipe_thread (we_run e) ?s p0")
       (auto simp: wait_pipe_def Let_def split: if_splits)
  from assms(1,3,4,5) ev evt t show ?thesis
    by (auto simp: wait_pipe_def Let_def set_errno_def kernel_def split: if_splits)
qed

lemma sint_stored:
  assumes "- 2147483648 \<le> error" and "error < 2147483648"
  shows "sint (word_of_int error :: 32 word) = error"
  using assms by (simp add: int_word_sint)

text \<open>
  C8.  Reading \<^verbatim>\<open>SO_ERROR\<close> returns 0 and the value of \<^verbatim>\<open>so_error\<close>, leaves 0
  there and changes nothing else; a second read, with no store in between, returns 0 and
  the value 0.  This holds in every state of the socket, whatever stored the value.  The
  value read is the error number that was stored, for every error number of 32 bits.
\<close>

theorem so_error_read_and_clear:
  "getsockopt SOL_SOCKET SO_ERROR n f s p
     = Some (0, Int_val (sint (so_error s)), n, s\<lparr>so_error := 0\<rparr>, p)
   \<and> getsockopt SOL_SOCKET SO_ERROR n f (s\<lparr>so_error := 0\<rparr>) p
       = Some (0, Int_val 0, n, s\<lparr>so_error := 0\<rparr>, p)
   \<and> (- 2147483648 \<le> error \<and> error < 2147483648 \<and> so_error s = word_of_int error
        \<longrightarrow> sint (so_error s) = error)"
  using sint_stored [of error] by (simp add: getsockopt_def Let_def)

lemma timed_out_run_eq:
  "\<exists>s1 p1. timed_out_run = Some (ETIMEDOUT, s1, p1) \<and> so_error s1 = word_of_int ETIMEDOUT"
proof -
  from wait_pipe_thread_timeout [OF stream0_fields(5) busy_answers(7,8) timed_out_rounds,
      of proc0]
  show ?thesis
    unfolding timed_out_run_def by blast
qed

text \<open>
  The waiter thread of the stream socket, timing out, stores \<^verbatim>\<open>ETIMEDOUT\<close>; the two
  reads that follow return \<^verbatim>\<open>ETIMEDOUT\<close> and 0.
\<close>

theorem so_error_read_and_clear_witness:
  "ret_of timed_out_run = Some ETIMEDOUT
   \<and> so_error (sock_of timed_out_run) = word_of_int ETIMEDOUT
   \<and> getsockopt SOL_SOCKET SO_ERROR 4 False (sock_of timed_out_run) (proc_of timed_out_run)
       = Some (0, Int_val ETIMEDOUT, 4, (sock_of timed_out_run)\<lparr>so_error := 0\<rparr>,
               proc_of timed_out_run)
   \<and> getsockopt SOL_SOCKET SO_ERROR 4 False ((sock_of timed_out_run)\<lparr>so_error := 0\<rparr>)
         (proc_of timed_out_run)
       = Some (0, Int_val 0, 4, (sock_of timed_out_run)\<lparr>so_error := 0\<rparr>,
               proc_of timed_out_run)"
proof -
  obtain s1 p1 where some: "timed_out_run = Some (ETIMEDOUT, s1, p1)"
    and err: "so_error s1 = word_of_int ETIMEDOUT"
    using timed_out_run_eq by blast
  have proj: "sock_of timed_out_run = s1" "proc_of timed_out_run = p1"
    "ret_of timed_out_run = Some ETIMEDOUT"
    by (simp_all add: some sock_of_def proc_of_def ret_of_def)
  have range: "- 2147483648 \<le> ETIMEDOUT \<and> ETIMEDOUT < 2147483648
               \<and> so_error s1 = word_of_int ETIMEDOUT"
    using err by (simp add: ETIMEDOUT_def)
  note reads = so_error_read_and_clear [of 4 False s1 p1 ETIMEDOUT]
  note stored = reads [THEN conjunct2, THEN conjunct2, THEN mp, OF range]
  from reads stored err show ?thesis
    by (simp add: proj)
qed

subsection \<open>Names set from a null name\<close>






subsection \<open>Bind and the peer name\<close>

lemma dgram0_fields:
  "socket_type dgram0 = SOCK_DGRAM" "connect_state dgram0 = unconnected"
  "conn_lock dgram0 = Unlocked" "bind_lock dgram0 = Unlocked"
  "io_lock dgram0 = Unlocked" "binding_state dgram0 = unbound"
  "peer_sun_path dgram0 = None" "sun_path dgram0 = None"
  by (simp_all add: dgram0_def socket_def SOCK_STREAM_def SOCK_DGRAM_def SOCK_NONBLOCK_def
      SOCK_CLOEXEC_def Let_def constructed_def set_cred_def zeroed_def)

lemma sun_from_tmp_d:
  "sun_name_from (Some (name_tmp_d @ rest)) 9
     = \<lparr>un_len = 9, un = name_tmp_d @ replicate 101 None @ [Some 0]\<rparr>"
  by (simp add: sun_name_from_def name_tmp_d_def memcpy_def poke_def raw_sun_def
      sizeof_sockaddr_un_def Let_def)

lemma family_tmp_d: "sun_family \<lparr>un_len = n, un = name_tmp_d @ rest\<rparr> = Some AF_UNIX"
  by (simp add: sun_family_def rd_u16_def rd_u8_def name_tmp_d_def AF_UNIX_def)

lemma path0_tmp_d: "sun_path_at \<lparr>un_len = n, un = name_tmp_d @ rest\<rparr> 0 = Some 47"
  by (simp add: sun_path_at_def rd_u8_def name_tmp_d_def sizeof_sa_family_t_def)

lemma open_file_dgram:
  "open_file lookup_dgram \<lparr>un_len = 9, un = name_tmp_d @ rest\<rparr> p
     = Some (0, Some SOCK_DGRAM, lo_pipe_name lookup_dgram, p)"
  by (simp add: open_file_def path0_tmp_d lookup_dgram_def open_link_def
      sizeof_sa_family_t_def CYGWIN_PIPE_SOCKET_TYPE_POS_def)

lemma connected_run_eq:
  "\<exists>s1. connected_run = Some (0, s1, proc0\<lparr>heap := (heap proc0)(16 \<mapsto>
              \<lparr>un_len = 9, un = name_tmp_d @ replicate 101 None @ [Some 0]\<rparr>)\<rparr>)
     \<and> peer_sun_path s1 = Some 16 \<and> sun_path s1 = None \<and> connect_state s1 = connected
     \<and> socket_type s1 = SOCK_DGRAM \<and> bind_lock s1 = Unlocked \<and> io_lock s1 = Unlocked
     \<and> binding_state s1 = unbound"
  using sun_from_tmp_d [of "[]"]
  by (simp add: connected_run_def connect_def dgram0_fields lock_defs Let_def
      family_tmp_d path0_tmp_d open_file_dgram conn_dgram_def sizeof_sa_family_t_def
      set_peer_sun_path_snt_def set_peer_sun_path_def new_sun_name_def proc0_def
      set_connect_state_def sun_from_tmp_d SOCK_STREAM_def SOCK_DGRAM_def)

lemma un_len_nonneg: "0 \<le> un_len (sun_name_from name n)"
  by (simp add: sun_name_from_def Let_def sizeof_sockaddr_un_def)

lemma bind_connected_dgram:
  assumes sun: "sun_name_from name n = sun"
    and fam: "sun_family sun = Some AF_UNIX"
    and len: "2 < un_len sun"
    and c: "sun_path_at sun 0 = Some c" "c \<noteq> 0"
    and s: "bind_lock s = Unlocked" "io_lock s = Unlocked" "binding_state s = unbound"
       "socket_type s = SOCK_DGRAM" "connect_state s = connected" "peer_sun_path s = Some q"
    and p: "heap p q = Some old" "a = q \<or> heap p a = None"
    and e: "be_pipe e = pipe_created" "fa_reparse (be_file e) = (fh, None)" "fh \<noteq> 0"
       "be_addr e = a"
  shows "\<exists>s' p'. bind_unix e name n s p = Some (0, s', p')
          \<and> heap p' = ((heap p)(q := None))(a \<mapsto> sun_name_from (Some (un sun)) (un_len sun))
          \<and> sun_path s' = Some a \<and> peer_sun_path s' = Some q"
  using fam len c s p e un_len_nonneg [of "Some (un sun)" "un_len sun"]
  by (auto simp: bind_unix_def sun lock_defs sizeof_sa_family_t_def Let_def create_file_def
      create_reparse_point_def gen_pipe_name_def set_sun_path_snt_def set_sun_path_def
      new_sun_name_def delete_sun_name_def create_pipe_def pipe_created_def NT_SUCCESS_def
      STATUS_SUCCESS_def send_my_name_def kernel_def set_pipe_non_blocking_def
      SOCK_STREAM_def SOCK_DGRAM_def)

lemma rebound_run_eq:
  assumes "a = 16 \<or> a = 32"
  shows "\<exists>s' p'. rebound_run a = Some (0, s', p')
          \<and> heap p' = ((heap (proc_of connected_run))(16 := None))(a \<mapsto>
                \<lparr>un_len = 9, un = name_tmp_s @ replicate 101 None @ [Some 0]\<rparr>)
          \<and> sun_path s' = Some a \<and> peer_sun_path s' = Some 16"
proof -
  obtain s1 where run: "connected_run = Some (0, s1, proc0\<lparr>heap := (heap proc0)(16 \<mapsto>
              \<lparr>un_len = 9, un = name_tmp_d @ replicate 101 None @ [Some 0]\<rparr>)\<rparr>)"
    and s1: "peer_sun_path s1 = Some 16" "connect_state s1 = connected"
      "socket_type s1 = SOCK_DGRAM" "bind_lock s1 = Unlocked" "io_lock s1 = Unlocked"
      "binding_state s1 = unbound"
    using connected_run_eq by blast
  have proj: "sock_of connected_run = s1"
    "proc_of connected_run = proc0\<lparr>heap := (heap proc0)(16 \<mapsto>
              \<lparr>un_len = 9, un = name_tmp_d @ replicate 101 None @ [Some 0]\<rparr>)\<rparr>"
    by (simp_all add: run sock_of_def proc_of_def)
  have sun: "sun_name_from (Some name_tmp_s) 9
               = \<lparr>un_len = 9, un = name_tmp_s @ replicate 101 None @ [Some 0]\<rparr>"
    using sun_from_tmp_s [of "[]"] by simp
  have free: "a = 16 \<or> heap (proc_of connected_run) a = None"
    using assms by (auto simp: proj proc0_def)
  have "\<exists>s' p'. bind_unix (bind_ok a) (Some name_tmp_s) 9 (sock_of connected_run)
                    (proc_of connected_run) = Some (0, s', p')
          \<and> heap p' = ((heap (proc_of connected_run))(16 := None))(a \<mapsto>
                sun_name_from (Some (name_tmp_s @ replicate 101 None @ [Some 0])) 9)
          \<and> sun_path s' = Some a \<and> peer_sun_path s' = Some 16"
    using bind_connected_dgram [OF sun family_tmp_s _ path0_tmp_s _ _ _ _ _ _ _ _ free,
        where s = "sock_of connected_run" and e = "bind_ok a" and fh = INVALID_HANDLE_VALUE]
    by (simp add: proj s1 bind_ok_def file_created_def INVALID_HANDLE_VALUE_def)
  then show ?thesis
    by (simp add: rebound_run_def sun_from_tmp_s)
qed

lemma copy_tmp_d_len_first:
  assumes "heap p q = Some \<lparr>un_len = 9, un = name_tmp_d @ rest\<rparr>"
  shows "copy_name_out len_first (Some q) (replicate 110 None) 110 p
           = Some (0, name_tmp_d @ replicate 101 None, 1949237249)"
  using assms
  by (simp add: copy_name_out_def sun_image_def sun_name_default_def len_first_def memcpy_def
      poke_def raw_sun_def le16_def le32_def sizeof_sockaddr_un_def sizeof_sa_family_t_def
      AF_UNIX_def name_tmp_d_def rd_i32_def rd_u8_def Let_def nth_append)

text \<open>
  C6.  The claim fails on the code.  A datagram socket is connected to \<^verbatim>\<open>/tmp/d\<close>: its
  peer name is the object at address 16.  A successful \<^verbatim>\<open>bind\<close> to \<^verbatim>\<open>/tmp/s\<close> frees
  that object and leaves \<^verbatim>\<open>peer_sun_path\<close> pointing to it.  If the allocator hands out
  another block for the bound name, the peer pointer is dangling and \<^verbatim>\<open>getpeername\<close>
  reads freed memory; if it hands out the block just freed, the peer pointer and
  \<^verbatim>\<open>sun_path\<close> are the same and \<^verbatim>\<open>getpeername\<close> delivers the bytes of the bound name
  where it delivered those of the peer before.
\<close>

theorem bind_deletes_peer_name:
  "ret_of connected_run = Some 0
   \<and> peer_sun_path (sock_of connected_run) = Some 16
   \<and> heap (proc_of connected_run) 16
       = Some \<lparr>un_len = 9, un = name_tmp_d @ replicate 101 None @ [Some 0]\<rparr>
   \<and> ret_of (rebound_run 32) = Some 0
   \<and> peer_sun_path (sock_of (rebound_run 32)) = Some 16
   \<and> heap (proc_of (rebound_run 32)) 16 = None
   \<and> getpeername L name namelen (sock_of (rebound_run 32)) (proc_of (rebound_run 32)) = None
   \<and> ret_of (rebound_run 16) = Some 0
   \<and> peer_sun_path (sock_of (rebound_run 16)) = Some 16
   \<and> sun_path (sock_of (rebound_run 16)) = Some 16
   \<and> heap (proc_of (rebound_run 16)) 16
       = Some \<lparr>un_len = 9, un = name_tmp_s @ replicate 101 None @ [Some 0]\<rparr>
   \<and> getpeername len_first (replicate 110 None) 110 (sock_of connected_run)
         (proc_of connected_run)
       = Some (0, name_tmp_d @ replicate 101 None, 1949237249)
   \<and> getpeername len_first (replicate 110 None) 110 (sock_of (rebound_run 16))
         (proc_of (rebound_run 16))
       = Some (0, name_tmp_s @ replicate 101 None, 1949237249)
   \<and> name_tmp_d \<noteq> name_tmp_s"
proof -
  obtain s1 where run: "connected_run = Some (0, s1, proc0\<lparr>heap := (heap proc0)(16 \<mapsto>
              \<lparr>un_len = 9, un = name_tmp_d @ replicate 101 None @ [Some 0]\<rparr>)\<rparr>)"
    and s1: "peer_sun_path s1 = Some 16"
    using connected_run_eq by blast
  obtain s2 p2 where far: "rebound_run 32 = Some (0, s2, p2)"
    and h2: "heap p2 = ((heap (proc_of connected_run))(16 := None))(32 \<mapsto>
                \<lparr>un_len = 9, un = name_tmp_s @ replicate 101 None @ [Some 0]\<rparr>)"
    and s2: "peer_sun_path s2 = Some 16"
    using rebound_run_eq [of 32] by auto
  obtain s3 p3 where near: "rebound_run 16 = Some (0, s3, p3)"
    and h3: "heap p3 = ((heap (proc_of connected_run))(16 := None))(16 \<mapsto>
                \<lparr>un_len = 9, un = name_tmp_s @ replicate 101 None @ [Some 0]\<rparr>)"
    and s3: "peer_sun_path s3 = Some 16" "sun_path s3 = Some 16"
    using rebound_run_eq [of 16] by auto
  have gone: "getpeername L name namelen s2 p2 = None"
    by (simp add: getpeername_def copy_name_out_def s2 h2)
  have before: "getpeername len_first (replicate 110 None) 110 s1
                   (proc0\<lparr>heap := (heap proc0)(16 \<mapsto>
                      \<lparr>un_len = 9, un = name_tmp_d @ replicate 101 None @ [Some 0]\<rparr>)\<rparr>)
                  = Some (0, name_tmp_d @ replicate 101 None, 1949237249)"
    unfolding getpeername_def s1 by (rule copy_tmp_d_len_first) simp
  have after: "getpeername len_first (replicate 110 None) 110 s3 p3
                 = Some (0, name_tmp_s @ replicate 101 None, 1949237249)"
    unfolding getpeername_def s3 by (rule copy_tmp_s_len_first) (simp add: h3)
  have differ: "name_tmp_d \<noteq> name_tmp_s"
    by (simp add: name_tmp_d_def name_tmp_s_def)
  show ?thesis
    using s1 s2 s3 gone before after differ
    by (simp add: run far near h2 h3 ret_of_def sock_of_def proc_of_def)
qed

subsection \<open>Accept\<close>

lemma set_sun_path_snt_keeps:
  assumes "set_sun_path_snt a snt s p = Some (s1, p1)"
  shows "io_handle s1 = io_handle s \<and> connect_state s1 = connect_state s
       \<and> is_nonblocking s1 = is_nonblocking s"
  using assms
  by (auto simp: set_sun_path_snt_def set_sun_path_def Let_def
      split: option.splits Option.bind_splits)

lemma recv_peer_name_keeps:
  assumes "recv_peer_name e a s p = Some (r, s1, p1)"
  shows "io_handle s1 = io_handle s \<and> connect_state s1 = connect_state s"
  using assms
  by (auto simp: recv_peer_name_def set_peer_sun_path_def Let_def
      split: if_splits prod.splits option.splits Option.bind_splits waitret.splits)

lemma new_sock_fields:
  "io_handle (new_sock e flags accepted s) = accepted"
  "connect_state (new_sock e flags accepted s) = connected"
  by (simp_all add: new_sock_def Let_def set_connect_state_def)

lemma accept_sock_child:
  assumes "accept_sock e peer len flags accepted s p = Some (Inr (out, sock, p'))"
  shows "io_handle sock = accepted \<and> connect_state sock = connected \<and> 0 \<le> ae_fd e"
proof -
  from assms obtain own c1 p1 err p2 where
    own: "set_sun_path_snt (ae_addr_sun e) own (new_sock e flags accepted s) p = Some (c1, p1)"
    and recv: "recv_peer_name (ae_recv e) (ae_addr_peer e) c1 p1 = Some (err, sock, p2)"
    and fd: "0 \<le> ae_fd e"
    by (auto simp: accept_sock_def Let_def split: if_splits Option.bind_splits)
  show ?thesis
    using set_sun_path_snt_keeps [OF own] recv_peer_name_keeps [OF recv] fd
    by (simp add: new_sock_fields)
qed

text \<open>
  C4.  On a listening stream socket whose \<^verbatim>\<open>io_lock\<close> is free: if \<^verbatim>\<open>listen_pipe\<close> has
  accepted a client and \<^verbatim>\<open>create_pipe_instance\<close> then returns no handle, \<^verbatim>\<open>accept4\<close>
  returns -1 with \<^verbatim>\<open>ENOBUFS\<close>, has asked the kernel to disconnect the handle the client
  was accepted on, and the listener keeps that handle.  Whenever \<^verbatim>\<open>accept4\<close> returns a
  descriptor, the new socket holds the listener's old handle and is in state
  \<^verbatim>\<open>connected\<close>, and the listener, still listening, holds the new instance.
\<close>

theorem accept4_hands_over_or_disconnects:
  "(socket_type s = SOCK_STREAM \<and> connect_state s = listener
      \<and> \<not> (peer \<noteq> None \<and> (case len of None \<Rightarrow> True | Some n \<Rightarrow> n < int sizeof_sa_family_t))
      \<and> io_lock s = Unlocked
      \<and> listen_pipe (ae_listen e) s p = Some (0, p1)
      \<and> fst (create_pipe_instance (ae_inst e) s p1) = 0
    \<longrightarrow> (\<exists>s' p'. accept4 e peer len flags s p = Some (- 1, peer, len, s', None, p')
            \<and> errno p' = ENOBUFS \<and> Pipe_disconnect (io_handle s) \<in> set (klog p')
            \<and> io_handle s' = io_handle s \<and> io_lock s' = Unlocked))
   \<and> (accept4 e peer len flags s p = Some (r, peer', len', s', child, p') \<and> 0 \<le> r
    \<longrightarrow> (\<exists>c. child = Some c \<and> io_handle c = io_handle s \<and> connect_state c = connected)
        \<and> io_handle s' = pa_handle (ae_inst e) \<and> io_handle s' \<noteq> 0
        \<and> connect_state s' = listener \<and> io_lock s' = Unlocked)"
proof -
  have refused:
    "socket_type s = SOCK_STREAM \<and> connect_state s = listener
      \<and> \<not> (peer \<noteq> None \<and> (case len of None \<Rightarrow> True | Some n \<Rightarrow> n < int sizeof_sa_family_t))
      \<and> io_lock s = Unlocked
      \<and> listen_pipe (ae_listen e) s p = Some (0, p1)
      \<and> fst (create_pipe_instance (ae_inst e) s p1) = 0
    \<longrightarrow> (\<exists>s' p'. accept4 e peer len flags s p = Some (- 1, peer, len, s', None, p')
            \<and> errno p' = ENOBUFS \<and> Pipe_disconnect (io_handle s) \<in> set (klog p')
            \<and> io_handle s' = io_handle s \<and> io_lock s' = Unlocked)"
  proof (rule impI)
  assume a: "socket_type s = SOCK_STREAM \<and> connect_state s = listener
      \<and> \<not> (peer \<noteq> None \<and> (case len of None \<Rightarrow> True | Some n \<Rightarrow> n < int sizeof_sa_family_t))
      \<and> io_lock s = Unlocked
      \<and> listen_pipe (ae_listen e) s p = Some (0, p1)
      \<and> fst (create_pipe_instance (ae_inst e) s p1) = 0"
  then have inst: "create_pipe_instance (ae_inst e) (s\<lparr>io_lock := Exclusive\<rparr>) p1
                     = (0, snd (create_pipe_instance (ae_inst e) s p1))"
    by (simp add: create_pipe_instance_def split: if_splits)
  show "\<exists>s' p'. accept4 e peer len flags s p = Some (- 1, peer, len, s', None, p')
            \<and> errno p' = ENOBUFS \<and> Pipe_disconnect (io_handle s) \<in> set (klog p')
            \<and> io_handle s' = io_handle s \<and> io_lock s' = Unlocked"
    using a inst
    by (auto simp: accept4_def lock_defs Let_def disconnect_pipe_def kernel_def set_errno_def
        seterrno_from_nt_status_def split: prod.splits)
  qed
  have handed:
    "accept4 e peer len flags s p = Some (r, peer', len', s', child, p') \<and> 0 \<le> r
    \<longrightarrow> (\<exists>c. child = Some c \<and> io_handle c = io_handle s \<and> connect_state c = connected)
        \<and> io_handle s' = pa_handle (ae_inst e) \<and> io_handle s' \<noteq> 0
        \<and> connect_state s' = listener \<and> io_lock s' = Unlocked"
  proof (rule impI)
  assume run: "accept4 e peer len flags s p = Some (r, peer', len', s', child, p') \<and> 0 \<le> r"
  then have pre: "socket_type s = SOCK_STREAM" "connect_state s = listener"
    "\<not> (peer \<noteq> None \<and> (case len of None \<Rightarrow> True | Some n \<Rightarrow> n < int sizeof_sa_family_t))"
    by (auto simp: accept4_def split: if_splits)
  from run pre obtain p1 where listen: "listen_pipe (ae_listen e) s p = Some (0, p1)"
    by (cases "listen_pipe (ae_listen e) s p") (auto simp: accept4_def split: if_splits)
  from run pre listen have lock: "io_lock s = Unlocked"
    by (cases "io_lock s = Unlocked") (auto simp: accept4_def lock_defs)
  obtain new_inst p2 where
    inst: "create_pipe_instance (ae_inst e) (s\<lparr>io_lock := Exclusive\<rparr>) p1 = (new_inst, p2)"
    by (cases "create_pipe_instance (ae_inst e) (s\<lparr>io_lock := Exclusive\<rparr>) p1")
  from run pre listen lock inst have nz: "new_inst \<noteq> 0"
    by (auto simp: accept4_def lock_defs Let_def split: prod.splits)
  have handle: "new_inst = pa_handle (ae_inst e)"
    using inst nz by (auto simp: create_pipe_instance_def split: if_splits)
  let ?s = "s\<lparr>io_handle := new_inst, io_lock := Unlocked\<rparr>"
  from run pre listen lock inst nz obtain out c where
    fin: "accept_sock e peer len flags (io_handle s) ?s p2 = Some (Inr (out, c, p'))"
    and res: "child = Some c" "s' = ?s"
    by (cases "accept_sock e peer len flags (io_handle s) ?s p2")
       (auto simp: accept4_def lock_defs Let_def split: prod.splits sum.splits)
  show "(\<exists>c. child = Some c \<and> io_handle c = io_handle s \<and> connect_state c = connected)
        \<and> io_handle s' = pa_handle (ae_inst e) \<and> io_handle s' \<noteq> 0
        \<and> connect_state s' = listener \<and> io_lock s' = Unlocked"
    using accept_sock_child [OF fin] res nz handle pre by simp
qed
  from refused handed show ?thesis by (rule conjI)
qed

lemma listen_with_pipe:
  assumes "socket_type s = SOCK_STREAM" "bind_lock s = Unlocked" "binding_state s = bound"
    "conn_lock s = Unlocked" "connect_state s = unconnected"
  shows "\<exists>s'. listen pipe_created backlog s p = Some (0, s', p)
           \<and> connect_state s' = listener \<and> io_handle s' = 0x50
           \<and> socket_type s' = SOCK_STREAM \<and> io_lock s' = io_lock s
           \<and> sun_path s' = sun_path s \<and> is_nonblocking s' = is_nonblocking s"
  using assms
  by (simp add: listen_def lock_defs create_pipe_def pipe_created_def NT_SUCCESS_def
      status_defs set_connect_state_def SOCK_STREAM_def SOCK_DGRAM_def)

lemma listening_run_eq:
  "\<exists>s'. listening_run = Some (0, s', proc0\<lparr>heap := (heap proc0)(16 \<mapsto>
                \<lparr>un_len = 9, un = name_tmp_s @ replicate 101 None @ [Some 0]\<rparr>)\<rparr>)
        \<and> connect_state s' = listener \<and> io_handle s' = 0x50
        \<and> socket_type s' = SOCK_STREAM \<and> io_lock s' = Unlocked
        \<and> sun_path s' = Some 16 \<and> \<not> is_nonblocking s'"
proof -
  obtain s where run: "bound_run = Some (0, s, proc0\<lparr>heap := (heap proc0)(16 \<mapsto>
                \<lparr>un_len = 9, un = name_tmp_s @ replicate 101 None @ [Some 0]\<rparr>)\<rparr>)"
      and s: "binding_state s = bound" "connect_state s = unconnected"
        "socket_type s = SOCK_STREAM" "bind_lock s = Unlocked" "conn_lock s = Unlocked"
        "io_lock s = Unlocked" "sun_path s = Some 16" "\<not> is_nonblocking s"
    using bound_run_eq by blast
  show ?thesis
    using listen_with_pipe [OF s(3) s(4) s(1) s(5) s(2)] s
    by (simp add: listening_run_def run sock_of_def proc_of_def)
qed

lemma listen_pipe_connected:
  assumes "\<not> is_nonblocking s"
  shows "listen_pipe (ae_listen accept_ok) s p = Some (0, kernel (Close_handle 0x61) p)"
  using assms
  by (simp add: listen_pipe_def accept_ok_def create_event_def NT_SUCCESS_def status_defs
      Let_def)

lemma recv_client_name:
  assumes "peer_sun_path s = None" "heap p 48 = None"
  shows "\<exists>s1 p1. recv_peer_name (ae_recv accept_ok) 48 s p = Some (0, s1, p1)"
  using assms
  by (simp add: recv_peer_name_def accept_ok_def create_event_def NT_SUCCESS_def status_defs
      Let_def rd_u8_def client_packet_def set_peer_sun_path_def new_sun_name_def
      set_pipe_non_blocking_def kernel_def)

lemma accept_sock_ok:
  assumes "sun_path s = Some 16" "heap p 16 = Some sun" "heap p 32 = None" "heap p 48 = None"
  shows "\<exists>c p'. accept_sock accept_ok None None 0 accepted s p = Some (Inr ((None, None), c, p'))"
proof -
  let ?c = "new_sock accept_ok 0 accepted s\<lparr>sun_path := Some 32\<rparr>"
  let ?p = "p\<lparr>heap := (heap p)(32 \<mapsto> sun_name_from (Some (un sun)) (un_len sun))\<rparr>"
  have own: "set_sun_path_snt 32 (Some sun) (new_sock accept_ok 0 accepted s) p = Some (?c, ?p)"
    using assms
    by (simp add: set_sun_path_snt_def set_sun_path_def new_sun_name_def new_sock_def Let_def
        constructed_def set_cred_def zeroed_def set_connect_state_def)
  have "peer_sun_path ?c = None" "heap ?p 48 = None"
    using assms
    by (simp_all add: new_sock_def Let_def constructed_def set_cred_def zeroed_def
        set_connect_state_def)
  then obtain c1 p1 where recv: "recv_peer_name (ae_recv accept_ok) 48 ?c ?p = Some (0, c1, p1)"
    using recv_client_name by blast
  have fd: "ae_fd accept_ok = 5" "ae_sock accept_ok" "ae_addr_sun accept_ok = 32"
    "ae_addr_peer accept_ok = 48" "\<not> ae_fault accept_ok"
    by (simp_all add: accept_ok_def)
  show ?thesis
    using assms own recv
    by (simp add: accept_sock_def fd Let_def)
qed

lemma accepted_run_eq:
  "\<exists>s' c p'. accepted_run = Some (5, None, None, s', Some c, p')"
proof -
  obtain s where run: "listening_run = Some (0, s, proc0\<lparr>heap := (heap proc0)(16 \<mapsto>
                \<lparr>un_len = 9, un = name_tmp_s @ replicate 101 None @ [Some 0]\<rparr>)\<rparr>)"
      and s: "connect_state s = listener" "io_handle s = 0x50" "socket_type s = SOCK_STREAM"
        "io_lock s = Unlocked" "sun_path s = Some 16" "\<not> is_nonblocking s"
    using listening_run_eq by blast
  let ?p = "proc0\<lparr>heap := (heap proc0)(16 \<mapsto>
                \<lparr>un_len = 9, un = name_tmp_s @ replicate 101 None @ [Some 0]\<rparr>)\<rparr>"
  let ?s = "s\<lparr>io_handle := 0x51, io_lock := Unlocked\<rparr>"
  have "\<exists>c p'. accept_sock accept_ok None None 0 0x50 ?s (kernel (Close_handle 0x61) ?p)
                  = Some (Inr ((None, None), c, p'))"
    by (rule accept_sock_ok) (simp_all add: s kernel_def proc0_def)
  then obtain c p' where
    fin: "accept_sock accept_ok None None 0 0x50 ?s (kernel (Close_handle 0x61) ?p)
            = Some (Inr ((None, None), c, p'))"
    by blast
  have inst: "ae_inst accept_ok = \<lparr>pa_npfs = STATUS_SUCCESS, pa_status = STATUS_SUCCESS,
                 pa_handle = 0x51\<rparr>" "ae_fd accept_ok = 5"
    by (simp_all add: accept_ok_def)
  have "accepted_run = Some (5, None, None, ?s, Some c, p')"
    using fin
    by (simp add: accepted_run_def run sock_of_def proc_of_def accept4_def s lock_defs
        listen_pipe_connected create_pipe_instance_def inst NT_SUCCESS_def STATUS_SUCCESS_def
        Let_def)
  then show ?thesis by blast
qed

theorem accept4_hands_over_or_disconnects_witness:
  "ret_of refused_run = Some (- 1)
   \<and> errno (acc_proc refused_run) = ENOBUFS
   \<and> Pipe_disconnect 0x50 \<in> set (klog (acc_proc refused_run))
   \<and> ret_of accepted_run = Some 5
   \<and> map_option io_handle (acc_child accepted_run) = Some 0x50
   \<and> map_option connect_state (acc_child accepted_run) = Some connected
   \<and> io_handle (acc_sock accepted_run) = 0x51"
proof -
  obtain s where run: "listening_run = Some (0, s, proc0\<lparr>heap := (heap proc0)(16 \<mapsto>
                \<lparr>un_len = 9, un = name_tmp_s @ replicate 101 None @ [Some 0]\<rparr>)\<rparr>)"
      and s: "connect_state s = listener" "io_handle s = 0x50" "socket_type s = SOCK_STREAM"
        "io_lock s = Unlocked" "\<not> is_nonblocking s"
    using listening_run_eq by blast
  let ?p = "proc0\<lparr>heap := (heap proc0)(16 \<mapsto>
                \<lparr>un_len = 9, un = name_tmp_s @ replicate 101 None @ [Some 0]\<rparr>)\<rparr>"
  have proj: "sock_of listening_run = s" "proc_of listening_run = ?p"
    by (simp_all add: run sock_of_def proc_of_def)
  have lp: "listen_pipe (ae_listen accept_noinst) s ?p = Some (0, kernel (Close_handle 0x61) ?p)"
    using listen_pipe_connected [OF s(5), of ?p] by (simp add: accept_noinst_def)
  have none: "fst (create_pipe_instance (ae_inst accept_noinst) s (kernel (Close_handle 0x61) ?p))
                = 0"
    by (simp add: accept_noinst_def create_pipe_instance_def pipe_failed_def NT_SUCCESS_def
        status_defs)
  have "\<exists>s' p'. accept4 accept_noinst None None 0 s ?p = Some (- 1, None, None, s', None, p')
            \<and> errno p' = ENOBUFS \<and> Pipe_disconnect (io_handle s) \<in> set (klog p')
            \<and> io_handle s' = io_handle s \<and> io_lock s' = Unlocked"
    using accept4_hands_over_or_disconnects [of s None None accept_noinst ?p
        "kernel (Close_handle 0x61) ?p" 0] s lp none
    by simp
  then have refused: "ret_of refused_run = Some (- 1) \<and> errno (acc_proc refused_run) = ENOBUFS
      \<and> Pipe_disconnect 0x50 \<in> set (klog (acc_proc refused_run))"
    by (auto simp: refused_run_def proj ret_of_def acc_proc_def s)
  obtain s' c p' where acc: "accepted_run = Some (5, None, None, s', Some c, p')"
    using accepted_run_eq by blast
  then have "accept4 accept_ok None None 0 s ?p = Some (5, None, None, s', Some c, p')"
    by (simp add: accepted_run_def proj)
  then have "io_handle c = io_handle s \<and> connect_state c = connected
      \<and> io_handle s' = pa_handle (ae_inst accept_ok)"
    using accept4_hands_over_or_disconnects [of s None None accept_ok ?p _ 0 5 None None s'
        "Some c" p']
    by simp
  then have handed: "ret_of accepted_run = Some 5
      \<and> map_option io_handle (acc_child accepted_run) = Some 0x50
      \<and> map_option connect_state (acc_child accepted_run) = Some connected
      \<and> io_handle (acc_sock accepted_run) = 0x51"
    by (simp add: acc ret_of_def acc_child_def acc_sock_def s accept_ok_def)
  from refused handed show ?thesis by simp
qed

subsection \<open>Connect on the example states\<close>

lemma listen_frees_lock:
  assumes "socket_type s = SOCK_STREAM" "bind_lock s = Unlocked" "binding_state s = bound"
    "conn_lock s = Unlocked" "connect_state s = unconnected"
  shows "\<exists>s'. listen pipe_created backlog s p = Some (0, s', p)
           \<and> connect_state s' = listener \<and> conn_lock s' = Unlocked"
  using assms
  by (simp add: listen_def lock_defs create_pipe_def pipe_created_def NT_SUCCESS_def
      status_defs set_connect_state_def SOCK_STREAM_def SOCK_DGRAM_def)

lemma listening_run_listener:
  "\<exists>s' p'. listening_run = Some (0, s', p') \<and> connect_state s' = listener
     \<and> conn_lock s' = Unlocked"
proof -
  obtain s p where run: "bound_run = Some (0, s, p)"
      and s: "binding_state s = bound" "connect_state s = unconnected"
        "socket_type s = SOCK_STREAM" "bind_lock s = Unlocked" "conn_lock s = Unlocked"
    using bound_run_eq by blast
  show ?thesis
    using listen_frees_lock [OF s(3) s(4) s(1) s(5) s(2), of 5 p]
    by (auto simp: listening_run_def run sock_of_def proc_of_def)
qed

lemma accepted_tmp_d: "accepted_address (sun_name_from (Some name_tmp_d) 9)"
  using sun_from_tmp_d [of "[]"]
  by (simp add: accepted_address_def family_tmp_d path0_tmp_d sizeof_sa_family_t_def)

lemma lookup_tmp_d:
  "open_file lookup_dgram (sun_name_from (Some name_tmp_d) 9) p
     = Some (0, Some SOCK_DGRAM, lo_pipe_name lookup_dgram, p)"
  using sun_from_tmp_d [of "[]"] by (simp add: open_file_dgram)

lemma sun_from_inet_s:
  "un_len (sun_name_from (Some name_inet_s) 9) = 9"
  "sun_family (sun_name_from (Some name_inet_s) 9) = Some 2"
  by (simp_all add: sun_name_from_def name_inet_s_def memcpy_def poke_def raw_sun_def
      sizeof_sockaddr_un_def Let_def sun_family_def rd_u16_def rd_u8_def)

lemma other_answers:
  "NT_SUCCESS (open_status open_ok)"
  "\<not> NT_SUCCESS (open_status open_refused)"
  "\<not> STATUS_PIPE_NO_INSTANCE_AVAILABLE (open_status open_refused)"
  "geterrno_from_nt_status proc0 status = EIO" "EIO \<noteq> EINPROGRESS"
  "heap proc0 a = None" "oa_handle open_ok = 0x70"
  by (simp_all add: open_status_def open_ok_def open_refused_def NT_SUCCESS_def
      STATUS_PIPE_NO_INSTANCE_AVAILABLE_def status_defs proc0_def EIO_def EINPROGRESS_def)

text \<open>
  Every case of the theorem on the example states.  A second connect while the first is
  pending, the connect of a listening socket and the connect of a connected stream socket
  are refused.  The stream socket is sent back to \<^verbatim>\<open>unconnected\<close> by an address of
  two bytes, an address of family 2, a path that does not exist and a peer that is a
  datagram socket.  The datagram socket, and the stream socket whose pipe opens at once,
  end connected; the stream socket whose pipe cannot be opened ends with \<^verbatim>\<open>EIO\<close> and
  \<^verbatim>\<open>connect_failed\<close>.  With no free instance the non-blocking socket returns
  \<^verbatim>\<open>EINPROGRESS\<close>, in state \<^verbatim>\<open>connect_pending\<close> when the waiter has done nothing
  yet and in state \<^verbatim>\<open>connected\<close> when it has ended; the blocking socket, whose waiter
  times out, returns \<^verbatim>\<open>ETIMEDOUT\<close> in state \<^verbatim>\<open>connect_failed\<close>.
\<close>

theorem connect_outcomes_witness:
  "conn_lock stream0 = Unlocked \<and> passes_state_checks stream0
   \<and> again_run = Some (- 1, sock_of pending_run, set_errno EALREADY (proc_of pending_run))
   \<and> connect_state (sock_of listening_run) = listener
   \<and> listener_run
       = Some (- 1, sock_of listening_run, set_errno EADDRINUSE (proc_of listening_run))
   \<and> connect_state (sock_of opened_run) = connected
   \<and> isconn_run = Some (- 1, sock_of opened_run, set_errno EISCONN (proc_of opened_run))
   \<and> short_run
       = Some (- 1, set_connect_state unconnected (set_connect_state connect_pending stream0),
               set_errno EINVAL proc0)
   \<and> wrong_family_run
       = Some (- 1, set_connect_state unconnected (set_connect_state connect_pending stream0),
               set_errno EAFNOSUPPORT proc0)
   \<and> missing_run
       = Some (- 1, set_connect_state unconnected (set_connect_state connect_pending stream0),
               set_errno ENOENT proc0)
   \<and> wrong_type_run
       = Some (- 1, set_connect_state unconnected (set_connect_state connect_pending stream0),
               set_errno EINVAL proc0)
   \<and> ret_of connected_run = Some 0 \<and> connect_state (sock_of connected_run) = connected
   \<and> ret_of opened_run = Some 0 \<and> io_handle (sock_of opened_run) = 0x70
   \<and> ret_of refused_connect_run = Some (- 1) \<and> errno (proc_of refused_connect_run) = EIO
   \<and> connect_state (sock_of refused_connect_run) = connect_failed
   \<and> ret_of pending_run = Some (- 1) \<and> errno (proc_of pending_run) = EINPROGRESS
   \<and> connect_state (sock_of pending_run) = connect_pending
   \<and> ret_of ended_run = Some (- 1) \<and> errno (proc_of ended_run) = EINPROGRESS
   \<and> connect_state (sock_of ended_run) = connected \<and> so_error (sock_of ended_run) = 0
   \<and> ret_of failed_run = Some (- 1) \<and> errno (proc_of failed_run) = ETIMEDOUT
   \<and> connect_state (sock_of failed_run) = connect_failed
   \<and> hd (connect_trace (sock_of failed_run)) = connect_pending"
proof -
  note lock = stream0_fields(5)
  note pass = stream0_passes
  have stream: "socket_type stream0 \<noteq> SOCK_DGRAM" "socket_type nonblock0 \<noteq> SOCK_DGRAM"
    by (simp_all add: stream0_fields nonblock0_fields SOCK_STREAM_def SOCK_DGRAM_def)
  have stores: "can_store 16 stream0 proc0" "can_send_name 16 stream0 proc0"
    "can_store 16 nonblock0 proc0" "can_send_name 16 nonblock0 proc0"
    "can_store 16 dgram0 proc0"
    using stream0_names
    by (simp_all add: fresh_socket_stores stream0_fields nonblock0_fields dgram0_fields)

  note a = connect_outcomes [where s = stream0 and e = conn_missing and name = "Some name_inet"
      and namelen = 2 and p = proc0, OF lock]
  note a1 = a [THEN conjunct2, THEN conjunct2, THEN conjunct2, THEN mp, OF pass]
  have short_addr: "un_len (sun_name_from (Some name_inet) 2) \<le> int sizeof_sa_family_t"
    by (simp add: sun_from_inet sizeof_sa_family_t_def)
  note short = a1 [THEN conjunct1, THEN mp, OF short_addr, folded short_run_def]
  note b = connect_outcomes [where s = stream0 and e = conn_missing and name = "Some name_inet_s"
      and namelen = 9 and p = proc0 and f = 2, OF lock]
  note b1 = b [THEN conjunct2, THEN conjunct2, THEN conjunct2, THEN mp, OF pass]
  have other_family: "int sizeof_sa_family_t < un_len (sun_name_from (Some name_inet_s) 9)
      \<and> sun_family (sun_name_from (Some name_inet_s) 9) = Some 2 \<and> (2 :: uint16_t) \<noteq> AF_UNIX"
    by (simp add: sun_from_inet_s sizeof_sa_family_t_def AF_UNIX_def)
  note family = b1 [THEN conjunct2, THEN conjunct1, THEN mp, OF other_family,
      folded wrong_family_run_def]

  have look_missing: "accepted_address (sun_name_from (Some name_tmp_s) 9)
      \<and> open_file (ce_lookup conn_missing) (sun_name_from (Some name_tmp_s) 9) proc0
          = Some (- 1, None, [], set_errno ENOENT proc0)"
    using sun_from_tmp_s [of "[]"] accepted_tmp_s
    by (simp add: conn_missing_def open_file_missing)
  note c = connect_outcomes [where s = stream0 and e = conn_missing and name = "Some name_tmp_s"
      and namelen = 9 and p = proc0, OF lock]
  note c1 = c [THEN conjunct2, THEN conjunct2, THEN conjunct2, THEN mp, OF pass]
  note c2 = c1 [THEN conjunct2, THEN conjunct2, THEN conjunct1, THEN mp, OF look_missing]
  have neg: "(- 1 :: int) < 0" by simp
  note missing = c2 [THEN conjunct1, THEN mp, OF neg, folded missing_run_def]
  have look_dgram: "accepted_address (sun_name_from (Some name_tmp_d) 9)
      \<and> open_file (ce_lookup conn_dgram) (sun_name_from (Some name_tmp_d) 9) proc0
          = Some (0, Some SOCK_DGRAM, lo_pipe_name lookup_dgram, proc0)"
    using accepted_tmp_d by (simp add: conn_dgram_def lookup_tmp_d)
  note d = connect_outcomes [where s = stream0 and e = conn_dgram and name = "Some name_tmp_d"
      and namelen = 9 and p = proc0, OF lock]
  note d1 = d [THEN conjunct2, THEN conjunct2, THEN conjunct2, THEN mp, OF pass]
  note d2 = d1 [THEN conjunct2, THEN conjunct2, THEN conjunct1, THEN mp, OF look_dgram]
  have mismatch: "(0 :: int) \<le> 0 \<and> Some SOCK_DGRAM \<noteq> Some (socket_type stream0)"
    by (simp add: stream0_fields SOCK_STREAM_def SOCK_DGRAM_def)
  note wrong_type = d2 [THEN conjunct2, THEN conjunct1, THEN mp, OF mismatch,
      folded wrong_type_run_def]

  have dpass: "passes_state_checks dgram0"
    by (simp add: passes_state_checks_def dgram0_fields)
  note g = connect_outcomes [where s = dgram0 and e = conn_dgram and name = "Some name_tmp_d"
      and namelen = 9 and p = proc0, OF dgram0_fields(3)]
  note g1 = g [THEN conjunct2, THEN conjunct2, THEN conjunct2, THEN mp, OF dpass]
  note g2 = g1 [THEN conjunct2, THEN conjunct2, THEN conjunct1, THEN mp, OF look_dgram]
  have dstored: "Some SOCK_DGRAM = Some (socket_type dgram0)
      \<and> can_store (ce_addr conn_dgram) dgram0 proc0"
    using stores(5) by (simp add: dgram0_fields conn_dgram_def)
  note g3 = g2 [THEN conjunct2, THEN conjunct2, THEN mp, OF dstored]
  note g4 = g3 [THEN conjunct1, THEN mp, OF dgram0_fields(1)]
  from g4 obtain sd pd where
    dgram: "connected_run = Some (0, sd, pd)" "connect_state sd = connected"
    unfolding connected_run_def by blast

  have look_stream: "accepted_address (sun_name_from (Some name_tmp_s) 9)
      \<and> open_file (ce_lookup conn_ok) (sun_name_from (Some name_tmp_s) 9) proc0
          = Some (0, Some SOCK_STREAM, lo_pipe_name lookup_stream, proc0)"
    "accepted_address (sun_name_from (Some name_tmp_s) 9)
      \<and> open_file (ce_lookup conn_refused) (sun_name_from (Some name_tmp_s) 9) proc0
          = Some (0, Some SOCK_STREAM, lo_pipe_name lookup_stream, proc0)"
    "accepted_address (sun_name_from (Some name_tmp_s) 9)
      \<and> open_file (ce_lookup conn_busy) (sun_name_from (Some name_tmp_s) 9) proc0
          = Some (0, Some SOCK_STREAM, lo_pipe_name lookup_stream, proc0)"
    "accepted_address (sun_name_from (Some name_tmp_s) 9)
      \<and> open_file (ce_lookup conn_ended) (sun_name_from (Some name_tmp_s) 9) proc0
          = Some (0, Some SOCK_STREAM, lo_pipe_name lookup_stream, proc0)"
    using accepted_tmp_s
    by (simp_all add: lookup_tmp_s conn_ok_def conn_refused_def conn_busy_def conn_ended_def)
  have sstored: "Some SOCK_STREAM = Some (socket_type stream0)
      \<and> can_store (ce_addr conn_ok) stream0 proc0"
    "Some SOCK_STREAM = Some (socket_type stream0)
      \<and> can_store (ce_addr conn_refused) stream0 proc0"
    "Some SOCK_STREAM = Some (socket_type stream0)
      \<and> can_store (ce_addr conn_busy) stream0 proc0"
    "Some SOCK_STREAM = Some (socket_type nonblock0)
      \<and> can_store (ce_addr conn_busy) nonblock0 proc0"
    "Some SOCK_STREAM = Some (socket_type nonblock0)
      \<and> can_store (ce_addr conn_ended) nonblock0 proc0"
    using stores
    by (simp_all add: stream0_fields nonblock0_fields conn_ok_def conn_refused_def
        conn_busy_def conn_ended_def)
  note h = connect_outcomes [where s = stream0 and e = conn_ok and name = "Some name_tmp_s"
      and namelen = 9 and p = proc0, OF lock]
  note h1 = h [THEN conjunct2, THEN conjunct2, THEN conjunct2, THEN mp, OF pass]
  note h2 = h1 [THEN conjunct2, THEN conjunct2, THEN conjunct1, THEN mp, OF look_stream(1)]
  note h3 = h2 [THEN conjunct2, THEN conjunct2, THEN mp, OF sstored(1)]
  note h4 = h3 [THEN conjunct2, THEN mp, OF stream(1)]
  have opens: "NT_SUCCESS (open_status (cp_open (ce_pipe conn_ok)))
      \<and> can_send_name (ce_addr conn_ok) stream0 proc0"
    using stores(2) by (simp add: conn_ok_def cpipe_ok_def other_answers)
  note h5 = h4 [THEN conjunct1, THEN mp, OF opens]
  from h5 obtain so po where
    opened: "opened_run = Some (0, so, po)" "conn_lock so = Unlocked"
      "connect_state so = connected" "io_handle so = oa_handle (cp_open (ce_pipe conn_ok))"
    unfolding opened_run_def by blast
  have projo: "sock_of opened_run = so" "proc_of opened_run = po" "ret_of opened_run = Some 0"
    by (simp_all add: opened sock_of_def proc_of_def ret_of_def)
  note h6 = h1 [THEN conjunct2, THEN conjunct2, THEN conjunct2, THEN spec, THEN spec,
      THEN spec, THEN mp, OF opened(1) [unfolded opened_run_def]]
  have so_stream: "connect_state so = connected \<and> socket_type so \<noteq> SOCK_DGRAM"
    using h6 opened(3) stream(1) by simp
  note i = connect_outcomes [where s = so and e = conn_ok and name = "Some name_tmp_s"
      and namelen = 9 and p = po, OF opened(2)]
  note isconn = i [THEN conjunct2, THEN conjunct2, THEN conjunct1, THEN mp, OF so_stream]
  obtain sl pl where listening: "listening_run = Some (0, sl, pl)"
      "connect_state sl = listener" "conn_lock sl = Unlocked"
    using listening_run_listener by blast
  have projl: "sock_of listening_run = sl" "proc_of listening_run = pl"
    by (simp_all add: listening sock_of_def proc_of_def)
  note j = connect_outcomes [where s = sl and e = conn_ok and name = "Some name_tmp_s"
      and namelen = 9 and p = pl, OF listening(3)]
  note inuse = j [THEN conjunct2, THEN conjunct1, THEN mp, OF listening(2)]
  note m = connect_outcomes [where s = stream0 and e = conn_refused and name = "Some name_tmp_s"
      and namelen = 9 and p = proc0, OF lock]
  note m1 = m [THEN conjunct2, THEN conjunct2, THEN conjunct2, THEN mp, OF pass]
  note m2 = m1 [THEN conjunct2, THEN conjunct2, THEN conjunct1, THEN mp, OF look_stream(2)]
  note m3 = m2 [THEN conjunct2, THEN conjunct2, THEN mp, OF sstored(2)]
  note m4 = m3 [THEN conjunct2, THEN mp, OF stream(1)]
  have refuses: "\<not> NT_SUCCESS (open_status (cp_open (ce_pipe conn_refused)))
      \<and> \<not> STATUS_PIPE_NO_INSTANCE_AVAILABLE (open_status (cp_open (ce_pipe conn_refused)))
      \<and> geterrno_from_nt_status proc0 (open_status (cp_open (ce_pipe conn_refused)))
          \<noteq> EINPROGRESS
      \<and> heap proc0 (ce_addr_failed conn_refused) = None"
    by (simp add: conn_refused_def other_answers)
  note m5 = m4 [THEN conjunct2, THEN conjunct1, THEN mp, OF refuses]
  from m5 obtain sr pr where
    refused: "refused_connect_run = Some (- 1, sr, pr)" "errno pr = EIO"
      "connect_state sr = connect_failed"
    unfolding refused_connect_run_def by (auto simp: other_answers)
  have waiter: "STATUS_PIPE_NO_INSTANCE_AVAILABLE (open_status (cp_open (ce_pipe conn_busy)))
      \<and> snd (we_event (cp_wait (ce_pipe conn_busy))) \<noteq> 0
      \<and> we_thread (cp_wait (ce_pipe conn_busy)) \<noteq> 0"
    "STATUS_PIPE_NO_INSTANCE_AVAILABLE (open_status (cp_open (ce_pipe conn_ended)))
      \<and> snd (we_event (cp_wait (ce_pipe conn_ended))) \<noteq> 0
      \<and> we_thread (cp_wait (ce_pipe conn_ended)) \<noteq> 0"
    by (simp_all add: conn_busy_def conn_ended_def busy_answers)
  note n = connect_outcomes [where s = nonblock0 and e = conn_busy and name = "Some name_tmp_s"
      and namelen = 9 and p = proc0, OF nonblock0_fields(3)]
  note n1 = n [THEN conjunct2, THEN conjunct2, THEN conjunct2, THEN mp, OF nonblock0_passes]
  note n2 = n1 [THEN conjunct2, THEN conjunct2, THEN conjunct1, THEN mp, OF look_stream(3)]
  note n3 = n2 [THEN conjunct2, THEN conjunct2, THEN mp, OF sstored(4)]
  note n4 = n3 [THEN conjunct2, THEN mp, OF stream(2)]
  note n5 = n4 [THEN conjunct2, THEN conjunct2, THEN mp, OF waiter(1)]
  note n6 = n5 [THEN conjunct1, THEN mp, OF nonblock0_fields(6)]
  have started: "we_progress (cp_wait (ce_pipe conn_busy)) \<noteq> Thread_ended"
    by (simp add: conn_busy_def busy_answers)
  from n6 started obtain sp pp where
    pending: "pending_run = Some (- 1, sp, pp)" "errno pp = EINPROGRESS"
      "conn_lock sp = Unlocked" "connect_state sp = connect_pending"
    unfolding pending_run_def by blast
  have projp: "sock_of pending_run = sp" "proc_of pending_run = pp"
    "ret_of pending_run = Some (- 1)"
    by (simp_all add: pending sock_of_def proc_of_def ret_of_def)
  note q = connect_outcomes [where s = sp and e = conn_busy and name = "Some name_tmp_s"
      and namelen = 9 and p = pp, OF pending(3)]
  note already = q [THEN conjunct1, THEN mp, OF pending(4)]
  note u = connect_outcomes [where s = nonblock0 and e = conn_ended and name = "Some name_tmp_s"
      and namelen = 9 and p = proc0 and r = round_opens and rs = "[]", OF nonblock0_fields(3)]
  note u1 = u [THEN conjunct2, THEN conjunct2, THEN conjunct2, THEN mp, OF nonblock0_passes]
  note u2 = u1 [THEN conjunct2, THEN conjunct2, THEN conjunct1, THEN mp, OF look_stream(4)]
  note u3 = u2 [THEN conjunct2, THEN conjunct2, THEN mp, OF sstored(5)]
  note u4 = u3 [THEN conjunct2, THEN mp, OF stream(2)]
  note u5 = u4 [THEN conjunct2, THEN conjunct2, THEN mp, OF waiter(2)]
  have ends: "is_nonblocking nonblock0
      \<and> we_progress (cp_wait (ce_pipe conn_ended)) = Thread_ended
      \<and> NT_SUCCESS (te_npfs (we_run (cp_wait (ce_pipe conn_ended))))
      \<and> snd (te_event (we_run (cp_wait (ce_pipe conn_ended)))) \<noteq> 0
      \<and> te_rounds (we_run (cp_wait (ce_pipe conn_ended))) = round_opens # []
      \<and> ro_status round_opens = STATUS_SUCCESS
      \<and> NT_SUCCESS (open_status (ro_open round_opens))
      \<and> can_send_name (ce_addr conn_ended) nonblock0 proc0"
    using stores(4) by (simp add: conn_ended_def busy_answers opening_answers nonblock0_fields)
  note u6 = u5 [THEN conjunct2, THEN conjunct1, THEN mp, OF ends]
  from u6 obtain se pe where
    ended: "ended_run = Some (- 1, se, pe)" "errno pe = EINPROGRESS"
      "connect_state se = connected" "so_error se = 0"
    unfolding ended_run_def by blast
  note v = connect_outcomes [where s = stream0 and e = conn_busy and name = "Some name_tmp_s"
      and namelen = 9 and p = proc0 and r = "hd (te_rounds thread_timed_out)" and rs = "[]",
      OF lock]
  note v1 = v [THEN conjunct2, THEN conjunct2, THEN conjunct2, THEN mp, OF pass]
  note v2 = v1 [THEN conjunct2, THEN conjunct2, THEN conjunct1, THEN mp, OF look_stream(3)]
  note v3 = v2 [THEN conjunct2, THEN conjunct2, THEN mp, OF sstored(3)]
  note v4 = v3 [THEN conjunct2, THEN mp, OF stream(1)]
  note v5 = v4 [THEN conjunct2, THEN conjunct2, THEN mp, OF waiter(1)]
  have times_out: "\<not> is_nonblocking stream0
      \<and> we_wait (cp_wait (ce_pipe conn_busy)) = WAIT_OBJECT_0
      \<and> NT_SUCCESS (te_npfs (we_run (cp_wait (ce_pipe conn_busy))))
      \<and> snd (te_event (we_run (cp_wait (ce_pipe conn_busy)))) \<noteq> 0
      \<and> te_rounds (we_run (cp_wait (ce_pipe conn_busy))) = hd (te_rounds thread_timed_out) # []
      \<and> ro_status (hd (te_rounds thread_timed_out)) = STATUS_IO_TIMEOUT
      \<and> heap proc0 (ce_addr_failed conn_busy) = None"
    using timed_out_rounds(1)
    by (simp add: conn_busy_def busy_answers timed_out_rounds(2) stream0_fields other_answers)
  note v6 = v5 [THEN conjunct2, THEN conjunct2, THEN mp, OF times_out]
  from v6 obtain sf pf where
    failed: "failed_run = Some (- 1, sf, pf)" "errno pf = ETIMEDOUT"
      "connect_state sf = connect_failed"
    unfolding failed_run_def by blast
  note v7 = v1 [THEN conjunct2, THEN conjunct2, THEN conjunct2, THEN spec, THEN spec,
      THEN spec, THEN mp, OF failed(1) [unfolded failed_run_def], THEN conjunct1]
  have trace: "hd (connect_trace sf) = connect_pending"
    using v7 by (auto simp: stream0_fields)
  have "again_run = Some (- 1, sock_of pending_run, set_errno EALREADY (proc_of pending_run))"
    using already by (simp add: again_run_def projp)
  moreover have "listener_run
      = Some (- 1, sock_of listening_run, set_errno EADDRINUSE (proc_of listening_run))"
    using inuse by (simp add: listener_run_def projl)
  moreover have "isconn_run
      = Some (- 1, sock_of opened_run, set_errno EISCONN (proc_of opened_run))"
    using isconn by (simp add: isconn_run_def projo)
  moreover have "connect_state (sock_of listening_run) = listener"
    "connect_state (sock_of opened_run) = connected"
    "ret_of opened_run = Some 0" "io_handle (sock_of opened_run) = 0x70"
    using listening(2) opened(3,4) by (simp_all add: projl projo conn_ok_def cpipe_ok_def
        other_answers)
  moreover have "ret_of connected_run = Some 0" "connect_state (sock_of connected_run) = connected"
    by (simp_all add: dgram sock_of_def ret_of_def)
  moreover have "ret_of refused_connect_run = Some (- 1)"
    "errno (proc_of refused_connect_run) = EIO"
    "connect_state (sock_of refused_connect_run) = connect_failed"
    by (simp_all add: refused sock_of_def proc_of_def ret_of_def)
  moreover have "ret_of pending_run = Some (- 1)" "errno (proc_of pending_run) = EINPROGRESS"
    "connect_state (sock_of pending_run) = connect_pending"
    using pending by (simp_all add: projp)
  moreover have "ret_of ended_run = Some (- 1)" "errno (proc_of ended_run) = EINPROGRESS"
    "connect_state (sock_of ended_run) = connected" "so_error (sock_of ended_run) = 0"
    by (simp_all add: ended sock_of_def proc_of_def ret_of_def)
  moreover have "ret_of failed_run = Some (- 1)" "errno (proc_of failed_run) = ETIMEDOUT"
    "connect_state (sock_of failed_run) = connect_failed"
    "hd (connect_trace (sock_of failed_run)) = connect_pending"
    by (simp_all add: failed trace sock_of_def proc_of_def ret_of_def)
  ultimately show ?thesis
    using lock pass short family missing wrong_type by simp
qed

end
